(* ===== verification/Prelude.thy ===== *)
theory Prelude
  imports Main "HOL-Library.Char_ord" "HOL-Library.List_Lexorder" "HOL-Library.Option_ord"
    "HOL-Library.Product_Lexorder"
begin

text \<open>
  Shared vocabulary of the parking API model. The controllers under
  \<open>src/parqueo-api/src/controllers\<close> all follow one shape: read the request, run SQL
  statements against one MySQL store, answer with a JSON object whose error
  responses carry an HTTP status and an \<open>error\<close> title. This theory fixes the pieces
  every component uses:
  \<^item> a SQL table as a list of rows keyed by an AUTO_INCREMENT id
    (\<open>'v tbl\<close>) with its SELECT, INSERT, UPDATE and DELETE statements and the lemmas
    that read a table after a write;
  \<^item> the JavaScript truthiness tests (\<open>!x\<close>) the handlers apply to request fields;
  \<^item> the error responses (\<open>http_error\<close>): the status code and the \<open>error\<close> title of every
    early \<open>return res.status(..).json(..)\<close> of the controllers;
  \<^item> ASCII upper-casing (\<open>toUpperCase\<close>) and the case-insensitive string comparison of
    the store's default collation.
\<close>

named_theorems handler_defs "definitions of the request handlers, unfolded by the component proofs"

section \<open>Tables\<close>

text \<open>
  A table holds its rows in insertion order, each under its primary key, and the next
  value of its AUTO_INCREMENT counter. \<open>INSERT\<close> appends a row under the counter
  (\<open>resultado.insertId\<close>) and bumps it; \<open>UPDATE ... WHERE id = ?\<close> rewrites the row
  with that key; \<open>DELETE ... WHERE id = ?\<close> drops it; \<open>SELECT ... WHERE P\<close> keeps the
  rows whose values satisfy \<open>P\<close>, in table order.
\<close>

record 'v tbl =
  rows :: "(nat \<times> 'v) list"
  next_id :: nat

definition tbl_empty :: "'v tbl" where
  "tbl_empty = \<lparr>rows = [], next_id = 1\<rparr>"

definition tbl_get :: "'v tbl \<Rightarrow> nat \<Rightarrow> 'v option" where
  "tbl_get t k = map_of (rows t) k"

definition tbl_insert :: "'v \<Rightarrow> 'v tbl \<Rightarrow> nat \<times> 'v tbl" where
  "tbl_insert v t = (next_id t, t\<lparr>rows := rows t @ [(next_id t, v)], next_id := Suc (next_id t)\<rparr>)"

definition tbl_modify :: "nat \<Rightarrow> ('v \<Rightarrow> 'v) \<Rightarrow> 'v tbl \<Rightarrow> 'v tbl" where
  "tbl_modify k f t = t\<lparr>rows := map (\<lambda>(k', v). if k' = k then (k', f v) else (k', v)) (rows t)\<rparr>"

definition tbl_delete :: "nat \<Rightarrow> 'v tbl \<Rightarrow> 'v tbl" where
  "tbl_delete k t = t\<lparr>rows := filter (\<lambda>(k', _). k' \<noteq> k) (rows t)\<rparr>"

definition tbl_where :: "('v \<Rightarrow> bool) \<Rightarrow> 'v tbl \<Rightarrow> (nat \<times> 'v) list" where
  "tbl_where P t = filter (\<lambda>(_, v). P v) (rows t)"

definition tbl_exists :: "('v \<Rightarrow> bool) \<Rightarrow> 'v tbl \<Rightarrow> bool" where
  "tbl_exists P t = list_ex (\<lambda>(_, v). P v) (rows t)"

definition tbl_count :: "('v \<Rightarrow> bool) \<Rightarrow> 'v tbl \<Rightarrow> nat" where
  "tbl_count P t = length (tbl_where P t)"

text \<open>Well-formed: keys distinct and all below the counter, so a new key is fresh.\<close>

definition tbl_wf :: "'v tbl \<Rightarrow> bool" where
  "tbl_wf t \<longleftrightarrow> distinct (map fst (rows t)) \<and> list_all (\<lambda>(k, _). k < next_id t) (rows t)"

lemma tbl_wf_empty [simp]: "tbl_wf tbl_empty"
  by (simp add: tbl_wf_def tbl_empty_def)

lemma tbl_get_empty [simp]: "tbl_get tbl_empty k = None"
  by (simp add: tbl_get_def tbl_empty_def)

lemma tbl_get_Some_iff:
  "tbl_wf t \<Longrightarrow> tbl_get t k = Some v \<longleftrightarrow> (k, v) \<in> set (rows t)"
  unfolding tbl_get_def tbl_wf_def by (metis map_of_SomeD map_of_is_SomeI)

lemma tbl_get_in_rows: "tbl_get t k = Some v \<Longrightarrow> (k, v) \<in> set (rows t)"
  by (simp add: tbl_get_def map_of_SomeD)

lemma tbl_get_None_iff: "tbl_get t k = None \<longleftrightarrow> k \<notin> fst ` set (rows t)"
  by (simp add: tbl_get_def map_of_eq_None_iff)

lemma tbl_wf_key_bound: "tbl_wf t \<Longrightarrow> (k, v) \<in> set (rows t) \<Longrightarrow> k < next_id t"
  by (auto simp: tbl_wf_def list_all_iff)

lemma tbl_get_next_id [simp]: "tbl_wf t \<Longrightarrow> tbl_get t (next_id t) = None"
  by (auto simp: tbl_get_None_iff dest: tbl_wf_key_bound)

subsection \<open>Reading a table after a write\<close>

lemma tbl_insert_key [simp]: "fst (tbl_insert v t) = next_id t"
  by (simp add: tbl_insert_def)

lemma rows_tbl_insert [simp]: "rows (snd (tbl_insert v t)) = rows t @ [(next_id t, v)]"
  by (simp add: tbl_insert_def)

lemma next_id_tbl_insert [simp]: "next_id (snd (tbl_insert v t)) = Suc (next_id t)"
  by (simp add: tbl_insert_def)

lemma tbl_insert_Pair [simp]:
  "tbl_insert v t = (k, t') \<longleftrightarrow> k = next_id t \<and> t' = snd (tbl_insert v t)"
  by (auto simp: tbl_insert_def)

lemma tbl_get_insert [simp]:
  assumes "tbl_wf t"
  shows "tbl_get (snd (tbl_insert v t)) k = (if k = next_id t then Some v else tbl_get t k)"
proof -
  from assms have "map_of (rows t) (next_id t) = None"
    using tbl_get_next_id by (simp add: tbl_get_def)
  then show ?thesis by (auto simp: tbl_get_def map_add_def split: option.split)
qed

lemma tbl_wf_insert [simp]: "tbl_wf t \<Longrightarrow> tbl_wf (snd (tbl_insert v t))"
  by (auto simp: tbl_wf_def list_all_iff)

lemma rows_tbl_modify: "rows (tbl_modify k f t) = map (\<lambda>(k', v). if k' = k then (k', f v) else (k', v)) (rows t)"
  by (simp add: tbl_modify_def)

lemma next_id_tbl_modify [simp]: "next_id (tbl_modify k f t) = next_id t"
  by (simp add: tbl_modify_def)

lemma map_fst_tbl_modify [simp]: "map fst (rows (tbl_modify k f t)) = map fst (rows t)"
proof -
  have "map fst (map (\<lambda>(k', v). if k' = k then (k', f v) else (k', v)) xs) = map fst xs" for xs
    by (induction xs) auto
  then show ?thesis by (simp add: rows_tbl_modify)
qed

lemma map_of_modify:
  "map_of (map (\<lambda>(k', v). if k' = k then (k', f v) else (k', v)) xs) k'' =
     (if k'' = k then map_option f (map_of xs k'') else map_of xs k'')"
  by (induction xs) auto

lemma tbl_get_modify [simp]:
  "tbl_get (tbl_modify k f t) k' = (if k' = k then map_option f (tbl_get t k') else tbl_get t k')"
  by (simp add: tbl_get_def tbl_modify_def map_of_modify)

lemma tbl_wf_modify [simp]: "tbl_wf (tbl_modify k f t) = tbl_wf t"
proof -
  have "list_all (\<lambda>(k, _). k < n) (map (\<lambda>(k', v). if k' = k then (k', f v) else (k', v)) xs) =
      list_all (\<lambda>(k, _). k < n) xs" for n xs
    by (induction xs) (auto split: if_splits)
  then show ?thesis
    by (simp only: tbl_wf_def map_fst_tbl_modify next_id_tbl_modify) (simp add: rows_tbl_modify)
qed

lemma set_rows_modify:
  "(k', v') \<in> set (rows (tbl_modify k f t)) \<longleftrightarrow>
     (\<exists>v. (k', v) \<in> set (rows t) \<and> v' = (if k' = k then f v else v))"
proof -
  have "(k', v') \<in> set (map (\<lambda>(k', v). if k' = k then (k', f v) else (k', v)) xs) \<longleftrightarrow>
     (\<exists>v. (k', v) \<in> set xs \<and> v' = (if k' = k then f v else v))" for xs
    by (induction xs) (auto split: if_splits)
  then show ?thesis by (simp add: rows_tbl_modify)
qed

lemma map_of_filter_key:
  "map_of (filter (\<lambda>(k', _). k' \<noteq> k) xs) k' = (if k' = k then None else map_of xs k')"
  by (induction xs) auto

lemma tbl_get_delete [simp]:
  "tbl_get (tbl_delete k t) k' = (if k' = k then None else tbl_get t k')"
proof -
  have "rows (tbl_delete k t) = filter (\<lambda>(k', _). k' \<noteq> k) (rows t)"
    by (simp add: tbl_delete_def)
  then show ?thesis by (simp only: tbl_get_def map_of_filter_key)
qed

lemma next_id_tbl_delete [simp]: "next_id (tbl_delete k t) = next_id t"
  by (simp add: tbl_delete_def)

lemma tbl_wf_delete [simp]: "tbl_wf t \<Longrightarrow> tbl_wf (tbl_delete k t)"
  by (auto simp: tbl_wf_def tbl_delete_def list_all_iff distinct_map_filter)

lemma set_rows_delete [simp]: "set (rows (tbl_delete k t)) = {(k', v) \<in> set (rows t). k' \<noteq> k}"
  by (auto simp: tbl_delete_def)

lemma tbl_exists_iff: "tbl_exists P t \<longleftrightarrow> (\<exists>(k, v) \<in> set (rows t). P v)"
  by (simp add: tbl_exists_def list_ex_iff)

lemma tbl_where_Nil_iff: "tbl_where P t = [] \<longleftrightarrow> \<not> tbl_exists P t"
  by (auto simp: tbl_where_def tbl_exists_def filter_empty_conv list_ex_iff)

lemma tbl_count_zero_iff: "tbl_count P t = 0 \<longleftrightarrow> \<not> tbl_exists P t"
  by (simp add: tbl_count_def tbl_where_Nil_iff)

lemmas tbl_rows_simps = rows_tbl_modify set_rows_modify tbl_exists_iff

text \<open>\<open>DELETE FROM ... WHERE P\<close>: drops every row whose value satisfies \<open>P\<close>.\<close>

definition tbl_delete_where :: "('v \<Rightarrow> bool) \<Rightarrow> 'v tbl \<Rightarrow> 'v tbl" where
  "tbl_delete_where P t = t\<lparr>rows := filter (\<lambda>(_, v). \<not> P v) (rows t)\<rparr>"

lemma set_rows_delete_where [simp]:
  "set (rows (tbl_delete_where P t)) = {(k, v) \<in> set (rows t). \<not> P v}"
  by (auto simp: tbl_delete_where_def)

lemma next_id_tbl_delete_where [simp]: "next_id (tbl_delete_where P t) = next_id t"
  by (simp add: tbl_delete_where_def)

lemma tbl_wf_delete_where [simp]: "tbl_wf t \<Longrightarrow> tbl_wf (tbl_delete_where P t)"
  by (auto simp: tbl_wf_def tbl_delete_where_def list_all_iff distinct_map_filter)


section \<open>JavaScript truthiness of request fields\<close>

text \<open>
  A request field is \<open>None\<close> when the JSON body lacks it (\<open>undefined\<close>). The handlers
  test fields with \<open>!x\<close>, which is true for \<open>undefined\<close> and for the falsy values
  \<open>0\<close>, \<open>''\<close> and \<open>false\<close>; so an id \<open>0\<close> or an amount \<open>0\<close> counts as missing.
\<close>

definition truthy_nat :: "nat option \<Rightarrow> bool" where
  "truthy_nat x = (case x of None \<Rightarrow> False | Some n \<Rightarrow> n \<noteq> 0)"

definition truthy_int :: "int option \<Rightarrow> bool" where
  "truthy_int x = (case x of None \<Rightarrow> False | Some n \<Rightarrow> n \<noteq> 0)"

definition truthy_str :: "string option \<Rightarrow> bool" where
  "truthy_str x = (case x of None \<Rightarrow> False | Some s \<Rightarrow> s \<noteq> [])"

definition truthy_bool :: "bool option \<Rightarrow> bool" where
  "truthy_bool x = (case x of None \<Rightarrow> False | Some b \<Rightarrow> b)"

lemma truthy_simps [simp]:
  "truthy_nat None = False" "truthy_nat (Some n) = (n \<noteq> 0)"
  "truthy_int None = False" "truthy_int (Some i) = (i \<noteq> 0)"
  "truthy_str None = False" "truthy_str (Some s) = (s \<noteq> [])"
  "truthy_bool None = False" "truthy_bool (Some b) = b"
  by (simp_all add: truthy_nat_def truthy_int_def truthy_str_def truthy_bool_def)

text \<open>The value of a truthy field; \<open>the\<close> is only applied after the test.\<close>

lemma truthy_nat_Some: "truthy_nat x \<Longrightarrow> \<exists>n. x = Some n \<and> n \<noteq> 0"
  by (cases x) auto

section \<open>Error responses\<close>

text \<open>
  The \<open>error\<close> titles of the controllers' early returns, one constructor per distinct
  title (the accents of the Spanish titles dropped), and the response as the status
  code with its title.
\<close>

datatype err =
    CamposRequeridos | CampoRequerido | CamposIncompletos
  | VehiculoNoEncontrado | EspacioNoEncontrado | EspacioNoDisponible
  | TicketActivoExistente | TicketNoEncontrado | TicketYaCerrado | TicketNoCerrado
  | PagoYaRegistrado | TipoPagoNoEncontrado | PagoNoEncontrado | TipoPagoYaExiste
  | ZonaNoEncontrada | CodigoDuplicado | NoSePuedeEliminar
  | TarifaNoEncontrada | PrecioInvalido | ClienteNoEncontrado | PlacaDuplicada
  | FechasInvalidas | ReservaNoEncontrada | ReservaNoModificable
  | NoSePuedeCancelar | NoSePuedeFinalizar | MultaNoEncontrada | MontoInvalido
  | UsuarioNoEncontrado | UsuarioYaEsEmpleado | DpiDuplicado | TurnoNoEncontrado
  | EmpleadoNoEncontrado | FormatoHoraInvalido | RolYaExiste | RolNoEncontrado
  | NombreDuplicado | RegistroNoEncontrado | ParametroInvalido
  | CorreoYaRegistrado | CredencialesInvalidas | UsuarioInactivo
  | TokenNoProporcionado | FormatoTokenInvalido | TokenExpirado | TokenInvalido
  | NoAutenticado | AccesoDenegado | ErrorInterno

datatype http_error = HttpError nat err

fun status :: "http_error \<Rightarrow> nat" where
  "status (HttpError c _) = c"

fun title :: "http_error \<Rightarrow> err" where
  "title (HttpError _ e) = e"

text \<open>A handler answers with an error, or with its result and the committed store.\<close>

type_synonym ('a, 's) handler_result = "http_error + ('a \<times> 's)"

section \<open>Strings\<close>

text \<open>
  \<open>String.prototype.toUpperCase\<close> on ASCII letters, and equality under the store's
  default case-insensitive collation, which compares the upper-cased strings.
\<close>

definition upper_char :: "char \<Rightarrow> char" where
  "upper_char c = (if CHR ''a'' \<le> c \<and> c \<le> CHR ''z'' then char_of (of_char c - (32::nat)) else c)"

definition upper :: "string \<Rightarrow> string" where
  "upper s = map upper_char s"

definition ci_eq :: "string \<Rightarrow> string \<Rightarrow> bool" where
  "ci_eq a b \<longleftrightarrow> upper a = upper b"

lemma upper_char_idem [simp]: "upper_char (upper_char c) = upper_char c"
proof (cases "CHR ''a'' \<le> c \<and> c \<le> CHR ''z''")
  case True
  then have lo: "(97::nat) \<le> of_char c" and hi: "of_char c \<le> (122::nat)"
    by (simp_all add: less_eq_char_def)
  then have "of_char (char_of (of_char c - (32::nat))) = (of_char c - 32 :: nat)"
    by (simp add: of_char_of)
  with lo hi have "\<not> (CHR ''a'' \<le> char_of (of_char c - (32::nat)))"
    unfolding less_eq_char_def by simp
  with True show ?thesis by (simp add: upper_char_def)
next
  case False
  then have "upper_char c = c" by (auto simp: upper_char_def)
  then show ?thesis by simp
qed
lemma upper_idem [simp]: "upper (upper s) = upper s"
  by (simp add: upper_def comp_def)

lemma ci_eq_upper [simp]: "ci_eq (upper a) b = ci_eq a b" "ci_eq a (upper b) = ci_eq a b"
  by (simp_all add: ci_eq_def)

lemma ci_eq_refl [simp]: "ci_eq a a"
  by (simp add: ci_eq_def)

end
