(* ===== verification/Store.thy ===== *)
theory Store
  imports Prelude
begin

text \<open>
  The relational store the controllers share (\<open>src/parqueo-api/src/config/database\<close>,
  a MySQL connection pool, is not in the repository). One row record per table, with
  the columns the controllers' SQL statements read or write; the database is one
  record of tables and the server clock that \<open>NOW()\<close> and the \<open>CURRENT_TIMESTAMP\<close>
  column defaults read.

  Conventions. Ids are \<open>nat\<close>. Money (\<open>precio_hora\<close>, \<open>monto\<close>) is an \<open>int\<close> number of
  cents, the exact value of a \<open>DECIMAL(.., 2)\<close> column. Timestamps are \<open>int\<close> seconds of
  the server clock; a calendar date (\<open>DATE(..)\<close>) is the day number of a timestamp. A
  column that a handler can set to SQL \<open>NULL\<close> (an \<open>UPDATE\<close> that passes a field the
  request body lacks: \<open>undefined\<close> is sent as \<open>NULL\<close>) has an \<open>option\<close> type; the
  others are plain.
\<close>

type_synonym timestamp = int
type_synonym cents = int

datatype estado_ticket = ACTIVO | CERRADO

datatype estado_reserva = ACTIVA | FINALIZADA | CANCELADA

lemma estado_ticket_neq [simp]: "x \<noteq> CERRADO \<longleftrightarrow> x = ACTIVO" "x \<noteq> ACTIVO \<longleftrightarrow> x = CERRADO"
  by (cases x; simp)+

record usuario_row =
  u_nombre :: string
  u_correo :: string
  u_password :: string
  u_rol_id :: nat
  u_activo :: "bool option"

record rol_row =
  r_nombre :: string
  r_descripcion :: "string option"

record turno_row =
  tu_descripcion :: "string option"
  tu_hora_inicio :: "string option"
  tu_hora_fin :: "string option"

record empleado_row =
  em_usuario_id :: nat
  em_turno_id :: "nat option"
  em_telefono :: "string option"
  em_direccion :: "string option"
  em_dpi :: "string option"

record cliente_row =
  c_nombre :: "string option"
  c_telefono :: "string option"
  c_correo :: "string option"
  c_nit :: "string option"

record vehiculo_row =
  v_cliente_id :: "nat option"
  v_placa :: "string option"
  v_marca :: "string option"
  v_modelo :: "string option"
  v_color :: "string option"

record zona_row =
  z_nombre :: "string option"
  z_descripcion :: "string option"

record espacio_row =
  e_zona_id :: "nat option"
  e_codigo :: "string option"
  e_disponible :: "bool option"

record tarifa_row =
  ta_descripcion :: "string option"
  ta_precio_hora :: "cents option"

record ticket_row =
  t_vehiculo_id :: nat
  t_espacio_id :: nat
  t_empleado_id :: nat
  t_tarifa_id :: nat
  t_hora_entrada :: timestamp
  t_hora_salida :: "timestamp option"
  t_estado :: estado_ticket

record tipo_pago_row =
  tp_nombre :: "string option"

record pago_row =
  p_ticket_id :: nat
  p_tipo_pago_id :: nat
  p_monto :: cents
  p_fecha_pago :: timestamp

record multa_row =
  m_ticket_id :: nat
  m_motivo :: "string option"
  m_monto :: "cents option"
  m_fecha :: timestamp

record reserva_row =
  re_cliente_id :: nat
  re_espacio_id :: nat
  re_fecha_reserva :: timestamp
  re_fecha_inicio :: "timestamp option"
  re_fecha_fin :: "timestamp option"
  re_estado :: "estado_reserva option"

record historial_row =
  h_usuario_id :: nat
  h_accion :: string
  h_fecha :: timestamp

record db =
  usuarios :: "usuario_row tbl"
  roles :: "rol_row tbl"
  turnos :: "turno_row tbl"
  empleados :: "empleado_row tbl"
  clientes :: "cliente_row tbl"
  vehiculos :: "vehiculo_row tbl"
  zonas :: "zona_row tbl"
  espacios :: "espacio_row tbl"
  tarifas :: "tarifa_row tbl"
  tickets :: "ticket_row tbl"
  tipos_pago :: "tipo_pago_row tbl"
  pagos :: "pago_row tbl"
  multas :: "multa_row tbl"
  reservas :: "reserva_row tbl"
  historial :: "historial_row tbl"
  now :: timestamp

definition db0 :: "timestamp \<Rightarrow> db" where
  "db0 t = \<lparr>usuarios = tbl_empty, roles = tbl_empty, turnos = tbl_empty, empleados = tbl_empty,
     clientes = tbl_empty, vehiculos = tbl_empty, zonas = tbl_empty, espacios = tbl_empty,
     tarifas = tbl_empty, tickets = tbl_empty, tipos_pago = tbl_empty, pagos = tbl_empty,
     multas = tbl_empty, reservas = tbl_empty, historial = tbl_empty, now = t\<rparr>"

text \<open>Every table well formed: the AUTO_INCREMENT counters never hand out a used id.\<close>

definition db_wf :: "db \<Rightarrow> bool" where
  "db_wf s \<longleftrightarrow> tbl_wf (usuarios s) \<and> tbl_wf (roles s) \<and> tbl_wf (turnos s) \<and>
     tbl_wf (empleados s) \<and> tbl_wf (clientes s) \<and> tbl_wf (vehiculos s) \<and> tbl_wf (zonas s) \<and>
     tbl_wf (espacios s) \<and> tbl_wf (tarifas s) \<and> tbl_wf (tickets s) \<and> tbl_wf (tipos_pago s) \<and>
     tbl_wf (pagos s) \<and> tbl_wf (multas s) \<and> tbl_wf (reservas s) \<and> tbl_wf (historial s)"

lemma db_wf_db0 [simp]: "db_wf (db0 t)"
  by (simp add: db_wf_def db0_def)

text \<open>The JavaScript truthiness of a nullable \<open>disponible\<close> column read back (\<open>!espacio.disponible\<close>).\<close>

definition disponible :: "espacio_row \<Rightarrow> bool" where
  "disponible e = truthy_bool (e_disponible e)"

end
