(* ===== verification/Billing.thy ===== *)
theory Billing
  imports Complex_Main Store
begin

text \<open>
  The charge of a stay, as the SQL of \<open>registrarSalida\<close>
  (\<open>tickets.controller.js\<close>, lines 178--180) and of \<open>registrarPago\<close>
  (\<open>pagos.controller.js\<close>, lines 26--27 and 67) computes it:
  \<^item> \<open>TIMESTAMPDIFF(MINUTE, hora_entrada, hora_salida)\<close>: whole minutes between the two
    timestamps, the quotient truncated towards zero;
  \<^item> \<open>CEIL(minutos / 60.0)\<close>: the hours to charge, rounded up. MySQL divides the integer
    by the decimal \<open>60.0\<close> with four extra decimal digits; a fractional part of
    \<open>m / 60\<close> is a multiple of \<open>1/60 > 0.0001\<close>, so the rounding is exact and the integer
    quotient rounded towards plus infinity is the same value;
  \<^item> \<open>horas_cobrar * precio_hora\<close>: the amount, in cents.
  The columns may be \<open>NULL\<close> (a ticket not yet closed, a tariff that is gone): the
  SQL expression is then \<open>NULL\<close>, and the JavaScript product \<open>null * x\<close> of
  \<open>registrarPago\<close> is \<open>0\<close>.
\<close>

definition timestampdiff_minute :: "timestamp \<Rightarrow> timestamp \<Rightarrow> int" where
  "timestampdiff_minute a b = (let d = b - a in sgn d * (\<bar>d\<bar> div 60))"

definition ceil_div60 :: "int \<Rightarrow> int" where
  "ceil_div60 m = - ((- m) div 60)"

definition horas_cobrar :: "timestamp \<Rightarrow> timestamp \<Rightarrow> int" where
  "horas_cobrar entrada salida = ceil_div60 (timestampdiff_minute entrada salida)"

text \<open>The nullable columns of the two SELECTs.\<close>

definition sql_minutos :: "ticket_row \<Rightarrow> int option" where
  "sql_minutos t = map_option (timestampdiff_minute (t_hora_entrada t)) (t_hora_salida t)"

definition sql_horas :: "ticket_row \<Rightarrow> int option" where
  "sql_horas t = map_option (horas_cobrar (t_hora_entrada t)) (t_hora_salida t)"

definition sql_monto :: "ticket_row \<Rightarrow> cents option \<Rightarrow> cents option" where
  "sql_monto t precio = (case (sql_horas t, precio) of
     (Some h, Some p) \<Rightarrow> Some (h * p) | _ \<Rightarrow> None)"

text \<open>JavaScript's \<open>*\<close> on a value read from the store: \<open>null\<close> is \<open>0\<close>.\<close>

definition js_num :: "int option \<Rightarrow> int" where
  "js_num x = (case x of None \<Rightarrow> 0 | Some n \<Rightarrow> n)"

subsection \<open>Minutes\<close>

lemma timestampdiff_minute_nonneg:
  "a \<le> b \<Longrightarrow> timestampdiff_minute a b = (b - a) div 60"
  by (cases "a = b") (simp_all add: timestampdiff_minute_def Let_def sgn_if)

lemma timestampdiff_minute_bounds:
  assumes "a \<le> b"
  shows "60 * timestampdiff_minute a b \<le> b - a \<and> b - a < 60 * timestampdiff_minute a b + 60"
  using assms by (simp add: timestampdiff_minute_nonneg) linarith

lemma timestampdiff_minute_ge0: "a \<le> b \<Longrightarrow> 0 \<le> timestampdiff_minute a b"
  by (simp add: timestampdiff_minute_nonneg)

subsection \<open>Hours\<close>

text \<open>The integer form is the ceiling of the rational quotient.\<close>

lemma ceil_div60_ceiling: "ceil_div60 m = ceiling (of_int m / (60::rat))"
proof -
  have "\<lfloor>of_int (- m) / (60::rat)\<rfloor> = (- m) div 60"
    using floor_divide_of_int_eq [of "- m" 60] by simp
  then show ?thesis
    by (simp add: ceil_div60_def ceiling_def)
qed


lemma ceil_div60_iff: "ceil_div60 m = h \<longleftrightarrow> 60 * (h - 1) < m \<and> m \<le> 60 * h"
proof -
  define q where "q = (- m) div 60"
  define r where "r = (- m) mod 60"
  have m: "m = - (60 * q + r)"
    unfolding q_def r_def by (metis add.inverse_inverse mult_div_mod_eq)
  have r: "0 \<le> r" "r < 60"
    unfolding r_def by simp_all
  have c: "ceil_div60 m = - q"
    by (simp add: ceil_div60_def q_def)
  have hq: "h = - q" if "60 * (h - 1) < m" "m \<le> 60 * h"
  proof -
    from that m r have "60 * (h + q) < 60" "- 60 < 60 * (h + q)"
      by (simp_all add: algebra_simps)
    then have "h + q < 1" "- 1 < h + q"
      by simp_all
    then show "h = - q" by linarith
  qed
  show ?thesis
  proof
    assume "ceil_div60 m = h"
    with c have "h = - q" by simp
    with m r show "60 * (h - 1) < m \<and> m \<le> 60 * h" by (simp add: algebra_simps)
  next
    assume "60 * (h - 1) < m \<and> m \<le> 60 * h"
    with hq c show "ceil_div60 m = h" by simp
  qed
qed

lemma ceil_div60_mono: "m \<le> m' \<Longrightarrow> ceil_div60 m \<le> ceil_div60 m'"
  unfolding ceil_div60_def using zdiv_mono1 [of "- m'" "- m" 60] by simp

lemma ceil_div60_ge0: "0 \<le> m \<Longrightarrow> 0 \<le> ceil_div60 m"
  unfolding ceil_div60_def by (simp add: div_nonpos_pos_le0)

lemma ceil_div60_pos: "0 < m \<Longrightarrow> 0 < ceil_div60 m"
  using ceil_div60_iff [of m "ceil_div60 m"] by simp
end
