(* ===== verification/Tickets.thy ===== *)
theory Tickets
  imports Billing
begin

text \<open>
  The ticket lifecycle (\<open>src/parqueo-api/src/controllers/tickets.controller.js\<close>).
  \<open>registrarEntrada\<close> opens a ticket and marks its space occupied, \<open>registrarSalida\<close>
  closes it, frees the space and reports the charge; both run in one transaction and
  roll back on every early return, so an error leaves the store as it was. The four
  read handlers are SELECTs over the tickets table. The acting user
  (\<open>req.usuario.id\<close>, set by the token middleware) is a parameter.
\<close>

section \<open>Register entry\<close>

definition ticket_nuevo :: "nat \<Rightarrow> nat \<Rightarrow> nat \<Rightarrow> nat \<Rightarrow> timestamp \<Rightarrow> ticket_row" where
  "ticket_nuevo v e emp ta t =
     \<lparr>t_vehiculo_id = v, t_espacio_id = e, t_empleado_id = emp, t_tarifa_id = ta,
      t_hora_entrada = t, t_hora_salida = None, t_estado = ACTIVO\<rparr>"

definition activo_de :: "nat \<Rightarrow> ticket_row \<Rightarrow> bool" where
  "activo_de v t \<longleftrightarrow> t_vehiculo_id t = v \<and> t_estado t = ACTIVO"

definition registrarEntrada ::
  "nat \<Rightarrow> nat option \<Rightarrow> nat option \<Rightarrow> nat option \<Rightarrow> db \<Rightarrow> (nat, db) handler_result" where
  "registrarEntrada usuario_id vehiculo_id espacio_id tarifa_id s =
    (if \<not> truthy_nat vehiculo_id \<or> \<not> truthy_nat espacio_id \<or> \<not> truthy_nat tarifa_id
     then Inl (HttpError 400 CamposRequeridos)
     else
       let v = the vehiculo_id; e = the espacio_id; ta = the tarifa_id in
       if tbl_get (vehiculos s) v = None then Inl (HttpError 404 VehiculoNoEncontrado)
       else case tbl_get (espacios s) e of
         None \<Rightarrow> Inl (HttpError 404 EspacioNoEncontrado)
       | Some esp \<Rightarrow>
           if \<not> disponible esp then Inl (HttpError 400 EspacioNoDisponible)
           else if tbl_exists (activo_de v) (tickets s) then Inl (HttpError 400 TicketActivoExistente)
           else
             let (k, ts) = tbl_insert (ticket_nuevo v e usuario_id ta (now s)) (tickets s);
                 es = tbl_modify e (\<lambda>r. r\<lparr>e_disponible := Some False\<rparr>) (espacios s)
             in Inr (k, s\<lparr>tickets := ts, espacios := es\<rparr>))"

declare registrarEntrada_def [handler_defs]

section \<open>Register exit\<close>

text \<open>The tariff price a ticket joins to (\<open>LEFT JOIN Tarifas\<close>): \<open>NULL\<close> when the row is gone.\<close>

definition precio_de :: "db \<Rightarrow> nat \<Rightarrow> cents option" where
  "precio_de s ta = (case tbl_get (tarifas s) ta of None \<Rightarrow> None | Some r \<Rightarrow> ta_precio_hora r)"

text \<open>
  The columns \<open>minutos_totales\<close>, \<open>horas_cobrar\<close> and \<open>monto_total\<close> of the SELECT that
  follows the commit; \<open>None\<close> when no row has the id (\<open>ticketActualizado[0]\<close> is
  \<open>undefined\<close>).
\<close>

type_synonym calculo = "int option \<times> int option \<times> cents option"

definition salida_view :: "db \<Rightarrow> nat \<Rightarrow> calculo option" where
  "salida_view s k = map_option (\<lambda>t. (sql_minutos t, sql_horas t, sql_monto t (precio_de s (t_tarifa_id t))))
     (tbl_get (tickets s) k)"

definition cerrar :: "timestamp \<Rightarrow> ticket_row \<Rightarrow> ticket_row" where
  "cerrar t r = r\<lparr>t_hora_salida := Some t, t_estado := CERRADO\<rparr>"

definition registrarSalida :: "nat \<Rightarrow> db \<Rightarrow> (calculo option, db) handler_result" where
  "registrarSalida k s =
    (case tbl_get (tickets s) k of
      None \<Rightarrow> Inl (HttpError 404 TicketNoEncontrado)
    | Some t \<Rightarrow>
        if t_estado t = CERRADO then Inl (HttpError 400 TicketYaCerrado)
        else
          let s' = s\<lparr>tickets := tbl_modify k (cerrar (now s)) (tickets s),
                     espacios := tbl_modify (t_espacio_id t) (\<lambda>r. r\<lparr>e_disponible := Some True\<rparr>) (espacios s)\<rparr>
          in Inr (salida_view s' k, s'))"

declare registrarSalida_def [handler_defs]

section \<open>Read handlers\<close>

text \<open>
  \<open>DATE(ts)\<close> is the day number of a timestamp; \<open>ORDER BY col DESC\<close> is the rows sorted
  by the column, largest first (SQL leaves the order of ties open; the model takes the
  reverse of the table order).
\<close>

definition day_of :: "timestamp \<Rightarrow> int" where
  "day_of ts = ts div 86400"

definition order_desc :: "('v \<Rightarrow> int) \<Rightarrow> (nat \<times> 'v) list \<Rightarrow> (nat \<times> 'v) list" where
  "order_desc f xs = rev (sort_key (\<lambda>(_, v). f v) xs)"

definition filtro_fecha :: "int option \<Rightarrow> int option \<Rightarrow> timestamp \<Rightarrow> bool" where
  "filtro_fecha ini fin ts \<longleftrightarrow>
     (case ini of None \<Rightarrow> True | Some d \<Rightarrow> d \<le> day_of ts) \<and>
     (case fin of None \<Rightarrow> True | Some d \<Rightarrow> day_of ts \<le> d)"

definition listarTickets ::
  "estado_ticket option \<Rightarrow> int option \<Rightarrow> int option \<Rightarrow> db \<Rightarrow> (nat \<times> ticket_row) list" where
  "listarTickets estado fecha_inicio fecha_fin s =
     order_desc t_hora_entrada
       (tbl_where (\<lambda>t. (case estado of None \<Rightarrow> True | Some e \<Rightarrow> t_estado t = e) \<and>
                        filtro_fecha fecha_inicio fecha_fin (t_hora_entrada t)) (tickets s))"

text \<open>Active tickets with \<open>minutos_transcurridos\<close> up to \<open>NOW()\<close>.\<close>

definition listarActivos :: "db \<Rightarrow> ((nat \<times> ticket_row) \<times> int) list" where
  "listarActivos s =
     map (\<lambda>(k, t). ((k, t), timestampdiff_minute (t_hora_entrada t) (now s)))
       (order_desc t_hora_entrada (tbl_where (\<lambda>t. t_estado t = ACTIVO) (tickets s)))"

definition obtenerTicket :: "nat \<Rightarrow> db \<Rightarrow> http_error + (ticket_row \<times> int option)" where
  "obtenerTicket k s =
    (case tbl_get (tickets s) k of
      None \<Rightarrow> Inl (HttpError 404 TicketNoEncontrado)
    | Some t \<Rightarrow> Inr (t, if t_estado t = ACTIVO then Some (timestampdiff_minute (t_hora_entrada t) (now s))
                      else sql_minutos t))"

text \<open>\<open>INNER JOIN Vehiculos ... WHERE v.placa = ?\<close>, under the case-insensitive collation.\<close>

definition placa_de :: "db \<Rightarrow> nat \<Rightarrow> string option" where
  "placa_de s v = (case tbl_get (vehiculos s) v of None \<Rightarrow> None | Some r \<Rightarrow> v_placa r)"

definition buscarPorVehiculo :: "string \<Rightarrow> db \<Rightarrow> (nat \<times> ticket_row) list" where
  "buscarPorVehiculo placa s =
     order_desc t_hora_entrada
       (tbl_where (\<lambda>t. case placa_de s (t_vehiculo_id t) of None \<Rightarrow> False | Some p \<Rightarrow> ci_eq p placa)
          (tickets s))"

section \<open>The two writes, branch by branch\<close>

lemma registrarEntrada_Inr:
  "registrarEntrada u vo eo tao s = Inr (k, s') \<longleftrightarrow>
     (\<exists>v e ta esp. vo = Some v \<and> eo = Some e \<and> tao = Some ta \<and> v \<noteq> 0 \<and> e \<noteq> 0 \<and> ta \<noteq> 0 \<and>
        tbl_get (vehiculos s) v \<noteq> None \<and> tbl_get (espacios s) e = Some esp \<and> disponible esp \<and>
        \<not> tbl_exists (activo_de v) (tickets s) \<and>
        k = next_id (tickets s) \<and>
        s' = s\<lparr>tickets := snd (tbl_insert (ticket_nuevo v e u ta (now s)) (tickets s)),
               espacios := tbl_modify e (\<lambda>r. r\<lparr>e_disponible := Some False\<rparr>) (espacios s)\<rparr>)"
  by (auto simp: registrarEntrada_def tbl_insert_def Let_def truthy_nat_def
           split: option.splits if_splits)

lemma registrarSalida_Inr:
  "registrarSalida k s = Inr (r, s') \<longleftrightarrow>
     (\<exists>t. tbl_get (tickets s) k = Some t \<and> t_estado t = ACTIVO \<and>
        s' = s\<lparr>tickets := tbl_modify k (cerrar (now s)) (tickets s),
               espacios := tbl_modify (t_espacio_id t) (\<lambda>r. r\<lparr>e_disponible := Some True\<rparr>) (espacios s)\<rparr> \<and>
        r = salida_view s' k)"
  by (cases "tbl_get (tickets s) k")
     (auto simp: registrarSalida_def Let_def)

end
