(* ===== verification/Pagos.thy ===== *)
theory Pagos
  imports Tickets
begin

text \<open>
  Payment reconciliation (\<open>src/parqueo-api/src/controllers/pagos.controller.js\<close>).
  \<open>registrarPago\<close> checks, in order, the required fields, that the ticket exists, that it
  is closed, that it has no payment yet and that the payment type exists; it recomputes
  the expected charge from the ticket's times and its tariff's current price and stores
  the tendered amount, answering the expected amount and the change. The tendered amount
  is only compared with the charge: a smaller one is accepted. The read handlers list,
  fetch and summarise payments.
\<close>

section \<open>Register payment\<close>

text \<open>
  \<open>montoEsperado = ticket.horas_cobrar * ticket.precio_hora\<close>: both columns come from
  the SELECT and may be \<open>NULL\<close>, which JavaScript multiplies as \<open>0\<close>.
\<close>

definition monto_esperado :: "db \<Rightarrow> ticket_row \<Rightarrow> cents" where
  "monto_esperado s t = js_num (sql_horas t) * js_num (precio_de s (t_tarifa_id t))"

definition cambio :: "cents \<Rightarrow> cents \<Rightarrow> cents" where
  "cambio monto esperado = (if monto > esperado then monto - esperado else 0)"

definition pago_de :: "nat \<Rightarrow> pago_row \<Rightarrow> bool" where
  "pago_de k p \<longleftrightarrow> p_ticket_id p = k"

text \<open>The answer: the new payment's id, \<open>monto_esperado\<close> and \<open>cambio\<close>.\<close>

definition registrarPago ::
  "nat option \<Rightarrow> nat option \<Rightarrow> cents option \<Rightarrow> db \<Rightarrow> (nat \<times> cents \<times> cents, db) handler_result" where
  "registrarPago ticket_id tipo_pago_id monto s =
    (if \<not> truthy_nat ticket_id \<or> \<not> truthy_nat tipo_pago_id \<or> \<not> truthy_int monto
     then Inl (HttpError 400 CamposRequeridos)
     else
       let k = the ticket_id; tp = the tipo_pago_id; m = the monto in
       case tbl_get (tickets s) k of
         None \<Rightarrow> Inl (HttpError 404 TicketNoEncontrado)
       | Some t \<Rightarrow>
           if t_estado t \<noteq> CERRADO then Inl (HttpError 400 TicketNoCerrado)
           else if tbl_exists (pago_de k) (pagos s) then Inl (HttpError 409 PagoYaRegistrado)
           else
             let esperado = monto_esperado s t in
             if tbl_get (tipos_pago s) tp = None then Inl (HttpError 404 TipoPagoNoEncontrado)
             else
               let (p, ps) = tbl_insert \<lparr>p_ticket_id = k, p_tipo_pago_id = tp, p_monto = m,
                                          p_fecha_pago = now s\<rparr> (pagos s)
               in Inr ((p, esperado, cambio m esperado), s\<lparr>pagos := ps\<rparr>))"

declare registrarPago_def [handler_defs]

section \<open>Read handlers\<close>

definition listarPagos ::
  "int option \<Rightarrow> int option \<Rightarrow> nat option \<Rightarrow> db \<Rightarrow> (nat \<times> pago_row) list \<times> cents" where
  "listarPagos fecha_inicio fecha_fin tipo_pago_id s =
    (let ps = order_desc p_fecha_pago
                (tbl_where (\<lambda>p. (if truthy_nat tipo_pago_id then p_tipo_pago_id p = the tipo_pago_id else True) \<and>
                                 filtro_fecha fecha_inicio fecha_fin (p_fecha_pago p)) (pagos s))
     in (ps, sum_list (map (\<lambda>(_, p). p_monto p) ps)))"

definition obtenerPago :: "nat \<Rightarrow> db \<Rightarrow> http_error + pago_row" where
  "obtenerPago k s = (case tbl_get (pagos s) k of
     None \<Rightarrow> Inl (HttpError 404 PagoNoEncontrado) | Some p \<Rightarrow> Inr p)"

definition obtenerPagoPorTicket :: "nat \<Rightarrow> db \<Rightarrow> http_error + (nat \<times> pago_row)" where
  "obtenerPagoPorTicket k s = (case tbl_where (pago_de k) (pagos s) of
     [] \<Rightarrow> Inl (HttpError 404 PagoNoEncontrado) | p # _ \<Rightarrow> Inr p)"

text \<open>
  \<open>reportePagos\<close>: the summary row (\<open>COUNT\<close>, \<open>SUM\<close>, \<open>MIN\<close>, \<open>MAX\<close>; the aggregates of no
  row are \<open>NULL\<close>), the totals per payment type and the totals of the last 30 days with
  payments, each group as (key, count, sum). \<open>AVG\<close> is \<open>SUM / COUNT\<close> and is left out.
\<close>

definition agrupar :: "('v \<Rightarrow> 'k) \<Rightarrow> ('v \<Rightarrow> cents) \<Rightarrow> 'v list \<Rightarrow> ('k \<times> nat \<times> cents) list" where
  "agrupar g f xs = map (\<lambda>c. (c, length (filter (\<lambda>x. g x = c) xs), sum_list (map f (filter (\<lambda>x. g x = c) xs))))
     (remdups (map g xs))"

definition reportePagos ::
  "int option \<Rightarrow> int option \<Rightarrow> db \<Rightarrow>
     (nat \<times> cents option \<times> cents option \<times> cents option) \<times> (nat \<times> nat \<times> cents) list \<times> (int \<times> nat \<times> cents) list" where
  "reportePagos fecha_inicio fecha_fin s =
    (let ps = map snd (tbl_where (\<lambda>p. filtro_fecha fecha_inicio fecha_fin (p_fecha_pago p)) (pagos s));
         ms = map p_monto ps;
         resumen = (length ps, if ps = [] then None else Some (sum_list ms),
                    if ps = [] then None else Some (Min (set ms)), if ps = [] then None else Some (Max (set ms)));
         por_tipo = rev (sort_key (\<lambda>(_, _, t). t) (agrupar p_tipo_pago_id p_monto ps));
         por_dia = take 30 (rev (sort_key fst (agrupar (\<lambda>p. day_of (p_fecha_pago p)) p_monto ps)))
     in (resumen, por_tipo, por_dia))"

section \<open>Register payment, branch by branch\<close>

lemma registrarPago_Inr:
  "registrarPago ko tpo mo s = Inr (r, s') \<longleftrightarrow>
     (\<exists>k tp m t. ko = Some k \<and> tpo = Some tp \<and> mo = Some m \<and> k \<noteq> 0 \<and> tp \<noteq> 0 \<and> m \<noteq> 0 \<and>
        tbl_get (tickets s) k = Some t \<and> t_estado t = CERRADO \<and>
        \<not> tbl_exists (pago_de k) (pagos s) \<and> tbl_get (tipos_pago s) tp \<noteq> None \<and>
        r = (next_id (pagos s), monto_esperado s t, cambio m (monto_esperado s t)) \<and>
        s' = s\<lparr>pagos := snd (tbl_insert \<lparr>p_ticket_id = k, p_tipo_pago_id = tp, p_monto = m,
                                          p_fecha_pago = now s\<rparr> (pagos s))\<rparr>)"
  by (auto simp: registrarPago_def tbl_insert_def Let_def truthy_nat_def truthy_int_def
           split: option.splits if_splits)

lemma cambio_nonneg: "0 \<le> cambio m e"
  by (simp add: cambio_def)

end
