(* ===== verification/Espacios.thy ===== *)
theory Espacios
  imports Tickets
begin

text \<open>
  The parking spaces (\<open>src/parqueo-api/src/controllers/espacios.controller.js\<close>). Besides
  the ticket handlers, three handlers here write the \<open>disponible\<close> flag: \<open>crearEspacio\<close>
  (the flag of the body, \<open>true\<close> when absent), \<open>actualizarEspacio\<close> and
  \<open>cambiarDisponibilidad\<close> (the flag of the body, \<open>NULL\<close> when absent). None of them
  looks at the tickets. None of these handlers opens a transaction; each statement
  commits on its own, and every check precedes every write.
\<close>

section \<open>Read handlers\<close>

definition zona_nombre_de :: "db \<Rightarrow> nat option \<Rightarrow> string option" where
  "zona_nombre_de s z = (case z of None \<Rightarrow> None | Some k \<Rightarrow>
     (case tbl_get (zonas s) k of None \<Rightarrow> None | Some r \<Rightarrow> z_nombre r))"

text \<open>
  \<open>ORDER BY z.nombre, e.codigo ASC\<close> under the case-insensitive collation; \<open>NULL\<close> sorts
  first.
\<close>

definition orden_espacio :: "db \<Rightarrow> nat \<times> espacio_row \<Rightarrow> string option \<times> string option" where
  "orden_espacio s = (\<lambda>(_, e). (map_option upper (zona_nombre_de s (e_zona_id e)), map_option upper (e_codigo e)))"

definition listarEspacios :: "db \<Rightarrow> nat \<times> nat \<times> nat \<times> (nat \<times> espacio_row) list" where
  "listarEspacios s =
    (let es = sort_key (orden_espacio s) (rows (espacios s))
     in (length es, length (filter (\<lambda>e. disponible (snd e)) es),
         length (filter (\<lambda>e. \<not> disponible (snd e)) es), es))"

text \<open>\<open>WHERE e.disponible = 1\<close>: a \<open>NULL\<close> flag is not available.\<close>

definition listarDisponibles :: "nat option \<Rightarrow> db \<Rightarrow> (nat \<times> espacio_row) list" where
  "listarDisponibles zona_id s =
     sort_key (orden_espacio s)
       (tbl_where (\<lambda>e. e_disponible e = Some True \<and>
                       (if truthy_nat zona_id then e_zona_id e = zona_id else True)) (espacios s))"

definition obtenerEspacio :: "nat \<Rightarrow> db \<Rightarrow> http_error + espacio_row" where
  "obtenerEspacio k s = (case tbl_get (espacios s) k of
     None \<Rightarrow> Inl (HttpError 404 EspacioNoEncontrado) | Some e \<Rightarrow> Inr e)"

section \<open>Writes\<close>

definition codigo_igual :: "string \<Rightarrow> espacio_row \<Rightarrow> bool" where
  "codigo_igual c e \<longleftrightarrow> (case e_codigo e of None \<Rightarrow> False | Some c' \<Rightarrow> ci_eq c' c)"

definition crearEspacio ::
  "nat option \<Rightarrow> string option \<Rightarrow> bool option \<Rightarrow> db \<Rightarrow> (nat, db) handler_result" where
  "crearEspacio zona_id codigo disp s =
    (if \<not> truthy_nat zona_id \<or> \<not> truthy_str codigo then Inl (HttpError 400 CamposRequeridos)
     else if tbl_get (zonas s) (the zona_id) = None then Inl (HttpError 404 ZonaNoEncontrada)
     else if tbl_exists (codigo_igual (the codigo)) (espacios s) then Inl (HttpError 409 CodigoDuplicado)
     else
       let (k, es) = tbl_insert \<lparr>e_zona_id = zona_id, e_codigo = Some (upper (the codigo)),
                                  e_disponible = Some (case disp of None \<Rightarrow> True | Some b \<Rightarrow> b)\<rparr> (espacios s)
       in Inr (k, s\<lparr>espacios := es\<rparr>))"

definition actualizarEspacio ::
  "nat \<Rightarrow> nat option \<Rightarrow> string option \<Rightarrow> bool option \<Rightarrow> db \<Rightarrow> (unit, db) handler_result" where
  "actualizarEspacio k zona_id codigo disp s =
    (if tbl_get (espacios s) k = None then Inl (HttpError 404 EspacioNoEncontrado)
     else Inr ((), s\<lparr>espacios := tbl_modify k
              (\<lambda>e. e\<lparr>e_zona_id := zona_id, e_codigo := map_option upper codigo, e_disponible := disp\<rparr>)
              (espacios s)\<rparr>))"

definition cambiarDisponibilidad :: "nat \<Rightarrow> bool option \<Rightarrow> db \<Rightarrow> (unit, db) handler_result" where
  "cambiarDisponibilidad k disp s =
    (if tbl_get (espacios s) k = None then Inl (HttpError 404 EspacioNoEncontrado)
     else Inr ((), s\<lparr>espacios := tbl_modify k (\<lambda>e. e\<lparr>e_disponible := disp\<rparr>) (espacios s)\<rparr>))"

definition eliminarEspacio :: "nat \<Rightarrow> db \<Rightarrow> (unit, db) handler_result" where
  "eliminarEspacio k s =
    (if tbl_get (espacios s) k = None then Inl (HttpError 404 EspacioNoEncontrado)
     else if tbl_count (\<lambda>t. t_espacio_id t = k) (tickets s) > 0 then Inl (HttpError 400 NoSePuedeEliminar)
     else Inr ((), s\<lparr>espacios := tbl_delete k (espacios s)\<rparr>))"

declare crearEspacio_def [handler_defs] actualizarEspacio_def [handler_defs]
  cambiarDisponibilidad_def [handler_defs] eliminarEspacio_def [handler_defs]

lemma listarEspacios_counts:
  "listarEspacios s = (n, d, oc, es) \<Longrightarrow> n = d + oc \<and> n = length (rows (espacios s))"
  by (auto simp: listarEspacios_def Let_def sum_length_filter_compl)

lemma eliminarEspacio_Inr:
  "eliminarEspacio k s = Inr (r, s') \<longleftrightarrow>
     tbl_get (espacios s) k \<noteq> None \<and> \<not> tbl_exists (\<lambda>t. t_espacio_id t = k) (tickets s) \<and>
     s' = s\<lparr>espacios := tbl_delete k (espacios s)\<rparr>"
  by (auto simp: eliminarEspacio_def tbl_count_zero_iff [symmetric] split: if_splits)

end
