(* ===== verification/Tarifas.thy ===== *)
theory Tarifas
  imports Tickets
begin

text \<open>
  The tariffs (\<open>src/parqueo-api/src/controllers/tarifas.controller.js\<close>). A ticket stores
  the id of its tariff, not its price: \<open>registrarSalida\<close> and \<open>registrarPago\<close> read
  the price the row has when they run, so \<open>actualizarTarifa\<close> changes the charge of
  tickets already issued. \<open>actualizarTarifa\<close> writes both columns from the body, so a
  body without \<open>precio_hora\<close> sets the price to \<open>NULL\<close>.
\<close>

definition listarTarifas :: "db \<Rightarrow> (nat \<times> tarifa_row) list" where
  "listarTarifas s = sort_key (\<lambda>(_, t). map_option upper (ta_descripcion t)) (rows (tarifas s))"

definition obtenerTarifa :: "nat \<Rightarrow> db \<Rightarrow> http_error + tarifa_row" where
  "obtenerTarifa k s = (case tbl_get (tarifas s) k of
     None \<Rightarrow> Inl (HttpError 404 TarifaNoEncontrada) | Some t \<Rightarrow> Inr t)"

definition crearTarifa :: "string option \<Rightarrow> cents option \<Rightarrow> db \<Rightarrow> (nat, db) handler_result" where
  "crearTarifa descripcion precio_hora s =
    (if \<not> truthy_str descripcion \<or> \<not> truthy_int precio_hora then Inl (HttpError 400 CamposRequeridos)
     else if the precio_hora \<le> 0 then Inl (HttpError 400 PrecioInvalido)
     else
       let (k, ts) = tbl_insert \<lparr>ta_descripcion = descripcion, ta_precio_hora = precio_hora\<rparr> (tarifas s)
       in Inr (k, s\<lparr>tarifas := ts\<rparr>))"

definition actualizarTarifa :: "nat \<Rightarrow> string option \<Rightarrow> cents option \<Rightarrow> db \<Rightarrow> (unit, db) handler_result" where
  "actualizarTarifa k descripcion precio_hora s =
    (if tbl_get (tarifas s) k = None then Inl (HttpError 404 TarifaNoEncontrada)
     else if truthy_int precio_hora \<and> the precio_hora \<le> 0 then Inl (HttpError 400 PrecioInvalido)
     else Inr ((), s\<lparr>tarifas := tbl_modify k
                      (\<lambda>t. t\<lparr>ta_descripcion := descripcion, ta_precio_hora := precio_hora\<rparr>) (tarifas s)\<rparr>))"

definition eliminarTarifa :: "nat \<Rightarrow> db \<Rightarrow> (unit, db) handler_result" where
  "eliminarTarifa k s =
    (if tbl_get (tarifas s) k = None then Inl (HttpError 404 TarifaNoEncontrada)
     else if tbl_count (\<lambda>t. t_tarifa_id t = k) (tickets s) > 0 then Inl (HttpError 400 NoSePuedeEliminar)
     else Inr ((), s\<lparr>tarifas := tbl_delete k (tarifas s)\<rparr>))"

declare crearTarifa_def [handler_defs] actualizarTarifa_def [handler_defs] eliminarTarifa_def [handler_defs]

lemma crearTarifa_Inr:
  "crearTarifa d p s = Inr (k, s') \<longleftrightarrow>
     (\<exists>pr. truthy_str d \<and> p = Some pr \<and> 0 < pr \<and> k = next_id (tarifas s) \<and>
        s' = s\<lparr>tarifas := snd (tbl_insert \<lparr>ta_descripcion = d, ta_precio_hora = p\<rparr> (tarifas s))\<rparr>)"
  by (cases p) (auto simp: crearTarifa_def tbl_insert_def)

end
