(* ===== verification/Clientes.thy ===== *)
theory Clientes
  imports Store
begin

text \<open>
  The clients (\<open>src/parqueo-api/src/controllers/clientes.controller.js\<close>): plain
  create, read, update and delete. \<open>actualizarCliente\<close> writes every column from the
  body (\<open>NULL\<close> for a field the body lacks); \<open>eliminarCliente\<close> refuses a client that
  still owns vehicles.
\<close>

definition listarClientes :: "db \<Rightarrow> (nat \<times> cliente_row) list" where
  "listarClientes s = sort_key (\<lambda>(_, c). map_option upper (c_nombre c)) (rows (clientes s))"

definition obtenerCliente :: "nat \<Rightarrow> db \<Rightarrow> http_error + cliente_row" where
  "obtenerCliente k s = (case tbl_get (clientes s) k of
     None \<Rightarrow> Inl (HttpError 404 ClienteNoEncontrado) | Some c \<Rightarrow> Inr c)"

definition crearCliente ::
  "string option \<Rightarrow> string option \<Rightarrow> string option \<Rightarrow> string option \<Rightarrow> db \<Rightarrow> (nat, db) handler_result" where
  "crearCliente nombre telefono correo nit s =
    (if \<not> truthy_str nombre then Inl (HttpError 400 CampoRequerido)
     else
       let (k, cs) = tbl_insert \<lparr>c_nombre = nombre, c_telefono = telefono, c_correo = correo, c_nit = nit\<rparr>
                       (clientes s)
       in Inr (k, s\<lparr>clientes := cs\<rparr>))"

definition actualizarCliente ::
  "nat \<Rightarrow> string option \<Rightarrow> string option \<Rightarrow> string option \<Rightarrow> string option \<Rightarrow> db \<Rightarrow> (unit, db) handler_result" where
  "actualizarCliente k nombre telefono correo nit s =
    (if tbl_get (clientes s) k = None then Inl (HttpError 404 ClienteNoEncontrado)
     else Inr ((), s\<lparr>clientes := tbl_modify k
        (\<lambda>c. c\<lparr>c_nombre := nombre, c_telefono := telefono, c_correo := correo, c_nit := nit\<rparr>) (clientes s)\<rparr>))"

definition eliminarCliente :: "nat \<Rightarrow> db \<Rightarrow> (unit, db) handler_result" where
  "eliminarCliente k s =
    (if tbl_get (clientes s) k = None then Inl (HttpError 404 ClienteNoEncontrado)
     else if tbl_count (\<lambda>v. v_cliente_id v = Some k) (vehiculos s) > 0 then Inl (HttpError 400 NoSePuedeEliminar)
     else Inr ((), s\<lparr>clientes := tbl_delete k (clientes s)\<rparr>))"

declare crearCliente_def [handler_defs] actualizarCliente_def [handler_defs] eliminarCliente_def [handler_defs]

end
