(* ===== verification/Vehiculos.thy ===== *)
theory Vehiculos
  imports Store
begin

text \<open>
  The vehicles (\<open>src/parqueo-api/src/controllers/vehiculos.controller.js\<close>).
  \<open>crearVehiculo\<close> looks the plate up as the body spells it and stores it upper-cased;
  under the store's case-insensitive collation the lookup finds any spelling, so two
  vehicles never get plates equal up to case through it. \<open>actualizarVehiculo\<close> writes
  every column from the body and looks no plate up at all.
\<close>

definition listarVehiculos :: "db \<Rightarrow> (nat \<times> vehiculo_row) list" where
  "listarVehiculos s = sort_key (\<lambda>(_, v). map_option upper (v_placa v)) (rows (vehiculos s))"

definition obtenerVehiculo :: "nat \<Rightarrow> db \<Rightarrow> http_error + vehiculo_row" where
  "obtenerVehiculo k s = (case tbl_get (vehiculos s) k of
     None \<Rightarrow> Inl (HttpError 404 VehiculoNoEncontrado) | Some v \<Rightarrow> Inr v)"

definition placa_igual :: "string \<Rightarrow> vehiculo_row \<Rightarrow> bool" where
  "placa_igual p v \<longleftrightarrow> (case v_placa v of None \<Rightarrow> False | Some p' \<Rightarrow> ci_eq p' p)"

definition buscarPorPlaca :: "string \<Rightarrow> db \<Rightarrow> http_error + (nat \<times> vehiculo_row)" where
  "buscarPorPlaca p s = (case tbl_where (placa_igual p) (vehiculos s) of
     [] \<Rightarrow> Inl (HttpError 404 VehiculoNoEncontrado) | v # _ \<Rightarrow> Inr v)"

definition crearVehiculo ::
  "nat option \<Rightarrow> string option \<Rightarrow> string option \<Rightarrow> string option \<Rightarrow> string option \<Rightarrow> db \<Rightarrow> (nat, db) handler_result" where
  "crearVehiculo cliente_id placa marca modelo color s =
    (if \<not> truthy_nat cliente_id \<or> \<not> truthy_str placa then Inl (HttpError 400 CamposRequeridos)
     else if tbl_get (clientes s) (the cliente_id) = None then Inl (HttpError 404 ClienteNoEncontrado)
     else if tbl_exists (placa_igual (the placa)) (vehiculos s) then Inl (HttpError 409 PlacaDuplicada)
     else
       let (k, vs) = tbl_insert \<lparr>v_cliente_id = cliente_id, v_placa = Some (upper (the placa)),
                                  v_marca = marca, v_modelo = modelo, v_color = color\<rparr> (vehiculos s)
       in Inr (k, s\<lparr>vehiculos := vs\<rparr>))"

definition actualizarVehiculo ::
  "nat \<Rightarrow> nat option \<Rightarrow> string option \<Rightarrow> string option \<Rightarrow> string option \<Rightarrow> string option \<Rightarrow> db \<Rightarrow>
     (unit, db) handler_result" where
  "actualizarVehiculo k cliente_id placa marca modelo color s =
    (if tbl_get (vehiculos s) k = None then Inl (HttpError 404 VehiculoNoEncontrado)
     else Inr ((), s\<lparr>vehiculos := tbl_modify k
        (\<lambda>v. v\<lparr>v_cliente_id := cliente_id, v_placa := map_option upper placa, v_marca := marca,
               v_modelo := modelo, v_color := color\<rparr>) (vehiculos s)\<rparr>))"

definition eliminarVehiculo :: "nat \<Rightarrow> db \<Rightarrow> (unit, db) handler_result" where
  "eliminarVehiculo k s =
    (if tbl_get (vehiculos s) k = None then Inl (HttpError 404 VehiculoNoEncontrado)
     else if tbl_count (\<lambda>t. t_vehiculo_id t = k) (tickets s) > 0 then Inl (HttpError 400 NoSePuedeEliminar)
     else Inr ((), s\<lparr>vehiculos := tbl_delete k (vehiculos s)\<rparr>))"

declare crearVehiculo_def [handler_defs] actualizarVehiculo_def [handler_defs] eliminarVehiculo_def [handler_defs]

end
