(* ===== verification/Zonas.thy ===== *)
theory Zonas
  imports Store
begin

text \<open>
  The zones (\<open>src/parqueo-api/src/controllers/zonas.controller.js\<close>). The two reads join
  the spaces of a zone and count them (\<open>COUNT(e.id)\<close>, and \<open>SUM(CASE WHEN
  e.disponible = 1 ...)\<close>, which is \<open>NULL\<close> for a zone without spaces).
  \<open>eliminarZona\<close> refuses a zone that still has spaces.
\<close>

definition espacios_de :: "nat \<Rightarrow> db \<Rightarrow> (nat \<times> espacio_row) list" where
  "espacios_de z s = tbl_where (\<lambda>e. e_zona_id e = Some z) (espacios s)"

definition conteo_zona :: "nat \<Rightarrow> db \<Rightarrow> nat \<times> nat option" where
  "conteo_zona z s =
    (let es = espacios_de z s
     in (length es, if es = [] then None
                    else Some (length (filter (\<lambda>e. e_disponible (snd e) = Some True) es))))"

definition listarZonas :: "db \<Rightarrow> ((nat \<times> zona_row) \<times> nat \<times> nat option) list" where
  "listarZonas s = map (\<lambda>(k, z). ((k, z), conteo_zona k s))
     (sort_key (\<lambda>(_, z). map_option upper (z_nombre z)) (rows (zonas s)))"

definition obtenerZona ::
  "nat \<Rightarrow> db \<Rightarrow> http_error + ((zona_row \<times> nat \<times> nat option) \<times> (nat \<times> espacio_row) list)" where
  "obtenerZona k s = (case tbl_get (zonas s) k of
     None \<Rightarrow> Inl (HttpError 404 ZonaNoEncontrada)
   | Some z \<Rightarrow> Inr ((z, conteo_zona k s),
                    sort_key (\<lambda>(_, e). map_option upper (e_codigo e)) (espacios_de k s)))"

definition crearZona :: "string option \<Rightarrow> string option \<Rightarrow> db \<Rightarrow> (nat, db) handler_result" where
  "crearZona nombre descripcion s =
    (if \<not> truthy_str nombre then Inl (HttpError 400 CampoRequerido)
     else
       let (k, zs) = tbl_insert \<lparr>z_nombre = nombre, z_descripcion = descripcion\<rparr> (zonas s)
       in Inr (k, s\<lparr>zonas := zs\<rparr>))"

definition actualizarZona :: "nat \<Rightarrow> string option \<Rightarrow> string option \<Rightarrow> db \<Rightarrow> (unit, db) handler_result" where
  "actualizarZona k nombre descripcion s =
    (if tbl_get (zonas s) k = None then Inl (HttpError 404 ZonaNoEncontrada)
     else Inr ((), s\<lparr>zonas := tbl_modify k (\<lambda>z. z\<lparr>z_nombre := nombre, z_descripcion := descripcion\<rparr>) (zonas s)\<rparr>))"

definition eliminarZona :: "nat \<Rightarrow> db \<Rightarrow> (unit, db) handler_result" where
  "eliminarZona k s =
    (if tbl_get (zonas s) k = None then Inl (HttpError 404 ZonaNoEncontrada)
     else if tbl_count (\<lambda>e. e_zona_id e = Some k) (espacios s) > 0 then Inl (HttpError 400 NoSePuedeEliminar)
     else Inr ((), s\<lparr>zonas := tbl_delete k (zonas s)\<rparr>))"

declare crearZona_def [handler_defs] actualizarZona_def [handler_defs] eliminarZona_def [handler_defs]

end
