(* ===== verification/TiposPago.thy ===== *)
theory TiposPago
  imports Store
begin

text \<open>
  The payment types (\<open>src/parqueo-api/src/controllers/tipospago.controller.js\<close>). Names
  are kept distinct by a lookup before each insert and each renaming;
  \<open>actualizarTipoPago\<close> with no name in the body skips the lookup and sets the name to
  \<open>NULL\<close>. The reads join the payments of each type (\<open>COUNT\<close>, and
  \<open>COALESCE(SUM(p.monto), 0)\<close>).
\<close>

definition nombre_igual :: "string \<Rightarrow> tipo_pago_row \<Rightarrow> bool" where
  "nombre_igual n t \<longleftrightarrow> (case tp_nombre t of None \<Rightarrow> False | Some n' \<Rightarrow> ci_eq n' n)"

definition totales_tipo :: "nat \<Rightarrow> db \<Rightarrow> nat \<times> cents" where
  "totales_tipo k s =
    (let ps = tbl_where (\<lambda>p. p_tipo_pago_id p = k) (pagos s)
     in (length ps, sum_list (map (\<lambda>p. p_monto (snd p)) ps)))"

definition listarTiposPago :: "db \<Rightarrow> ((nat \<times> tipo_pago_row) \<times> nat \<times> cents) list" where
  "listarTiposPago s = map (\<lambda>(k, t). ((k, t), totales_tipo k s))
     (sort_key (\<lambda>(_, t). map_option upper (tp_nombre t)) (rows (tipos_pago s)))"

definition obtenerTipoPago :: "nat \<Rightarrow> db \<Rightarrow> http_error + (tipo_pago_row \<times> nat \<times> cents)" where
  "obtenerTipoPago k s = (case tbl_get (tipos_pago s) k of
     None \<Rightarrow> Inl (HttpError 404 TipoPagoNoEncontrado) | Some t \<Rightarrow> Inr (t, totales_tipo k s))"

definition crearTipoPago :: "string option \<Rightarrow> db \<Rightarrow> (nat, db) handler_result" where
  "crearTipoPago nombre s =
    (if \<not> truthy_str nombre then Inl (HttpError 400 CampoRequerido)
     else if tbl_exists (nombre_igual (the nombre)) (tipos_pago s) then Inl (HttpError 409 TipoPagoYaExiste)
     else
       let (k, ts) = tbl_insert \<lparr>tp_nombre = nombre\<rparr> (tipos_pago s)
       in Inr (k, s\<lparr>tipos_pago := ts\<rparr>))"

definition actualizarTipoPago :: "nat \<Rightarrow> string option \<Rightarrow> db \<Rightarrow> (unit, db) handler_result" where
  "actualizarTipoPago k nombre s =
    (if tbl_get (tipos_pago s) k = None then Inl (HttpError 404 TipoPagoNoEncontrado)
     else if truthy_str nombre \<and>
             (\<exists>(k', t) \<in> set (rows (tipos_pago s)). nombre_igual (the nombre) t \<and> k' \<noteq> k)
     then Inl (HttpError 409 NombreDuplicado)
     else Inr ((), s\<lparr>tipos_pago := tbl_modify k (\<lambda>t. t\<lparr>tp_nombre := nombre\<rparr>) (tipos_pago s)\<rparr>))"

definition eliminarTipoPago :: "nat \<Rightarrow> db \<Rightarrow> (unit, db) handler_result" where
  "eliminarTipoPago k s =
    (if tbl_get (tipos_pago s) k = None then Inl (HttpError 404 TipoPagoNoEncontrado)
     else if tbl_count (\<lambda>p. p_tipo_pago_id p = k) (pagos s) > 0 then Inl (HttpError 400 NoSePuedeEliminar)
     else Inr ((), s\<lparr>tipos_pago := tbl_delete k (tipos_pago s)\<rparr>))"

declare crearTipoPago_def [handler_defs] actualizarTipoPago_def [handler_defs] eliminarTipoPago_def [handler_defs]

end
