(* ===== verification/Reservas.thy ===== *)
theory Reservas
  imports Tickets
begin

text \<open>
  Reservations of a space by a client (\<open>src/parqueo-api/src/controllers/reservas.controller.js\<close>).
  \<open>crearReserva\<close> checks, in order, the required fields, that the end is after the start,
  that the client and the space exist, and that no ACTIVA reservation of the space
  conflicts with the requested dates (the three-clause SQL test below); it stores an
  ACTIVA reservation. \<open>actualizarReserva\<close> rewrites both dates and the state of an
  ACTIVA reservation from the body (\<open>NULL\<close> for a missing field) with no conflict test;
  \<open>cancelarReserva\<close> and \<open>finalizarReserva\<close> move an ACTIVA reservation to CANCELADA or
  FINALIZADA. A date of the request is the instant it denotes (\<open>None\<close> when the field is
  absent or empty); the parsing of the date strings is not modelled.
\<close>

section \<open>SQL comparisons with NULL\<close>

text \<open>
  A comparison with a \<open>NULL\<close> column is unknown, and \<open>WHERE\<close> keeps only the rows where
  the condition is true: a \<open>NULL\<close> date satisfies no comparison.
\<close>

definition sql_le :: "timestamp option \<Rightarrow> timestamp \<Rightarrow> bool" where
  "sql_le x v \<longleftrightarrow> (case x of None \<Rightarrow> False | Some a \<Rightarrow> a \<le> v)"

definition sql_ge :: "timestamp option \<Rightarrow> timestamp \<Rightarrow> bool" where
  "sql_ge x v \<longleftrightarrow> (case x of None \<Rightarrow> False | Some a \<Rightarrow> v \<le> a)"

section \<open>Create\<close>

definition reserva_nueva :: "nat \<Rightarrow> nat \<Rightarrow> timestamp \<Rightarrow> timestamp \<Rightarrow> timestamp \<Rightarrow> reserva_row" where
  "reserva_nueva c e ahora fi ff =
     \<lparr>re_cliente_id = c, re_espacio_id = e, re_fecha_reserva = ahora, re_fecha_inicio = Some fi,
      re_fecha_fin = Some ff, re_estado = Some ACTIVA\<rparr>"

text \<open>The conflict query: an ACTIVA reservation of the space that holds the new start, holds
  the new end, or lies inside the new period.\<close>

definition conflicto :: "nat \<Rightarrow> timestamp \<Rightarrow> timestamp \<Rightarrow> reserva_row \<Rightarrow> bool" where
  "conflicto e fi ff r \<longleftrightarrow> re_espacio_id r = e \<and> re_estado r = Some ACTIVA \<and>
     ((sql_le (re_fecha_inicio r) fi \<and> sql_ge (re_fecha_fin r) fi) \<or>
      (sql_le (re_fecha_inicio r) ff \<and> sql_ge (re_fecha_fin r) ff) \<or>
      (sql_ge (re_fecha_inicio r) fi \<and> sql_le (re_fecha_fin r) ff))"

definition crearReserva ::
  "nat option \<Rightarrow> nat option \<Rightarrow> timestamp option \<Rightarrow> timestamp option \<Rightarrow> db \<Rightarrow> (nat, db) handler_result" where
  "crearReserva cliente_id espacio_id fecha_inicio fecha_fin s =
    (if \<not> truthy_nat cliente_id \<or> \<not> truthy_nat espacio_id \<or> fecha_inicio = None \<or> fecha_fin = None
     then Inl (HttpError 400 CamposRequeridos)
     else
       let c = the cliente_id; e = the espacio_id; fi = the fecha_inicio; ff = the fecha_fin in
       if ff \<le> fi then Inl (HttpError 400 FechasInvalidas)
       else if tbl_get (clientes s) c = None then Inl (HttpError 404 ClienteNoEncontrado)
       else if tbl_get (espacios s) e = None then Inl (HttpError 404 EspacioNoEncontrado)
       else if tbl_exists (conflicto e fi ff) (reservas s) then Inl (HttpError 409 EspacioNoDisponible)
       else
         let (k, rs) = tbl_insert (reserva_nueva c e (now s) fi ff) (reservas s)
         in Inr (k, s\<lparr>reservas := rs\<rparr>))"

section \<open>Update, cancel, finish\<close>

definition actualizarReserva ::
  "nat \<Rightarrow> timestamp option \<Rightarrow> timestamp option \<Rightarrow> estado_reserva option \<Rightarrow> db \<Rightarrow> (unit, db) handler_result" where
  "actualizarReserva k fecha_inicio fecha_fin estado s =
    (case tbl_get (reservas s) k of
      None \<Rightarrow> Inl (HttpError 404 ReservaNoEncontrada)
    | Some r \<Rightarrow>
        if re_estado r \<noteq> Some ACTIVA then Inl (HttpError 400 ReservaNoModificable)
        else if fecha_inicio \<noteq> None \<and> fecha_fin \<noteq> None \<and> the fecha_fin \<le> the fecha_inicio
        then Inl (HttpError 400 FechasInvalidas)
        else Inr ((), s\<lparr>reservas := tbl_modify k
               (\<lambda>r. r\<lparr>re_fecha_inicio := fecha_inicio, re_fecha_fin := fecha_fin, re_estado := estado\<rparr>)
               (reservas s)\<rparr>))"

definition cancelarReserva :: "nat \<Rightarrow> db \<Rightarrow> (unit, db) handler_result" where
  "cancelarReserva k s =
    (case tbl_get (reservas s) k of
      None \<Rightarrow> Inl (HttpError 404 ReservaNoEncontrada)
    | Some r \<Rightarrow>
        if re_estado r \<noteq> Some ACTIVA then Inl (HttpError 400 NoSePuedeCancelar)
        else Inr ((), s\<lparr>reservas := tbl_modify k (\<lambda>r. r\<lparr>re_estado := Some CANCELADA\<rparr>) (reservas s)\<rparr>))"

definition finalizarReserva :: "nat \<Rightarrow> db \<Rightarrow> (unit, db) handler_result" where
  "finalizarReserva k s =
    (case tbl_get (reservas s) k of
      None \<Rightarrow> Inl (HttpError 404 ReservaNoEncontrada)
    | Some r \<Rightarrow>
        if re_estado r \<noteq> Some ACTIVA then Inl (HttpError 400 NoSePuedeFinalizar)
        else Inr ((), s\<lparr>reservas := tbl_modify k (\<lambda>r. r\<lparr>re_estado := Some FINALIZADA\<rparr>) (reservas s)\<rparr>))"

declare crearReserva_def [handler_defs] actualizarReserva_def [handler_defs]
  cancelarReserva_def [handler_defs] finalizarReserva_def [handler_defs]

section \<open>Read handlers\<close>

text \<open>
  \<open>listarReservas\<close>: the optional filters on state, client and the days of the two
  dates (\<open>DATE(col) >= ?\<close>, false on \<open>NULL\<close>), newest reservation first, with the
  counts per state computed in JavaScript.
\<close>

definition dia_desde :: "int option \<Rightarrow> timestamp option \<Rightarrow> bool" where
  "dia_desde d x \<longleftrightarrow> (case d of None \<Rightarrow> True | Some d \<Rightarrow> (case x of None \<Rightarrow> False | Some t \<Rightarrow> d \<le> day_of t))"

definition dia_hasta :: "int option \<Rightarrow> timestamp option \<Rightarrow> bool" where
  "dia_hasta d x \<longleftrightarrow> (case d of None \<Rightarrow> True | Some d \<Rightarrow> (case x of None \<Rightarrow> False | Some t \<Rightarrow> day_of t \<le> d))"

definition listarReservas ::
  "estado_reserva option \<Rightarrow> nat option \<Rightarrow> int option \<Rightarrow> int option \<Rightarrow> db \<Rightarrow>
     (nat \<times> nat \<times> nat \<times> nat) \<times> (nat \<times> reserva_row) list" where
  "listarReservas estado cliente_id fecha_inicio fecha_fin s =
    (let rs = order_desc re_fecha_reserva
                (tbl_where (\<lambda>r. (case estado of None \<Rightarrow> True | Some e \<Rightarrow> re_estado r = Some e) \<and>
                                 (if truthy_nat cliente_id then re_cliente_id r = the cliente_id else True) \<and>
                                 dia_desde fecha_inicio (re_fecha_inicio r) \<and>
                                 dia_hasta fecha_fin (re_fecha_fin r)) (reservas s));
         cuenta = (\<lambda>e. length (filter (\<lambda>(_, r). re_estado r = Some e) rs))
     in ((length rs, cuenta ACTIVA, cuenta FINALIZADA, cuenta CANCELADA), rs))"

text \<open>\<open>ORDER BY r.fecha_inicio ASC\<close>: MySQL puts \<open>NULL\<close> first, as \<open>None\<close> is least in the
  order on options.\<close>

definition listarReservasActivas :: "db \<Rightarrow> (nat \<times> reserva_row) list" where
  "listarReservasActivas s =
     sort_key (\<lambda>(_, r). re_fecha_inicio r) (tbl_where (\<lambda>r. re_estado r = Some ACTIVA) (reservas s))"

definition obtenerReserva :: "nat \<Rightarrow> db \<Rightarrow> http_error + reserva_row" where
  "obtenerReserva k s = (case tbl_get (reservas s) k of
     None \<Rightarrow> Inl (HttpError 404 ReservaNoEncontrada) | Some r \<Rightarrow> Inr r)"

definition buscarReservasPorCliente :: "nat \<Rightarrow> db \<Rightarrow> (nat \<times> reserva_row) list" where
  "buscarReservasPorCliente c s = order_desc re_fecha_reserva (tbl_where (\<lambda>r. re_cliente_id r = c) (reservas s))"

section \<open>The writes, branch by branch\<close>

lemma crearReserva_Inr:
  "crearReserva co eo fio ffo s = Inr (k, s') \<longleftrightarrow>
     (\<exists>c e fi ff. co = Some c \<and> eo = Some e \<and> fio = Some fi \<and> ffo = Some ff \<and> c \<noteq> 0 \<and> e \<noteq> 0 \<and>
        fi < ff \<and> tbl_get (clientes s) c \<noteq> None \<and> tbl_get (espacios s) e \<noteq> None \<and>
        \<not> tbl_exists (conflicto e fi ff) (reservas s) \<and> k = next_id (reservas s) \<and>
        s' = s\<lparr>reservas := snd (tbl_insert (reserva_nueva c e (now s) fi ff) (reservas s))\<rparr>)"
  by (auto simp: crearReserva_def tbl_insert_def Let_def truthy_nat_def not_le
           split: option.splits if_splits)

lemma actualizarReserva_Inr:
  "actualizarReserva k fi ff e s = Inr (x, s') \<longleftrightarrow>
     (\<exists>r. tbl_get (reservas s) k = Some r \<and> re_estado r = Some ACTIVA \<and>
        (\<forall>a b. fi = Some a \<longrightarrow> ff = Some b \<longrightarrow> a < b) \<and>
        s' = s\<lparr>reservas := tbl_modify k
               (\<lambda>r. r\<lparr>re_fecha_inicio := fi, re_fecha_fin := ff, re_estado := e\<rparr>) (reservas s)\<rparr>)"
  by (cases "tbl_get (reservas s) k") (auto simp: actualizarReserva_def not_le)

lemma cancelarReserva_Inr:
  "cancelarReserva k s = Inr (x, s') \<longleftrightarrow>
     (\<exists>r. tbl_get (reservas s) k = Some r \<and> re_estado r = Some ACTIVA \<and>
        s' = s\<lparr>reservas := tbl_modify k (\<lambda>r. r\<lparr>re_estado := Some CANCELADA\<rparr>) (reservas s)\<rparr>)"
  by (cases "tbl_get (reservas s) k") (auto simp: cancelarReserva_def)

lemma finalizarReserva_Inr:
  "finalizarReserva k s = Inr (x, s') \<longleftrightarrow>
     (\<exists>r. tbl_get (reservas s) k = Some r \<and> re_estado r = Some ACTIVA \<and>
        s' = s\<lparr>reservas := tbl_modify k (\<lambda>r. r\<lparr>re_estado := Some FINALIZADA\<rparr>) (reservas s)\<rparr>)"
  by (cases "tbl_get (reservas s) k") (auto simp: finalizarReserva_def)

section \<open>The conflict test against interval overlap\<close>

text \<open>
  The reference: two closed periods overlap when each starts no later than the other
  ends. A reservation with a \<open>NULL\<close> date has no period and overlaps nothing.
\<close>

definition periodo :: "reserva_row \<Rightarrow> (timestamp \<times> timestamp) option" where
  "periodo r = (case (re_fecha_inicio r, re_fecha_fin r) of (Some a, Some b) \<Rightarrow> Some (a, b) | _ \<Rightarrow> None)"

definition solapa :: "timestamp \<Rightarrow> timestamp \<Rightarrow> reserva_row \<Rightarrow> bool" where
  "solapa fi ff r \<longleftrightarrow> (case periodo r of None \<Rightarrow> False | Some (a, b) \<Rightarrow> a \<le> ff \<and> fi \<le> b)"

definition fechas_validas :: "reserva_row \<Rightarrow> bool" where
  "fechas_validas r \<longleftrightarrow> (case periodo r of None \<Rightarrow> True | Some (a, b) \<Rightarrow> a < b)"

lemma conflicto_solapa:
  assumes "fi \<le> ff" "fechas_validas r"
  shows "conflicto e fi ff r \<longleftrightarrow> re_espacio_id r = e \<and> re_estado r = Some ACTIVA \<and> solapa fi ff r"
  using assms
  by (cases "re_fecha_inicio r"; cases "re_fecha_fin r")
     (auto simp: conflicto_def solapa_def periodo_def fechas_validas_def sql_le_def sql_ge_def)

text \<open>No two ACTIVA reservations of a space have overlapping periods.\<close>

definition sin_solape :: "(nat \<times> reserva_row) list \<Rightarrow> bool" where
  "sin_solape rs \<longleftrightarrow>
     (\<forall>(k1, r1) \<in> set rs. \<forall>(k2, r2) \<in> set rs. k1 \<noteq> k2 \<and> re_espacio_id r1 = re_espacio_id r2 \<and>
        re_estado r1 = Some ACTIVA \<and> re_estado r2 = Some ACTIVA \<longrightarrow>
        (case periodo r1 of None \<Rightarrow> True | Some (a, b) \<Rightarrow> \<not> solapa a b r2))"

lemma solapa_sym:
  "periodo r1 = Some (a1, b1) \<Longrightarrow> periodo r2 = Some (a2, b2) \<Longrightarrow> solapa a1 b1 r2 = solapa a2 b2 r1"
  by (auto simp: solapa_def)

lemma periodo_nueva [simp]: "periodo (reserva_nueva c e t fi ff) = Some (fi, ff)"
  by (simp add: periodo_def reserva_nueva_def)

text \<open>
  C22. A reservation created by \<open>crearReserva\<close> keeps the ACTIVA reservations of each
  space pairwise free of overlap, when the stored periods are valid.
\<close>

lemma crearReserva_sin_solape:
  assumes "crearReserva co eo fio ffo s = Inr (k, s')" "tbl_wf (reservas s)"
    and "\<forall>(_, r) \<in> set (rows (reservas s)). fechas_validas r" "sin_solape (rows (reservas s))"
  shows "sin_solape (rows (reservas s'))"
proof -
  from assms(1) obtain c e fi ff where f: "fi < ff"
    and nc: "\<not> tbl_exists (conflicto e fi ff) (reservas s)"
    and s': "rows (reservas s') = rows (reservas s) @ [(next_id (reservas s), reserva_nueva c e (now s) fi ff)]"
    by (auto simp: crearReserva_Inr)
  let ?n = "reserva_nueva c e (now s) fi ff"
  have libre: "\<not> (re_espacio_id r = e \<and> re_estado r = Some ACTIVA \<and> solapa fi ff r)"
    if "(k', r) \<in> set (rows (reservas s))" for k' r
  proof -
    from that assms(3) have "fechas_validas r" by auto
    with nc that f show ?thesis
      by (auto simp: tbl_exists_iff conflicto_solapa)
  qed
  have fresh: "k' \<noteq> next_id (reservas s)" if "(k', r) \<in> set (rows (reservas s))" for k' r
    using that assms(2) tbl_wf_key_bound by fastforce
  show ?thesis
    unfolding sin_solape_def s'
  proof (intro ballI impI, clarify)
    fix k1 r1 k2 r2
    assume m: "(k1, r1) \<in> set (rows (reservas s) @ [(next_id (reservas s), ?n)])"
              "(k2, r2) \<in> set (rows (reservas s) @ [(next_id (reservas s), ?n)])"
      and h: "k1 \<noteq> k2" "re_espacio_id r1 = re_espacio_id r2"
             "re_estado r1 = Some ACTIVA" "re_estado r2 = Some ACTIVA"
    show "case periodo r1 of None \<Rightarrow> True | Some (a, b) \<Rightarrow> \<not> solapa a b r2"
    proof (cases "periodo r1")
      case (Some p)
      then obtain a b where p: "periodo r1 = Some (a, b)" by (cases p) auto
      consider (viejos) "(k1, r1) \<in> set (rows (reservas s))" "(k2, r2) \<in> set (rows (reservas s))"
        | (nueva1) "r1 = ?n" "(k2, r2) \<in> set (rows (reservas s))"
        | (nueva2) "(k1, r1) \<in> set (rows (reservas s))" "r2 = ?n"
        | (ambas) "k1 = next_id (reservas s)" "k2 = next_id (reservas s)"
        using m by auto
      then show ?thesis
      proof cases
        case viejos
        with assms(4) h p show ?thesis unfolding sin_solape_def by fastforce
      next
        case nueva1
        with p have "a = fi" "b = ff" by simp_all
        with nueva1 libre [OF nueva1(2)] h p show ?thesis by (simp add: reserva_nueva_def)
      next
        case nueva2
        from libre [OF nueva2(1)] h nueva2 have "\<not> solapa fi ff r1"
          by (simp add: reserva_nueva_def)
        with solapa_sym [OF p, of ?n fi ff] nueva2 show ?thesis by (simp add: p)
      next
        case ambas
        with h show ?thesis by simp
      qed
    qed simp
  qed
qed

end
