(* ===== verification/Multas.thy ===== *)
theory Multas
  imports Tickets
begin

text \<open>
  Fines on tickets (\<open>src/parqueo-api/src/controllers/multas.controller.js\<close>).
  \<open>crearMulta\<close> requires a ticket, a reason and an amount, refuses an amount that is not
  positive and a ticket that does not exist; the row's date is the column default
  (\<open>CURRENT_TIMESTAMP\<close>). \<open>actualizarMulta\<close> tests the amount only when it is truthy
  (\<open>monto && monto <= 0\<close>), so an amount of 0 or a missing one is written (0, or
  \<open>NULL\<close>). \<open>listarMultas\<close> adds the amounts in JavaScript with \<open>parseFloat\<close>, for which a
  \<open>NULL\<close> amount is \<open>NaN\<close>.
\<close>

section \<open>Writes\<close>

definition crearMulta :: "nat option \<Rightarrow> string option \<Rightarrow> cents option \<Rightarrow> db \<Rightarrow> (nat, db) handler_result" where
  "crearMulta ticket_id motivo monto s =
    (if \<not> truthy_nat ticket_id \<or> \<not> truthy_str motivo \<or> \<not> truthy_int monto
     then Inl (HttpError 400 CamposRequeridos)
     else if the monto \<le> 0 then Inl (HttpError 400 MontoInvalido)
     else if tbl_get (tickets s) (the ticket_id) = None then Inl (HttpError 404 TicketNoEncontrado)
     else
       let (k, ms) = tbl_insert \<lparr>m_ticket_id = the ticket_id, m_motivo = motivo, m_monto = monto,
                                  m_fecha = now s\<rparr> (multas s)
       in Inr (k, s\<lparr>multas := ms\<rparr>))"

definition actualizarMulta :: "nat \<Rightarrow> string option \<Rightarrow> cents option \<Rightarrow> db \<Rightarrow> (unit, db) handler_result" where
  "actualizarMulta k motivo monto s =
    (if tbl_get (multas s) k = None then Inl (HttpError 404 MultaNoEncontrada)
     else if truthy_int monto \<and> the monto \<le> 0 then Inl (HttpError 400 MontoInvalido)
     else Inr ((), s\<lparr>multas := tbl_modify k (\<lambda>m. m\<lparr>m_motivo := motivo, m_monto := monto\<rparr>) (multas s)\<rparr>))"

definition eliminarMulta :: "nat \<Rightarrow> db \<Rightarrow> (unit, db) handler_result" where
  "eliminarMulta k s =
    (if tbl_get (multas s) k = None then Inl (HttpError 404 MultaNoEncontrada)
     else Inr ((), s\<lparr>multas := tbl_delete k (multas s)\<rparr>))"

declare crearMulta_def [handler_defs] actualizarMulta_def [handler_defs] eliminarMulta_def [handler_defs]

section \<open>Reads\<close>

text \<open>
  \<open>multas.reduce((sum, m) => sum + parseFloat(m.monto), 0)\<close>: \<open>None\<close> is \<open>NaN\<close>, which
  absorbs every later addition.
\<close>

fun suma_js :: "cents option \<Rightarrow> cents option list \<Rightarrow> cents option" where
  "suma_js acc [] = acc"
| "suma_js acc (x # xs) = suma_js (case (acc, x) of (Some a, Some b) \<Rightarrow> Some (a + b) | _ \<Rightarrow> None) xs"

definition listarMultas ::
  "nat option \<Rightarrow> int option \<Rightarrow> int option \<Rightarrow> db \<Rightarrow> (nat \<times> cents option) \<times> (nat \<times> multa_row) list" where
  "listarMultas ticket_id fecha_inicio fecha_fin s =
    (let ms = order_desc m_fecha
                (tbl_where (\<lambda>m. (if truthy_nat ticket_id then m_ticket_id m = the ticket_id else True) \<and>
                                 filtro_fecha fecha_inicio fecha_fin (m_fecha m)) (multas s))
     in ((length ms, suma_js (Some 0) (map (\<lambda>(_, m). m_monto m) ms)), ms))"

definition obtenerMulta :: "nat \<Rightarrow> db \<Rightarrow> http_error + multa_row" where
  "obtenerMulta k s = (case tbl_get (multas s) k of
     None \<Rightarrow> Inl (HttpError 404 MultaNoEncontrada) | Some m \<Rightarrow> Inr m)"

definition buscarMultasPorTicket :: "nat \<Rightarrow> db \<Rightarrow> (nat \<times> multa_row) list" where
  "buscarMultasPorTicket t s = order_desc m_fecha (tbl_where (\<lambda>m. m_ticket_id m = t) (multas s))"

section \<open>Lemmas\<close>

lemma suma_js_None [simp]: "suma_js None xs = None"
  by (induction xs) simp_all

lemma suma_js_Some:
  "suma_js (Some a) xs = (if None \<in> set xs then None else Some (a + sum_list (map the xs)))"
  by (induction xs arbitrary: a) (auto simp: algebra_simps split: option.splits)

lemma crearMulta_Inr:
  "crearMulta to mo mto s = Inr (k, s') \<longleftrightarrow>
     (\<exists>t m. to = Some t \<and> mto = Some m \<and> t \<noteq> 0 \<and> truthy_str mo \<and> 0 < m \<and> tbl_get (tickets s) t \<noteq> None \<and>
        k = next_id (multas s) \<and>
        s' = s\<lparr>multas := snd (tbl_insert \<lparr>m_ticket_id = t, m_motivo = mo, m_monto = Some m, m_fecha = now s\<rparr>
                                (multas s))\<rparr>)"
  by (auto simp: crearMulta_def tbl_insert_def Let_def truthy_nat_def truthy_int_def not_le
           split: option.splits if_splits)

end
