(* ===== verification/Turnos.thy ===== *)
theory Turnos
  imports Store
begin

text \<open>
  Work shifts (\<open>src/parqueo-api/src/controllers/turnos.controller.js\<close>). A shift has a
  description and a start and end hour, which \<open>crearTurno\<close> and \<open>actualizarTurno\<close>
  check against the regular expression \<open>^([0-1][0-9]|2[0-3]):([0-5][0-9]):([0-5][0-9])$\<close>
  (\<open>hora_valida\<close>); \<open>actualizarTurno\<close> checks only the hours that are given and writes
  the three columns from the body. \<open>eliminarTurno\<close> refuses a shift with employees.
  The printer \<open>formato_hora\<close> and the reader \<open>leer_hora\<close> give the format's meaning: the
  regular expression accepts exactly the times of a day printed with two digits per
  field.
\<close>

section \<open>The hour format\<close>

definition rango :: "char \<Rightarrow> char \<Rightarrow> char \<Rightarrow> bool" where
  "rango a b c \<longleftrightarrow> a \<le> c \<and> c \<le> b"

fun hora_valida :: "string \<Rightarrow> bool" where
  "hora_valida [h1, h2, c1, m1, m2, c2, s1, s2] \<longleftrightarrow>
     ((rango CHR ''0'' CHR ''1'' h1 \<and> rango CHR ''0'' CHR ''9'' h2) \<or>
      (h1 = CHR ''2'' \<and> rango CHR ''0'' CHR ''3'' h2)) \<and>
     c1 = CHR '':'' \<and> rango CHR ''0'' CHR ''5'' m1 \<and> rango CHR ''0'' CHR ''9'' m2 \<and>
     c2 = CHR '':'' \<and> rango CHR ''0'' CHR ''5'' s1 \<and> rango CHR ''0'' CHR ''9'' s2"
| "hora_valida _ = False"

definition digito :: "nat \<Rightarrow> char" where
  "digito n = char_of (48 + n)"

definition valor :: "char \<Rightarrow> nat" where
  "valor c = of_char c - 48"

definition dos_digitos :: "nat \<Rightarrow> string" where
  "dos_digitos n = [digito (n div 10), digito (n mod 10)]"

definition formato_hora :: "nat \<Rightarrow> nat \<Rightarrow> nat \<Rightarrow> string" where
  "formato_hora h m s = dos_digitos h @ CHR '':'' # dos_digitos m @ CHR '':'' # dos_digitos s"

definition leer_hora :: "string \<Rightarrow> (nat \<times> nat \<times> nat) option" where
  "leer_hora x =
     (if hora_valida x
      then Some (10 * valor (x ! 0) + valor (x ! 1), 10 * valor (x ! 3) + valor (x ! 4),
                 10 * valor (x ! 6) + valor (x ! 7))
      else None)"

section \<open>Handlers\<close>

definition crearTurno :: "string option \<Rightarrow> string option \<Rightarrow> string option \<Rightarrow> db \<Rightarrow> (nat, db) handler_result" where
  "crearTurno descripcion hora_inicio hora_fin s =
    (if \<not> truthy_str hora_inicio \<or> \<not> truthy_str hora_fin then Inl (HttpError 400 CamposRequeridos)
     else if \<not> hora_valida (the hora_inicio) \<or> \<not> hora_valida (the hora_fin)
     then Inl (HttpError 400 FormatoHoraInvalido)
     else
       let (k, ts) = tbl_insert \<lparr>tu_descripcion = descripcion, tu_hora_inicio = hora_inicio,
                                  tu_hora_fin = hora_fin\<rparr> (turnos s)
       in Inr (k, s\<lparr>turnos := ts\<rparr>))"

definition actualizarTurno ::
  "nat \<Rightarrow> string option \<Rightarrow> string option \<Rightarrow> string option \<Rightarrow> db \<Rightarrow> (unit, db) handler_result" where
  "actualizarTurno k descripcion hora_inicio hora_fin s =
    (if tbl_get (turnos s) k = None then Inl (HttpError 404 TurnoNoEncontrado)
     else if (truthy_str hora_inicio \<and> \<not> hora_valida (the hora_inicio)) \<or>
             (truthy_str hora_fin \<and> \<not> hora_valida (the hora_fin))
     then Inl (HttpError 400 FormatoHoraInvalido)
     else Inr ((), s\<lparr>turnos := tbl_modify k
        (\<lambda>t. t\<lparr>tu_descripcion := descripcion, tu_hora_inicio := hora_inicio, tu_hora_fin := hora_fin\<rparr>)
        (turnos s)\<rparr>))"

definition eliminarTurno :: "nat \<Rightarrow> db \<Rightarrow> (unit, db) handler_result" where
  "eliminarTurno k s =
    (if tbl_get (turnos s) k = None then Inl (HttpError 404 TurnoNoEncontrado)
     else if tbl_count (\<lambda>e. em_turno_id e = Some k) (empleados s) > 0 then Inl (HttpError 400 NoSePuedeEliminar)
     else Inr ((), s\<lparr>turnos := tbl_delete k (turnos s)\<rparr>))"

declare crearTurno_def [handler_defs] actualizarTurno_def [handler_defs] eliminarTurno_def [handler_defs]

text \<open>
  The reads: each shift with its number of employees (\<open>COUNT(e.id)\<close> over the
  \<open>LEFT JOIN\<close>), by start hour; one shift with its employees joined to their users
  (\<open>INNER JOIN\<close>: an employee without a user row is left out), by user name.
\<close>

definition empleados_de_turno :: "nat \<Rightarrow> db \<Rightarrow> (nat \<times> empleado_row) list" where
  "empleados_de_turno k s = tbl_where (\<lambda>e. em_turno_id e = Some k) (empleados s)"

definition listarTurnos :: "db \<Rightarrow> ((nat \<times> turno_row) \<times> nat) list" where
  "listarTurnos s = map (\<lambda>(k, t). ((k, t), length (empleados_de_turno k s)))
     (sort_key (\<lambda>(_, t). tu_hora_inicio t) (rows (turnos s)))"

definition obtenerTurno ::
  "nat \<Rightarrow> db \<Rightarrow> http_error + ((turno_row \<times> nat) \<times> (nat \<times> empleado_row \<times> usuario_row) list)" where
  "obtenerTurno k s =
    (case tbl_get (turnos s) k of
      None \<Rightarrow> Inl (HttpError 404 TurnoNoEncontrado)
    | Some t \<Rightarrow> Inr ((t, length (empleados_de_turno k s)),
        sort_key (\<lambda>(_, _, u). upper (u_nombre u))
          (List.map_filter (\<lambda>(k', e). map_option (\<lambda>u. (k', e, u)) (tbl_get (usuarios s) (em_usuario_id e)))
             (empleados_de_turno k s))))"

section \<open>The format, read and printed\<close>

lemma rango_iff: "rango a b c \<longleftrightarrow> (of_char a :: nat) \<le> of_char c \<and> (of_char c :: nat) \<le> of_char b"
  by (simp add: rango_def less_eq_char_def)

lemma of_char_digito: "n < 10 \<Longrightarrow> of_char (digito n) = 48 + n"
  by (simp add: digito_def)

lemma valor_digito [simp]: "n < 10 \<Longrightarrow> valor (digito n) = n"
  by (simp add: valor_def of_char_digito)

lemma rango_digito [simp]:
  "n < 10 \<Longrightarrow> rango CHR ''0'' c (digito n) \<longleftrightarrow> 48 + n \<le> of_char c"
  by (simp add: rango_iff of_char_digito)

lemma digito_eq_2 [simp]: "n < 10 \<Longrightarrow> digito n = CHR ''2'' \<longleftrightarrow> n = 2"
proof -
  assume n: "n < 10"
  have "digito n = CHR ''2'' \<longleftrightarrow> (of_char (digito n) :: nat) = of_char (CHR ''2'')"
    by (simp only: of_char_eq_iff)
  with n show ?thesis by (simp add: of_char_digito)
qed

lemma valor_lt: "rango CHR ''0'' CHR ''9'' c \<Longrightarrow> valor c < 10"
  unfolding rango_iff valor_def by simp arith

lemma valor_le: "rango CHR ''0'' b c \<Longrightarrow> valor c \<le> of_char b - 48"
  unfolding rango_iff valor_def by simp arith

lemma digito_valor: "rango CHR ''0'' b c \<Longrightarrow> digito (valor c) = c"
  by (simp add: rango_iff valor_def digito_def)

lemma formato_hora_chars:
  "formato_hora h m s = [digito (h div 10), digito (h mod 10), CHR '':'', digito (m div 10), digito (m mod 10),
                         CHR '':'', digito (s div 10), digito (s mod 10)]"
  by (simp add: formato_hora_def dos_digitos_def)

lemma hora_valida_formato:
  assumes "h < 24" "m < 60" "s < 60"
  shows "hora_valida (formato_hora h m s)"
proof -
  have d: "h div 10 < 10" "m div 10 < 10" "s div 10 < 10" "m div 10 < 6" "s div 10 < 6"
    using assms by (simp_all add: less_mult_imp_div_less)
  have "h div 10 < 2 \<or> h div 10 = 2 \<and> h mod 10 < 4"
  proof (cases "h < 20")
    case True
    then show ?thesis by (simp add: less_mult_imp_div_less)
  next
    case False
    with assms(1) have "h div 10 = 2" "h mod 10 = h - 20"
      by (simp_all add: div_nat_eqI mod_nat_eqI)
    with assms(1) show ?thesis by simp
  qed
  with d show ?thesis
    unfolding formato_hora_chars by auto
qed

lemma leer_formato:
  assumes "h < 24" "m < 60" "s < 60"
  shows "leer_hora (formato_hora h m s) = Some (h, m, s)"
proof -
  have d: "h div 10 < 10" "m div 10 < 10" "s div 10 < 10"
    using assms by (simp_all add: less_mult_imp_div_less)
  with hora_valida_formato [OF assms] show ?thesis
    unfolding leer_hora_def by (simp add: formato_hora_chars)
qed

lemma hora_valida_cases:
  assumes "hora_valida x"
  obtains h1 h2 m1 m2 s1 s2 where "x = [h1, h2, CHR '':'', m1, m2, CHR '':'', s1, s2]"
    "(rango CHR ''0'' CHR ''1'' h1 \<and> rango CHR ''0'' CHR ''9'' h2) \<or> (h1 = CHR ''2'' \<and> rango CHR ''0'' CHR ''3'' h2)"
    "rango CHR ''0'' CHR ''5'' m1" "rango CHR ''0'' CHR ''9'' m2"
    "rango CHR ''0'' CHR ''5'' s1" "rango CHR ''0'' CHR ''9'' s2"
  using assms by (cases x rule: hora_valida.cases) auto

lemma formato_leer:
  assumes "leer_hora x = Some (h, m, s)"
  shows "formato_hora h m s = x \<and> h < 24 \<and> m < 60 \<and> s < 60"
proof -
  from assms have v: "hora_valida x" by (simp add: leer_hora_def split: if_splits)
  then obtain h1 h2 m1 m2 s1 s2 where x: "x = [h1, h2, CHR '':'', m1, m2, CHR '':'', s1, s2]"
    and hh: "(rango CHR ''0'' CHR ''1'' h1 \<and> rango CHR ''0'' CHR ''9'' h2) \<or> (h1 = CHR ''2'' \<and> rango CHR ''0'' CHR ''3'' h2)"
    and mm: "rango CHR ''0'' CHR ''5'' m1" "rango CHR ''0'' CHR ''9'' m2"
    and ss: "rango CHR ''0'' CHR ''5'' s1" "rango CHR ''0'' CHR ''9'' s2"
    by (rule hora_valida_cases)
  from assms v x have hms: "h = 10 * valor h1 + valor h2" "m = 10 * valor m1 + valor m2"
      "s = 10 * valor s1 + valor s2"
    by (simp_all add: leer_hora_def)
  from hh have r: "rango CHR ''0'' CHR ''9'' h1" "rango CHR ''0'' CHR ''9'' h2"
    by (auto simp: rango_iff)
  have h2: "valor h2 < 10" "digito (valor h1) = h1" "digito (valor h2) = h2"
    using valor_lt [OF r(2)] digito_valor [OF r(1)] digito_valor [OF r(2)] by simp_all
  from hh have "valor h1 \<le> 1 \<and> valor h2 \<le> 9 \<or> valor h1 = 2 \<and> valor h2 \<le> 3"
    by (auto simp: rango_iff valor_def)
  with hms(1) have h24: "h < 24" by auto
  have "m < 60" "s < 60"
    using hms(2,3) valor_le [OF mm(1)] valor_le [OF ss(1)] valor_lt [OF mm(2)] valor_lt [OF ss(2)] by simp_all
  moreover have "formato_hora h m s = x"
    using hms h2 x valor_lt [OF mm(2)] valor_lt [OF ss(2)] digito_valor [OF mm(1)] digito_valor [OF mm(2)]
      digito_valor [OF ss(1)] digito_valor [OF ss(2)]
    by (simp add: formato_hora_def dos_digitos_def)
  ultimately show ?thesis using h24 by simp
qed

end
