(* ===== verification/Empleados.thy ===== *)
theory Empleados
  imports Store
begin

text \<open>
  Employees (\<open>src/parqueo-api/src/controllers/empleados.controller.js\<close>). An employee
  row links a user account to a shift, with a DPI (the national identity number).
  \<open>crearEmpleado\<close> checks, in order, the required user and DPI, that the user exists,
  that the user is not an employee yet, that no employee has the DPI, and that a given
  shift exists. \<open>actualizarEmpleado\<close> writes shift, phone, address and DPI from the body
  with none of these checks. \<open>cambiarEstado\<close> writes the \<open>activo\<close> flag of the employee's
  user. \<open>eliminarEmpleado\<close> refuses an employee that tickets refer to, comparing the
  tickets' \<open>empleado_id\<close> with the employee's id.
\<close>

section \<open>Writes\<close>

definition dpi_igual :: "string \<Rightarrow> empleado_row \<Rightarrow> bool" where
  "dpi_igual d e \<longleftrightarrow> (case em_dpi e of None \<Rightarrow> False | Some d' \<Rightarrow> ci_eq d' d)"

definition crearEmpleado ::
  "nat option \<Rightarrow> nat option \<Rightarrow> string option \<Rightarrow> string option \<Rightarrow> string option \<Rightarrow> db \<Rightarrow> (nat, db) handler_result" where
  "crearEmpleado usuario_id turno_id telefono direccion dpi s =
    (if \<not> truthy_nat usuario_id \<or> \<not> truthy_str dpi then Inl (HttpError 400 CamposRequeridos)
     else
       let u = the usuario_id in
       if tbl_get (usuarios s) u = None then Inl (HttpError 404 UsuarioNoEncontrado)
       else if tbl_exists (\<lambda>e. em_usuario_id e = u) (empleados s) then Inl (HttpError 409 UsuarioYaEsEmpleado)
       else if tbl_exists (dpi_igual (the dpi)) (empleados s) then Inl (HttpError 409 DpiDuplicado)
       else if truthy_nat turno_id \<and> tbl_get (turnos s) (the turno_id) = None
       then Inl (HttpError 404 TurnoNoEncontrado)
       else
         let (k, es) = tbl_insert \<lparr>em_usuario_id = u, em_turno_id = turno_id, em_telefono = telefono,
                                    em_direccion = direccion, em_dpi = dpi\<rparr> (empleados s)
         in Inr (k, s\<lparr>empleados := es\<rparr>))"

definition actualizarEmpleado ::
  "nat \<Rightarrow> nat option \<Rightarrow> string option \<Rightarrow> string option \<Rightarrow> string option \<Rightarrow> db \<Rightarrow> (unit, db) handler_result" where
  "actualizarEmpleado k turno_id telefono direccion dpi s =
    (if tbl_get (empleados s) k = None then Inl (HttpError 404 EmpleadoNoEncontrado)
     else Inr ((), s\<lparr>empleados := tbl_modify k
        (\<lambda>e. e\<lparr>em_turno_id := turno_id, em_telefono := telefono, em_direccion := direccion, em_dpi := dpi\<rparr>)
        (empleados s)\<rparr>))"

definition cambiarEstado :: "nat \<Rightarrow> bool option \<Rightarrow> db \<Rightarrow> (unit, db) handler_result" where
  "cambiarEstado k activo s =
    (case tbl_get (empleados s) k of
      None \<Rightarrow> Inl (HttpError 404 EmpleadoNoEncontrado)
    | Some e \<Rightarrow> Inr ((), s\<lparr>usuarios := tbl_modify (em_usuario_id e) (\<lambda>u. u\<lparr>u_activo := activo\<rparr>) (usuarios s)\<rparr>))"

definition eliminarEmpleado :: "nat \<Rightarrow> db \<Rightarrow> (unit, db) handler_result" where
  "eliminarEmpleado k s =
    (if tbl_get (empleados s) k = None then Inl (HttpError 404 EmpleadoNoEncontrado)
     else if tbl_count (\<lambda>t. t_empleado_id t = k) (tickets s) > 0 then Inl (HttpError 400 NoSePuedeEliminar)
     else Inr ((), s\<lparr>empleados := tbl_delete k (empleados s)\<rparr>))"

declare crearEmpleado_def [handler_defs] actualizarEmpleado_def [handler_defs]
  cambiarEstado_def [handler_defs] eliminarEmpleado_def [handler_defs]

section \<open>Reads\<close>

text \<open>
  Employees joined to their user (\<open>LEFT JOIN\<close>: \<open>None\<close> when the user row is missing),
  by user name, \<open>NULL\<close> first.
\<close>

definition con_usuario :: "db \<Rightarrow> nat \<times> empleado_row \<Rightarrow> (nat \<times> empleado_row) \<times> usuario_row option" where
  "con_usuario s = (\<lambda>(k, e). ((k, e), tbl_get (usuarios s) (em_usuario_id e)))"

definition listarEmpleados :: "db \<Rightarrow> ((nat \<times> empleado_row) \<times> usuario_row option) list" where
  "listarEmpleados s = sort_key (\<lambda>(_, u). map_option (\<lambda>u. upper (u_nombre u)) u) (map (con_usuario s) (rows (empleados s)))"

definition obtenerEmpleado :: "nat \<Rightarrow> db \<Rightarrow> http_error + (empleado_row \<times> usuario_row option)" where
  "obtenerEmpleado k s = (case tbl_get (empleados s) k of
     None \<Rightarrow> Inl (HttpError 404 EmpleadoNoEncontrado)
   | Some e \<Rightarrow> Inr (e, tbl_get (usuarios s) (em_usuario_id e)))"

section \<open>The writes, branch by branch\<close>

lemma crearEmpleado_Inr:
  "crearEmpleado uo tuo te di dpo s = Inr (k, s') \<longleftrightarrow>
     (\<exists>u d. uo = Some u \<and> dpo = Some d \<and> u \<noteq> 0 \<and> d \<noteq> [] \<and> tbl_get (usuarios s) u \<noteq> None \<and>
        \<not> tbl_exists (\<lambda>e. em_usuario_id e = u) (empleados s) \<and> \<not> tbl_exists (dpi_igual d) (empleados s) \<and>
        (truthy_nat tuo \<longrightarrow> tbl_get (turnos s) (the tuo) \<noteq> None) \<and> k = next_id (empleados s) \<and>
        s' = s\<lparr>empleados := snd (tbl_insert \<lparr>em_usuario_id = u, em_turno_id = tuo, em_telefono = te,
                                    em_direccion = di, em_dpi = dpo\<rparr> (empleados s))\<rparr>)"
  by (auto simp: crearEmpleado_def tbl_insert_def Let_def truthy_nat_def truthy_str_def
           split: option.splits if_splits)

end
