(* ===== verification/Roles.thy ===== *)
theory Roles
  imports Store
begin

text \<open>
  User roles (\<open>src/parqueo-api/src/controllers/roles.controller.js\<close>). Role names are
  compared by the store's case-insensitive collation when a role is created or
  renamed; the rename test \<open>nombre !== rolExiste[0].nombre\<close> is JavaScript's
  case-sensitive one. \<open>eliminarRol\<close> refuses, with 403, the roles whose current name
  upper-cases to a system role, and refuses a role that users hold. \<open>obtenerPermisos\<close>
  maps a role's upper-cased name to a fixed table of permissions; a name outside the
  table gets none.
\<close>

section \<open>Writes\<close>

definition roles_sistema :: "string list" where
  "roles_sistema = [''ADMIN'', ''ADMINISTRADOR'', ''USUARIO'', ''EMPLEADO'']"

definition rol_llamado :: "string \<Rightarrow> rol_row \<Rightarrow> bool" where
  "rol_llamado n r \<longleftrightarrow> ci_eq (r_nombre r) n"

definition crearRol :: "string option \<Rightarrow> string option \<Rightarrow> db \<Rightarrow> (nat, db) handler_result" where
  "crearRol nombre descripcion s =
    (if \<not> truthy_str nombre then Inl (HttpError 400 CampoRequerido)
     else if tbl_exists (rol_llamado (the nombre)) (roles s) then Inl (HttpError 409 RolYaExiste)
     else
       let (k, rs) = tbl_insert \<lparr>r_nombre = the nombre, r_descripcion = descripcion\<rparr> (roles s)
       in Inr (k, s\<lparr>roles := rs\<rparr>))"

definition actualizarRol :: "nat \<Rightarrow> string option \<Rightarrow> string option \<Rightarrow> db \<Rightarrow> (unit, db) handler_result" where
  "actualizarRol k nombre descripcion s =
    (case tbl_get (roles s) k of
      None \<Rightarrow> Inl (HttpError 404 RolNoEncontrado)
    | Some r \<Rightarrow>
        if truthy_str nombre \<and> the nombre \<noteq> r_nombre r \<and>
           (\<exists>(k', r') \<in> set (rows (roles s)). rol_llamado (the nombre) r' \<and> k' \<noteq> k)
        then Inl (HttpError 409 NombreDuplicado)
        else Inr ((), s\<lparr>roles := tbl_modify k
               (\<lambda>r. r\<lparr>r_nombre := (if truthy_str nombre then the nombre else r_nombre r),
                     r_descripcion := descripcion\<rparr>) (roles s)\<rparr>))"

definition eliminarRol :: "nat \<Rightarrow> db \<Rightarrow> (unit, db) handler_result" where
  "eliminarRol k s =
    (case tbl_get (roles s) k of
      None \<Rightarrow> Inl (HttpError 404 RolNoEncontrado)
    | Some r \<Rightarrow>
        if upper (r_nombre r) \<in> set roles_sistema then Inl (HttpError 403 NoSePuedeEliminar)
        else if tbl_count (\<lambda>u. u_rol_id u = k) (usuarios s) > 0 then Inl (HttpError 400 NoSePuedeEliminar)
        else Inr ((), s\<lparr>roles := tbl_delete k (roles s)\<rparr>))"

declare crearRol_def [handler_defs] actualizarRol_def [handler_defs] eliminarRol_def [handler_defs]

section \<open>Reads\<close>

definition usuarios_de_rol :: "nat \<Rightarrow> db \<Rightarrow> (nat \<times> usuario_row) list" where
  "usuarios_de_rol k s = tbl_where (\<lambda>u. u_rol_id u = k) (usuarios s)"

definition listarRoles :: "db \<Rightarrow> ((nat \<times> rol_row) \<times> nat) list" where
  "listarRoles s = map (\<lambda>(k, r). ((k, r), length (usuarios_de_rol k s)))
     (sort_key (\<lambda>(_, r). upper (r_nombre r)) (rows (roles s)))"

definition obtenerRol :: "nat \<Rightarrow> db \<Rightarrow> http_error + ((rol_row \<times> nat) \<times> (nat \<times> usuario_row) list)" where
  "obtenerRol k s = (case tbl_get (roles s) k of
     None \<Rightarrow> Inl (HttpError 404 RolNoEncontrado)
   | Some r \<Rightarrow> Inr ((r, length (usuarios_de_rol k s)),
                    sort_key (\<lambda>(_, u). upper (u_nombre u)) (usuarios_de_rol k s)))"

text \<open>The permission table, resource by resource.\<close>

definition permisos :: "string \<Rightarrow> (string \<times> string list) list" where
  "permisos n =
    (if n = ''ADMIN'' then
       [(''clientes'', [''crear'', ''leer'', ''actualizar'', ''eliminar'']),
        (''vehiculos'', [''crear'', ''leer'', ''actualizar'', ''eliminar'']),
        (''empleados'', [''crear'', ''leer'', ''actualizar'', ''eliminar'']),
        (''tickets'', [''crear'', ''leer'', ''actualizar'', ''eliminar'']),
        (''pagos'', [''crear'', ''leer'', ''reporte'']),
        (''tarifas'', [''crear'', ''leer'', ''actualizar'', ''eliminar'']),
        (''espacios'', [''crear'', ''leer'', ''actualizar'', ''eliminar'']),
        (''multas'', [''crear'', ''leer'', ''actualizar'', ''eliminar'']),
        (''reservas'', [''crear'', ''leer'', ''actualizar'', ''eliminar'']),
        (''reportes'', [''acceso_completo''])]
     else if n = ''EMPLEADO'' then
       [(''clientes'', [''crear'', ''leer'', ''actualizar'']),
        (''vehiculos'', [''crear'', ''leer'', ''actualizar'']),
        (''tickets'', [''crear'', ''leer'', ''actualizar'']),
        (''pagos'', [''crear'', ''leer'']),
        (''espacios'', [''leer'']),
        (''multas'', [''crear'', ''leer'']),
        (''reservas'', [''leer''])]
     else if n = ''USUARIO'' then
       [(''tickets'', [''leer'']), (''vehiculos'', [''leer'']), (''reservas'', [''crear'', ''leer''])]
     else [])"

definition obtenerPermisos :: "nat \<Rightarrow> db \<Rightarrow> http_error + (rol_row \<times> (string \<times> string list) list)" where
  "obtenerPermisos k s = (case tbl_get (roles s) k of
     None \<Rightarrow> Inl (HttpError 404 RolNoEncontrado)
   | Some r \<Rightarrow> Inr (r, permisos (upper (r_nombre r))))"

end
