(* ===== verification/Historial.thy ===== *)
theory Historial
  imports Tickets
begin

text \<open>
  The access log (\<open>src/parqueo-api/src/controllers/historialaccesos.controller.js\<close>):
  rows of a user id, an action (\<open>LOGIN\<close>, \<open>LOGOUT\<close> or any text a client posts) and the
  column default date. \<open>registrarAcceso\<close> appends a row for an existing user;
  \<open>limpiarHistorial\<close> deletes the rows older than a number of days of at least 30
  (\<open>DATE_SUB(NOW(), INTERVAL ? DAY)\<close>, a day being 86400 seconds); the reads filter,
  sort, limit and count the rows.
\<close>

section \<open>Writes\<close>

definition registrarAcceso :: "nat option \<Rightarrow> string option \<Rightarrow> db \<Rightarrow> (nat, db) handler_result" where
  "registrarAcceso usuario_id accion s =
    (if \<not> truthy_nat usuario_id \<or> \<not> truthy_str accion then Inl (HttpError 400 CamposRequeridos)
     else if tbl_get (usuarios s) (the usuario_id) = None then Inl (HttpError 404 UsuarioNoEncontrado)
     else
       let (k, hs) = tbl_insert \<lparr>h_usuario_id = the usuario_id, h_accion = the accion, h_fecha = now s\<rparr>
                       (historial s)
       in Inr (k, s\<lparr>historial := hs\<rparr>))"

definition corte :: "timestamp \<Rightarrow> int \<Rightarrow> timestamp" where
  "corte ahora dias = ahora - dias * 86400"

text \<open>The answer is \<open>resultado.affectedRows\<close>, the number of rows deleted.\<close>

definition limpiarHistorial :: "int option \<Rightarrow> db \<Rightarrow> (nat, db) handler_result" where
  "limpiarHistorial dias s =
    (if \<not> truthy_int dias \<or> the dias < 30 then Inl (HttpError 400 ParametroInvalido)
     else
       let viejo = (\<lambda>h. h_fecha h < corte (now s) (the dias))
       in Inr (tbl_count viejo (historial s), s\<lparr>historial := tbl_delete_where viejo (historial s)\<rparr>))"

declare registrarAcceso_def [handler_defs] limpiarHistorial_def [handler_defs]

section \<open>Reads\<close>

definition limitar :: "nat option \<Rightarrow> 'a list \<Rightarrow> 'a list" where
  "limitar l xs = (case l of None \<Rightarrow> xs | Some n \<Rightarrow> take n xs)"

definition listarHistorial ::
  "nat option \<Rightarrow> string option \<Rightarrow> int option \<Rightarrow> int option \<Rightarrow> nat option \<Rightarrow> db \<Rightarrow> (nat \<times> historial_row) list" where
  "listarHistorial usuario_id accion fecha_inicio fecha_fin limit s =
     limitar limit (order_desc h_fecha
       (tbl_where (\<lambda>h. (if truthy_nat usuario_id then h_usuario_id h = the usuario_id else True) \<and>
                        (if truthy_str accion then ci_eq (h_accion h) (the accion) else True) \<and>
                        filtro_fecha fecha_inicio fecha_fin (h_fecha h)) (historial s)))"

definition obtenerHistorialPorUsuario ::
  "nat \<Rightarrow> nat option \<Rightarrow> db \<Rightarrow> http_error + (usuario_row \<times> nat \<times> (nat \<times> historial_row) list)" where
  "obtenerHistorialPorUsuario u limit s =
    (case tbl_get (usuarios s) u of
      None \<Rightarrow> Inl (HttpError 404 UsuarioNoEncontrado)
    | Some usr \<Rightarrow>
        let hs = limitar limit (order_desc h_fecha (tbl_where (\<lambda>h. h_usuario_id h = u) (historial s)))
        in Inr (usr, length hs, hs))"

definition obtenerRegistro :: "nat \<Rightarrow> db \<Rightarrow> http_error + historial_row" where
  "obtenerRegistro k s = (case tbl_get (historial s) k of
     None \<Rightarrow> Inl (HttpError 404 RegistroNoEncontrado) | Some h \<Rightarrow> Inr h)"

definition contar :: "('v \<Rightarrow> 'k) \<Rightarrow> 'v list \<Rightarrow> ('k \<times> nat) list" where
  "contar g xs = map (\<lambda>c. (c, length (filter (\<lambda>x. g x = c) xs))) (remdups (map g xs))"

text \<open>
  \<open>obtenerEstadisticas\<close>: the totals (rows, distinct users, logins, logouts), the ten
  users with most rows, the rows per action, and the rows of the last 30 days that
  have any, all over the rows in the date filter.
\<close>

definition obtenerEstadisticas ::
  "int option \<Rightarrow> int option \<Rightarrow> db \<Rightarrow>
     (nat \<times> nat \<times> nat \<times> nat) \<times> (nat \<times> nat) list \<times> (string \<times> nat) list \<times> (int \<times> nat) list" where
  "obtenerEstadisticas fecha_inicio fecha_fin s =
    (let hs = map snd (tbl_where (\<lambda>h. filtro_fecha fecha_inicio fecha_fin (h_fecha h)) (historial s));
         resumen = (length hs, card (set (map h_usuario_id hs)),
                    length (filter (\<lambda>h. ci_eq (h_accion h) ''LOGIN'') hs),
                    length (filter (\<lambda>h. ci_eq (h_accion h) ''LOGOUT'') hs))
     in (resumen, take 10 (rev (sort_key snd (contar h_usuario_id hs))),
         rev (sort_key snd (contar (\<lambda>h. upper (h_accion h)) hs)),
         take 30 (rev (sort_key fst (contar (\<lambda>h. day_of (h_fecha h)) hs)))))"

lemma length_filter_filas:
  "length (filter (\<lambda>(_, v). P v) xs) + length (filter (\<lambda>(_, v). \<not> P v) xs) = length xs"
  by (induction xs) auto

end
