(* ===== verification/Auth.thy ===== *)
theory Auth
  imports Store
begin

text \<open>
  Accounts and sessions (\<open>src/parqueo-api/src/controllers/auth.controller.js\<close>) and the
  two middlewares (\<open>src/parqueo-api/src/middlewares/auth.middleware.js\<close>). The libraries
  the code calls are parameters of the model: \<open>cifrar\<close> is \<open>bcrypt.hash\<close>, \<open>coincide\<close>
  is \<open>bcrypt.compare\<close>, and \<open>verificar\<close> is \<open>jwt.verify\<close> with the server's secret,
  which yields the payload of a token signed by \<open>login\<close> (\<open>Valido\<close>), or the
  \<open>TokenExpiredError\<close> (\<open>Expirado\<close>), or any other failure (\<open>Invalido\<close>). The payload is a
  \<open>sesion\<close>: the user's id, name, mail and role name (\<open>NULL\<close> when the role row is
  missing).
\<close>

record sesion =
  s_id :: nat
  s_nombre :: string
  s_correo :: string
  s_rol :: "string option"

datatype verificacion = Valido sesion | Expirado | Invalido

section \<open>Controller\<close>

definition correo_igual :: "string \<Rightarrow> usuario_row \<Rightarrow> bool" where
  "correo_igual c u \<longleftrightarrow> ci_eq (u_correo u) c"

definition rol_nombre :: "db \<Rightarrow> nat \<Rightarrow> string option" where
  "rol_nombre s r = map_option r_nombre (tbl_get (roles s) r)"

text \<open>\<open>registrar\<close>: a public route; the caller's \<open>rol_id\<close> is stored (role 1 when it is falsy).\<close>

definition registrar ::
  "(string \<Rightarrow> string) \<Rightarrow> string option \<Rightarrow> string option \<Rightarrow> string option \<Rightarrow> nat option \<Rightarrow> db \<Rightarrow>
     (nat, db) handler_result" where
  "registrar cifrar nombre correo password rol_id s =
    (if \<not> truthy_str nombre \<or> \<not> truthy_str correo \<or> \<not> truthy_str password
     then Inl (HttpError 400 CamposIncompletos)
     else if tbl_exists (correo_igual (the correo)) (usuarios s) then Inl (HttpError 409 CorreoYaRegistrado)
     else
       let (k, us) = tbl_insert \<lparr>u_nombre = the nombre, u_correo = the correo, u_password = cifrar (the password),
                                  u_rol_id = (if truthy_nat rol_id then the rol_id else 1), u_activo = Some True\<rparr>
                       (usuarios s)
       in Inr (k, s\<lparr>usuarios := us\<rparr>))"

definition entrada_historial :: "nat \<Rightarrow> string \<Rightarrow> db \<Rightarrow> db" where
  "entrada_historial u a s = s\<lparr>historial := snd (tbl_insert \<lparr>h_usuario_id = u, h_accion = a, h_fecha = now s\<rparr> (historial s))\<rparr>"

text \<open>
  \<open>login\<close>: the first user with the mail, then the \<open>activo\<close> flag, then the password; on
  success the payload of the signed token and a LOGIN row in the access log.
\<close>

definition login ::
  "(string \<Rightarrow> string \<Rightarrow> bool) \<Rightarrow> string option \<Rightarrow> string option \<Rightarrow> db \<Rightarrow> (sesion, db) handler_result" where
  "login coincide correo password s =
    (if \<not> truthy_str correo \<or> \<not> truthy_str password then Inl (HttpError 400 CamposIncompletos)
     else case tbl_where (correo_igual (the correo)) (usuarios s) of
       [] \<Rightarrow> Inl (HttpError 401 CredencialesInvalidas)
     | (k, u) # _ \<Rightarrow>
         if \<not> truthy_bool (u_activo u) then Inl (HttpError 403 UsuarioInactivo)
         else if \<not> coincide (the password) (u_password u) then Inl (HttpError 401 CredencialesInvalidas)
         else Inr (\<lparr>s_id = k, s_nombre = u_nombre u, s_correo = u_correo u, s_rol = rol_nombre s (u_rol_id u)\<rparr>,
                   entrada_historial k ''LOGIN'' s))"

definition obtenerPerfil :: "sesion \<Rightarrow> db \<Rightarrow> http_error + (usuario_row \<times> string option)" where
  "obtenerPerfil ses s = (case tbl_get (usuarios s) (s_id ses) of
     None \<Rightarrow> Inl (HttpError 404 UsuarioNoEncontrado) | Some u \<Rightarrow> Inr (u, rol_nombre s (u_rol_id u)))"

definition logout :: "sesion \<Rightarrow> db \<Rightarrow> (unit, db) handler_result" where
  "logout ses s = Inr ((), entrada_historial (s_id ses) ''LOGOUT'' s)"

declare registrar_def [handler_defs] login_def [handler_defs] logout_def [handler_defs]
  entrada_historial_def [handler_defs]

section \<open>Middleware\<close>

text \<open>\<open>String.prototype.split(' ')\<close>: the pieces between the separators, empty ones kept.\<close>

fun split_js :: "char \<Rightarrow> string \<Rightarrow> string list" where
  "split_js c [] = [[]]"
| "split_js c (x # xs) = (if x = c then [] # split_js c xs else (let r = split_js c xs in (x # hd r) # tl r))"

text \<open>\<open>authHeader.split(' ')[1]\<close>, which is \<open>undefined\<close> or empty (both falsy) when missing.\<close>

definition token_de :: "string \<Rightarrow> string option" where
  "token_de h = (case split_js CHR '' '' h of _ # t # _ \<Rightarrow> if t = [] then None else Some t | _ \<Rightarrow> None)"

definition verificarToken :: "(string \<Rightarrow> verificacion) \<Rightarrow> string option \<Rightarrow> http_error + sesion" where
  "verificarToken verificar authorization =
    (if \<not> truthy_str authorization then Inl (HttpError 403 TokenNoProporcionado)
     else case token_de (the authorization) of
       None \<Rightarrow> Inl (HttpError 403 FormatoTokenInvalido)
     | Some t \<Rightarrow> (case verificar t of
         Valido ses \<Rightarrow> Inr ses
       | Expirado \<Rightarrow> Inl (HttpError 401 TokenExpirado)
       | Invalido \<Rightarrow> Inl (HttpError 401 TokenInvalido)))"

definition verificarRol :: "string list \<Rightarrow> sesion option \<Rightarrow> http_error + unit" where
  "verificarRol permitidos usuario =
    (case usuario of
      None \<Rightarrow> Inl (HttpError 401 NoAutenticado)
    | Some ses \<Rightarrow> if s_rol ses \<in> Some ` set permitidos then Inr () else Inl (HttpError 403 AccesoDenegado))"

section \<open>Splitting\<close>

lemma split_js_ne [simp]: "split_js c xs \<noteq> []"
  by (induction xs) (simp_all add: Let_def)

lemma split_js_piezas: "w \<in> set (split_js c xs) \<Longrightarrow> c \<notin> set w"
proof (induction xs arbitrary: w)
  case Nil
  then show ?case by simp
next
  case (Cons x xs)
  then show ?case
    by (cases "split_js c xs") (auto simp: Let_def split: if_splits)
qed

lemma split_js_append:
  "c \<notin> set w \<Longrightarrow> split_js c (w @ c # xs) = w # split_js c xs"
  by (induction w) (auto simp: Let_def)

lemma split_js_sin_sep: "c \<notin> set w \<Longrightarrow> split_js c w = [w]"
  by (induction w) (auto simp: Let_def)

lemma token_de_esquema:
  assumes "CHR '' '' \<notin> set esquema" "CHR '' '' \<notin> set t"
  shows "token_de (esquema @ CHR '' '' # t) = (if t = [] then None else Some t)"
  using assms by (simp add: token_de_def split_js_append split_js_sin_sep)

end
