(* ===== verification/Operations.thy ===== *)
theory Operations
  imports Pagos Espacios Tarifas Clientes Vehiculos Zonas TiposPago Reservas Multas Turnos Empleados
    Roles Historial Auth
begin

text \<open>
  The server as a state machine over the store. Each request to a handler that writes is
  one operation; it runs to completion before the next one starts (the requests are
  serialised, which is what the store's transactions promise for the transactional
  handlers), and an operation whose handler answers with an error leaves the store as
  it was. The clock moves forward between requests. Read handlers change nothing and are
  not operations. The operations of the account routes carry what the libraries
  answered: the hash \<open>bcrypt.hash\<close> gave for the new password, whether
  \<open>bcrypt.compare\<close> accepted the password, and the session a valid token carried.
\<close>

datatype (plugins only: size) op =
    OpEntrada nat "nat option" "nat option" "nat option"
  | OpSalida nat
  | OpPago "nat option" "nat option" "cents option"
  | OpCrearEspacio "nat option" "string option" "bool option"
  | OpActualizarEspacio nat "nat option" "string option" "bool option"
  | OpCambiarDisponibilidad nat "bool option"
  | OpEliminarEspacio nat
  | OpCrearTarifa "string option" "cents option"
  | OpActualizarTarifa nat "string option" "cents option"
  | OpEliminarTarifa nat
  | OpCrearCliente "string option" "string option" "string option" "string option"
  | OpActualizarCliente nat "string option" "string option" "string option" "string option"
  | OpEliminarCliente nat
  | OpCrearVehiculo "nat option" "string option" "string option" "string option" "string option"
  | OpActualizarVehiculo nat "nat option" "string option" "string option" "string option" "string option"
  | OpEliminarVehiculo nat
  | OpCrearZona "string option" "string option"
  | OpActualizarZona nat "string option" "string option"
  | OpEliminarZona nat
  | OpCrearTipoPago "string option"
  | OpActualizarTipoPago nat "string option"
  | OpEliminarTipoPago nat
  | OpCrearReserva "nat option" "nat option" "timestamp option" "timestamp option"
  | OpActualizarReserva nat "timestamp option" "timestamp option" "estado_reserva option"
  | OpCancelarReserva nat
  | OpFinalizarReserva nat
  | OpCrearMulta "nat option" "string option" "cents option"
  | OpActualizarMulta nat "string option" "cents option"
  | OpEliminarMulta nat
  | OpCrearTurno "string option" "string option" "string option"
  | OpActualizarTurno nat "string option" "string option" "string option"
  | OpEliminarTurno nat
  | OpCrearEmpleado "nat option" "nat option" "string option" "string option" "string option"
  | OpActualizarEmpleado nat "nat option" "string option" "string option" "string option"
  | OpCambiarEstado nat "bool option"
  | OpEliminarEmpleado nat
  | OpCrearRol "string option" "string option"
  | OpActualizarRol nat "string option" "string option"
  | OpEliminarRol nat
  | OpRegistrarAcceso "nat option" "string option"
  | OpLimpiarHistorial "int option"
  | OpRegistrar "string option" "string option" "string option" "nat option" string
  | OpLogin "string option" "string option" bool
  | OpLogout sesion
  | OpReloj nat

text \<open>The store after a handler: its commit, or the old store after a rollback.\<close>

definition commit :: "('a, db) handler_result \<Rightarrow> db \<Rightarrow> db" where
  "commit r s = (case r of Inl _ \<Rightarrow> s | Inr (_, s') \<Rightarrow> s')"

lemma commit_simps [simp]: "commit (Inl e) s = s" "commit (Inr (a, s')) s = s'"
  by (simp_all add: commit_def)

lemma commit_induct: "P s \<Longrightarrow> (\<And>r s'. h = Inr (r, s') \<Longrightarrow> P s') \<Longrightarrow> P (commit h s)"
  by (cases h) auto

primrec step :: "op \<Rightarrow> db \<Rightarrow> db" where
  "step (OpEntrada u v e ta) s = commit (registrarEntrada u v e ta s) s"
| "step (OpSalida k) s = commit (registrarSalida k s) s"
| "step (OpPago k tp m) s = commit (registrarPago k tp m s) s"
| "step (OpCrearEspacio z c d) s = commit (crearEspacio z c d s) s"
| "step (OpActualizarEspacio k z c d) s = commit (actualizarEspacio k z c d s) s"
| "step (OpCambiarDisponibilidad k d) s = commit (cambiarDisponibilidad k d s) s"
| "step (OpEliminarEspacio k) s = commit (eliminarEspacio k s) s"
| "step (OpCrearTarifa d p) s = commit (crearTarifa d p s) s"
| "step (OpActualizarTarifa k d p) s = commit (actualizarTarifa k d p s) s"
| "step (OpEliminarTarifa k) s = commit (eliminarTarifa k s) s"
| "step (OpCrearCliente n t c i) s = commit (crearCliente n t c i s) s"
| "step (OpActualizarCliente k n t c i) s = commit (actualizarCliente k n t c i s) s"
| "step (OpEliminarCliente k) s = commit (eliminarCliente k s) s"
| "step (OpCrearVehiculo c p ma mo co) s = commit (crearVehiculo c p ma mo co s) s"
| "step (OpActualizarVehiculo k c p ma mo co) s = commit (actualizarVehiculo k c p ma mo co s) s"
| "step (OpEliminarVehiculo k) s = commit (eliminarVehiculo k s) s"
| "step (OpCrearZona n d) s = commit (crearZona n d s) s"
| "step (OpActualizarZona k n d) s = commit (actualizarZona k n d s) s"
| "step (OpEliminarZona k) s = commit (eliminarZona k s) s"
| "step (OpCrearTipoPago n) s = commit (crearTipoPago n s) s"
| "step (OpActualizarTipoPago k n) s = commit (actualizarTipoPago k n s) s"
| "step (OpEliminarTipoPago k) s = commit (eliminarTipoPago k s) s"
| "step (OpCrearReserva c e fi ff) s = commit (crearReserva c e fi ff s) s"
| "step (OpActualizarReserva k fi ff e) s = commit (actualizarReserva k fi ff e s) s"
| "step (OpCancelarReserva k) s = commit (cancelarReserva k s) s"
| "step (OpFinalizarReserva k) s = commit (finalizarReserva k s) s"
| "step (OpCrearMulta t mo m) s = commit (crearMulta t mo m s) s"
| "step (OpActualizarMulta k mo m) s = commit (actualizarMulta k mo m s) s"
| "step (OpEliminarMulta k) s = commit (eliminarMulta k s) s"
| "step (OpCrearTurno d hi hf) s = commit (crearTurno d hi hf s) s"
| "step (OpActualizarTurno k d hi hf) s = commit (actualizarTurno k d hi hf s) s"
| "step (OpEliminarTurno k) s = commit (eliminarTurno k s) s"
| "step (OpCrearEmpleado u t te di dp) s = commit (crearEmpleado u t te di dp s) s"
| "step (OpActualizarEmpleado k t te di dp) s = commit (actualizarEmpleado k t te di dp s) s"
| "step (OpCambiarEstado k a) s = commit (cambiarEstado k a s) s"
| "step (OpEliminarEmpleado k) s = commit (eliminarEmpleado k s) s"
| "step (OpCrearRol n d) s = commit (crearRol n d s) s"
| "step (OpActualizarRol k n d) s = commit (actualizarRol k n d s) s"
| "step (OpEliminarRol k) s = commit (eliminarRol k s) s"
| "step (OpRegistrarAcceso u a) s = commit (registrarAcceso u a s) s"
| "step (OpLimpiarHistorial d) s = commit (limpiarHistorial d s) s"
| "step (OpRegistrar n c p r h) s = commit (registrar (\<lambda>_. h) n c p r s) s"
| "step (OpLogin c p ok) s = commit (login (\<lambda>_ _. ok) c p s) s"
| "step (OpLogout ses) s = commit (logout ses s) s"
| "step (OpReloj d) s = s\<lparr>now := now s + int d\<rparr>"

fun run :: "db \<Rightarrow> op list \<Rightarrow> db" where
  "run s [] = s"
| "run s (o1 # os) = run (step o1 s) os"

text \<open>
  The states reachable from an empty store by operations that satisfy \<open>P\<close>: with
  \<open>P = (\<lambda>_. True)\<close> every request the API accepts.
\<close>

inductive reach :: "(op \<Rightarrow> bool) \<Rightarrow> db \<Rightarrow> bool" for P where
  init: "reach P (db0 t)"
| step: "reach P s \<Longrightarrow> P o1 \<Longrightarrow> reach P (step o1 s)"

abbreviation reachable :: "db \<Rightarrow> bool" where
  "reachable \<equiv> reach (\<lambda>_. True)"

lemma reach_run: "reach P s \<Longrightarrow> list_all P os \<Longrightarrow> reach P (run s os)"
  by (induction os arbitrary: s) (auto intro: reach.step)

lemma reachable_run: "reachable (run (db0 t) os)"
  by (rule reach_run) (auto intro: reach.init simp: list_all_iff)

text \<open>
  The manual overrides of a space's flag: the two updates, which write the flag of the
  body, and a creation that asks for an occupied space.
\<close>

fun manual :: "op \<Rightarrow> bool" where
  "manual (OpActualizarEspacio _ _ _ _) = True"
| "manual (OpCambiarDisponibilidad _ _) = True"
| "manual (OpCrearEspacio _ _ d) = (d = Some False)"
| "manual _ = False"

section \<open>Footprints: which tables an operation writes\<close>

lemma step_now: "now (step o1 s) = (case o1 of OpReloj d \<Rightarrow> now s + int d | _ \<Rightarrow> now s)"
  by (cases o1) (auto simp: commit_def handler_defs Let_def split: sum.splits prod.splits if_splits option.splits list.splits)

lemma step_tickets:
  "(\<And>u v e ta. o1 \<noteq> OpEntrada u v e ta) \<Longrightarrow> (\<And>k. o1 \<noteq> OpSalida k) \<Longrightarrow> tickets (step o1 s) = tickets s"
  by (cases o1) (auto simp: commit_def handler_defs Let_def split: sum.splits prod.splits if_splits option.splits list.splits)

lemma step_pagos: "(\<And>k tp m. o1 \<noteq> OpPago k tp m) \<Longrightarrow> pagos (step o1 s) = pagos s"
  by (cases o1) (auto simp: commit_def handler_defs Let_def split: sum.splits prod.splits if_splits option.splits list.splits)

end
