(* ===== verification/Invariants.thy ===== *)
theory Invariants
  imports Operations
begin

text \<open>
  Invariants of the store that every request preserves, proved one operation at a time
  and lifted to every reachable store by rule induction on \<open>reach\<close>: the tables stay
  well formed, a vehicle has at most one active ticket, a ticket's times follow its
  state and the clock, and a payment is recorded only for a closed ticket and at most
  once per ticket.
\<close>

lemma step_db_wf: "db_wf s \<Longrightarrow> db_wf (step o1 s)"
  by (cases o1) (auto simp: commit_def handler_defs Let_def db_wf_def split: sum.splits prod.splits if_splits option.splits list.splits)

definition una_activa_por_vehiculo :: "db \<Rightarrow> bool" where
  "una_activa_por_vehiculo s \<longleftrightarrow>
     (\<forall>(k1, t1) \<in> set (rows (tickets s)). \<forall>(k2, t2) \<in> set (rows (tickets s)).
        t_estado t1 = ACTIVO \<and> activo_de (t_vehiculo_id t1) t2 \<longrightarrow> k1 = k2)"

definition tiempos_ok :: "db \<Rightarrow> bool" where
  "tiempos_ok s \<longleftrightarrow>
     (\<forall>(k, t) \<in> set (rows (tickets s)). t_hora_entrada t \<le> now s \<and>
        (case t_hora_salida t of None \<Rightarrow> t_estado t = ACTIVO
         | Some x \<Rightarrow> t_estado t = CERRADO \<and> t_hora_entrada t \<le> x \<and> x \<le> now s))"

lemma tbl_wf_fresh: "tbl_wf t \<Longrightarrow> (next_id t, v) \<notin> set (rows t)"
  by (auto dest: tbl_wf_key_bound)

lemma entrada_una_activa:
  assumes "registrarEntrada u vo eo tao s = Inr (k, s')" "tbl_wf (tickets s)" "una_activa_por_vehiculo s"
  shows "una_activa_por_vehiculo s'"
proof -
  from assms(1) obtain v e ta where
    nex: "\<not> tbl_exists (activo_de v) (tickets s)" and
    s': "tickets s' = snd (tbl_insert (ticket_nuevo v e u ta (now s)) (tickets s))"
    by (auto simp: registrarEntrada_Inr)
  let ?n = "next_id (tickets s)" and ?new = "ticket_nuevo v e u ta (now s)"
  have rows': "set (rows (tickets s')) = insert (?n, ?new) (set (rows (tickets s)))"
    by (simp add: s')
  have old: "\<not> activo_de v t" if "(k', t) \<in> set (rows (tickets s))" for k' t
    using nex that by (auto simp: tbl_exists_iff)
  have fresh: "(?n, t) \<notin> set (rows (tickets s))" for t
    using tbl_wf_fresh [OF assms(2)] .
  have new: "t_vehiculo_id ?new = v" "t_estado ?new = ACTIVO"
    by (simp_all add: ticket_nuevo_def)
  show ?thesis
    using assms(3) old new unfolding una_activa_por_vehiculo_def rows'
    by (auto simp: activo_de_def)
qed

lemma activo_tras_cerrar:
  assumes "(k', t) \<in> set (rows (tbl_modify k (cerrar n) T))" "t_estado t = ACTIVO"
  shows "(k', t) \<in> set (rows T) \<and> k' \<noteq> k"
proof -
  from assms(1) obtain v where v: "(k', v) \<in> set (rows T)" "t = (if k' = k then cerrar n v else v)"
    by (auto simp: set_rows_modify)
  with assms(2) show ?thesis
    by (cases "k' = k") (auto simp: cerrar_def)
qed

lemma salida_una_activa:
  assumes "registrarSalida k s = Inr (r, s')" "una_activa_por_vehiculo s"
  shows "una_activa_por_vehiculo s'"
proof -
  from assms(1) have s': "tickets s' = tbl_modify k (cerrar (now s)) (tickets s)"
    by (auto simp: registrarSalida_Inr)
  have "k1 = k2"
    if "(k1, t1) \<in> set (rows (tickets s'))" "(k2, t2) \<in> set (rows (tickets s'))"
       "t_estado t1 = ACTIVO" "activo_de (t_vehiculo_id t1) t2" for k1 t1 k2 t2
  proof -
    have "t_estado t2 = ACTIVO" using that(4) by (simp add: activo_de_def)
    with that(2) have "(k2, t2) \<in> set (rows (tickets s))"
      unfolding s' using activo_tras_cerrar by blast
    moreover from that(1,3) have "(k1, t1) \<in> set (rows (tickets s))"
      unfolding s' using activo_tras_cerrar by blast
    ultimately show ?thesis
      using assms(2) that(3,4) unfolding una_activa_por_vehiculo_def by blast
  qed
  then show ?thesis
    unfolding una_activa_por_vehiculo_def by blast
qed


lemma una_activa_cong: "tickets s' = tickets s \<Longrightarrow> una_activa_por_vehiculo s' = una_activa_por_vehiculo s"
  by (simp add: una_activa_por_vehiculo_def)

text \<open>The operations that write the tickets table, and the others.\<close>

lemma op_tickets_cases:
  obtains (Entrada) u v e ta where "x = OpEntrada u v e ta"
  | (Salida) k where "x = OpSalida k"
  | (Otra) "tickets (step x s) = tickets s"
  using step_tickets by (cases x) blast+

lemma step_una_activa:
  assumes "db_wf s" "una_activa_por_vehiculo s"
  shows "una_activa_por_vehiculo (step o1 s)"
proof (cases rule: op_tickets_cases [where x = o1 and s = s])
  case (Entrada u v e ta)
  have "una_activa_por_vehiculo (commit (registrarEntrada u v e ta s) s)"
  proof (rule commit_induct [where P = una_activa_por_vehiculo])
    fix r s' assume "registrarEntrada u v e ta s = Inr (r, s')"
    from entrada_una_activa [OF this] assms show "una_activa_por_vehiculo s'"
      by (simp add: db_wf_def)
  qed (rule assms(2))
  with Entrada show ?thesis by simp
next
  case (Salida k)
  have "una_activa_por_vehiculo (commit (registrarSalida k s) s)"
  proof (rule commit_induct [where P = una_activa_por_vehiculo])
    fix r s' assume "registrarSalida k s = Inr (r, s')"
    from salida_una_activa [OF this assms(2)] show "una_activa_por_vehiculo s'" .
  qed (rule assms(2))
  with Salida show ?thesis by simp
next
  case Otra
  from una_activa_cong [OF this] assms(2) show ?thesis by simp
qed

lemma tiempos_cong:
  assumes "tickets s' = tickets s" "now s' = now s"
  shows "tiempos_ok s' = tiempos_ok s"
  unfolding tiempos_ok_def assms ..

lemma entrada_tiempos:
  assumes "registrarEntrada u vo eo tao s = Inr (k, s')" "tiempos_ok s"
  shows "tiempos_ok s'"
proof -
  from assms(1) obtain v e ta where
    s': "tickets s' = snd (tbl_insert (ticket_nuevo v e u ta (now s)) (tickets s))" "now s' = now s"
    by (auto simp: registrarEntrada_Inr)
  show ?thesis
    using assms(2) unfolding tiempos_ok_def s' by (simp add: ticket_nuevo_def)
qed

lemma salida_tiempos:
  assumes "registrarSalida k s = Inr (r, s')" "tiempos_ok s"
  shows "tiempos_ok s'"
proof -
  from assms(1) have s': "tickets s' = tbl_modify k (cerrar (now s)) (tickets s)" "now s' = now s"
    by (auto simp: registrarSalida_Inr)
  have "t_hora_entrada t \<le> now s \<and>
        (case t_hora_salida t of None \<Rightarrow> t_estado t = ACTIVO
         | Some x \<Rightarrow> t_estado t = CERRADO \<and> t_hora_entrada t \<le> x \<and> x \<le> now s)"
    if "(k', t) \<in> set (rows (tickets s'))" for k' t
  proof -
    from that obtain v where v: "(k', v) \<in> set (rows (tickets s))"
        "t = (if k' = k then cerrar (now s) v else v)"
      by (auto simp: s' set_rows_modify)
    with assms(2) show ?thesis
      unfolding tiempos_ok_def by (cases "k' = k") (auto simp: cerrar_def)
  qed
  then show ?thesis
    unfolding tiempos_ok_def s' by blast
qed

lemma reloj_tiempos: "tiempos_ok s \<Longrightarrow> tiempos_ok (s\<lparr>now := now s + int d\<rparr>)"
  unfolding tiempos_ok_def by (fastforce split: option.splits)


lemma op_cases:
  obtains (Entrada) u v e ta where "x = OpEntrada u v e ta"
  | (Salida) k where "x = OpSalida k"
  | (Pago) k tp m where "x = OpPago k tp m"
  | (Reloj) d where "x = OpReloj d"
  | (Otra) "tickets (step x s) = tickets s" "pagos (step x s) = pagos s" "now (step x s) = now s"
proof -
  have "(\<exists>u v e ta. x = OpEntrada u v e ta) \<or> (\<exists>k. x = OpSalida k) \<or> (\<exists>k tp m. x = OpPago k tp m) \<or>
        (\<exists>d. x = OpReloj d) \<or>
        (tickets (step x s) = tickets s \<and> pagos (step x s) = pagos s \<and> now (step x s) = now s)"
    by (cases x) (simp_all add: step_tickets step_pagos step_now del: step.simps)
  then show thesis using that by blast
qed

lemma step_tiempos:
  assumes "tiempos_ok s"
  shows "tiempos_ok (step o1 s)"
proof (cases rule: op_cases [where x = o1 and s = s])
  case (Entrada u v e ta)
  have "tiempos_ok (commit (registrarEntrada u v e ta s) s)"
    by (rule commit_induct [where P = tiempos_ok]) (use assms entrada_tiempos in blast)+
  with Entrada show ?thesis by simp
next
  case (Salida k)
  have "tiempos_ok (commit (registrarSalida k s) s)"
    by (rule commit_induct [where P = tiempos_ok]) (use assms salida_tiempos in blast)+
  with Salida show ?thesis by simp
next
  case (Pago k tp m)
  have "tiempos_ok (commit (registrarPago k tp m s) s)"
  proof (rule commit_induct [where P = tiempos_ok])
    fix r s' assume "registrarPago k tp m s = Inr (r, s')"
    then have "tickets s' = tickets s" "now s' = now s"
      by (auto simp: registrarPago_Inr)
    from tiempos_cong [OF this] assms show "tiempos_ok s'" by simp
  qed (rule assms)
  with Pago show ?thesis by simp
next
  case (Reloj d)
  with reloj_tiempos [OF assms] show ?thesis by simp
next
  case Otra
  from tiempos_cong [OF Otra(1,3)] assms show ?thesis by simp
qed


definition ticket_cerrado :: "db \<Rightarrow> nat \<Rightarrow> bool" where
  "ticket_cerrado s k \<longleftrightarrow> (case tbl_get (tickets s) k of None \<Rightarrow> False | Some t \<Rightarrow> t_estado t = CERRADO)"

definition pagos_ok :: "db \<Rightarrow> bool" where
  "pagos_ok s \<longleftrightarrow>
     (\<forall>(_, p) \<in> set (rows (pagos s)). ticket_cerrado s (p_ticket_id p)) \<and>
     distinct (map (\<lambda>(_, p). p_ticket_id p) (rows (pagos s)))"

lemma pagos_ok_cong:
  assumes "tickets s' = tickets s" "pagos s' = pagos s"
  shows "pagos_ok s' = pagos_ok s"
  unfolding pagos_ok_def ticket_cerrado_def assms ..

lemma pago_pagos_ok:
  assumes "registrarPago ko tpo mo s = Inr (r, s')" "pagos_ok s"
  shows "pagos_ok s'"
proof -
  from assms(1) obtain k tp m t where
    t: "tbl_get (tickets s) k = Some t" "t_estado t = CERRADO" and
    nex: "\<not> tbl_exists (pago_de k) (pagos s)" and
    s': "tickets s' = tickets s"
        "pagos s' = snd (tbl_insert \<lparr>p_ticket_id = k, p_tipo_pago_id = tp, p_monto = m,
                                    p_fecha_pago = now s\<rparr> (pagos s))"
    by (auto simp: registrarPago_Inr)
  have "k \<notin> set (map (\<lambda>(_, p). p_ticket_id p) (rows (pagos s)))"
    using nex by (auto simp: tbl_exists_iff pago_de_def)
  moreover have "ticket_cerrado s k"
    using t by (simp add: ticket_cerrado_def)
  ultimately show ?thesis
    using assms(2) unfolding pagos_ok_def ticket_cerrado_def s' by auto
qed

lemma entrada_ticket_cerrado:
  assumes "registrarEntrada u vo eo tao s = Inr (r, s')" "tbl_wf (tickets s)" "ticket_cerrado s k"
  shows "ticket_cerrado s' k"
proof -
  from assms(1) obtain v e ta where
    s': "tickets s' = snd (tbl_insert (ticket_nuevo v e u ta (now s)) (tickets s))"
    by (auto simp: registrarEntrada_Inr)
  from assms(3) have "k \<noteq> next_id (tickets s)"
    using tbl_get_next_id [OF assms(2)] by (auto simp: ticket_cerrado_def)
  with assms(2,3) show ?thesis
    by (simp add: ticket_cerrado_def s')
qed

lemma salida_ticket_cerrado:
  assumes "registrarSalida k' s = Inr (r, s')" "ticket_cerrado s k"
  shows "ticket_cerrado s' k"
proof -
  from assms(1) have s': "tickets s' = tbl_modify k' (cerrar (now s)) (tickets s)"
    by (auto simp: registrarSalida_Inr)
  from assms(2) show ?thesis
    by (auto simp: ticket_cerrado_def s' cerrar_def split: option.splits)
qed

lemma entrada_pagos_ok:
  assumes "registrarEntrada u vo eo tao s = Inr (r, s')" "tbl_wf (tickets s)" "pagos_ok s"
  shows "pagos_ok s'"
proof -
  from assms(1) have "pagos s' = pagos s"
    by (auto simp: registrarEntrada_Inr)
  with assms entrada_ticket_cerrado [OF assms(1,2)] show ?thesis
    unfolding pagos_ok_def by fastforce
qed

lemma salida_pagos_ok:
  assumes "registrarSalida k s = Inr (r, s')" "pagos_ok s"
  shows "pagos_ok s'"
proof -
  from assms(1) have "pagos s' = pagos s"
    by (auto simp: registrarSalida_Inr)
  with assms salida_ticket_cerrado [OF assms(1)] show ?thesis
    unfolding pagos_ok_def by fastforce
qed


lemma step_pagos_ok:
  assumes "db_wf s" "pagos_ok s"
  shows "pagos_ok (step o1 s)"
proof (cases rule: op_cases [where x = o1 and s = s])
  case (Entrada u v e ta)
  have "pagos_ok (commit (registrarEntrada u v e ta s) s)"
  proof (rule commit_induct [where P = pagos_ok])
    fix r s' assume "registrarEntrada u v e ta s = Inr (r, s')"
    from entrada_pagos_ok [OF this] assms show "pagos_ok s'" by (simp add: db_wf_def)
  qed (rule assms(2))
  with Entrada show ?thesis by simp
next
  case (Salida k)
  have "pagos_ok (commit (registrarSalida k s) s)"
    by (rule commit_induct [where P = pagos_ok]) (use assms salida_pagos_ok in blast)+
  with Salida show ?thesis by simp
next
  case (Pago k tp m)
  have "pagos_ok (commit (registrarPago k tp m s) s)"
    by (rule commit_induct [where P = pagos_ok]) (use assms pago_pagos_ok in blast)+
  with Pago show ?thesis by simp
next
  case (Reloj d)
  with assms(2) show ?thesis by (simp add: pagos_ok_def ticket_cerrado_def)
next
  case Otra
  from pagos_ok_cong [OF Otra(1,2)] assms(2) show ?thesis by simp
qed

definition inv_sistema :: "db \<Rightarrow> bool" where
  "inv_sistema s \<longleftrightarrow> db_wf s \<and> una_activa_por_vehiculo s \<and> tiempos_ok s \<and> pagos_ok s"

lemma rows_db0 [simp]: "rows (tickets (db0 t)) = []" "rows (pagos (db0 t)) = []" "rows (espacios (db0 t)) = []"
  by (simp_all add: db0_def tbl_empty_def)

lemma inv_sistema_db0: "inv_sistema (db0 t)"
  by (simp add: inv_sistema_def una_activa_por_vehiculo_def tiempos_ok_def pagos_ok_def)

lemma step_inv_sistema: "inv_sistema s \<Longrightarrow> inv_sistema (step o1 s)"
  unfolding inv_sistema_def
  using step_db_wf step_una_activa step_tiempos step_pagos_ok by blast

lemma reach_inv_sistema: "reach P s \<Longrightarrow> inv_sistema s"
proof (induction rule: reach.induct)
  case (init t)
  show ?case by (rule inv_sistema_db0)
next
  case (step s o1)
  from step.IH show ?case by (rule step_inv_sistema)
qed

section \<open>The life of a ticket\<close>

text \<open>
  A step changes a ticket in one way only: the exit of an ACTIVO ticket closes it at the
  current time. A ticket that appears in a step is ACTIVO, open, and entered now.
\<close>

lemma step_ticket_existente:
  assumes "db_wf s" "tbl_get (tickets s) k = Some t"
  shows "tbl_get (tickets (step o1 s)) k = Some t \<or>
         (t_estado t = ACTIVO \<and> tbl_get (tickets (step o1 s)) k = Some (cerrar (now s) t))"
    (is "?P (step o1 s)")
proof (cases rule: op_tickets_cases [where x = o1 and s = s])
  case (Entrada u v e ta)
  from assms have k: "k \<noteq> next_id (tickets s)"
    by (auto simp: db_wf_def)
  have "?P (commit (registrarEntrada u v e ta s) s)"
  proof (rule commit_induct [where P = ?P])
    fix r s' assume "registrarEntrada u v e ta s = Inr (r, s')"
    with assms k show "?P s'" by (auto simp: registrarEntrada_Inr db_wf_def)
  qed (simp add: assms(2))
  with Entrada show ?thesis by simp
next
  case (Salida k')
  have "?P (commit (registrarSalida k' s) s)"
  proof (rule commit_induct [where P = ?P])
    fix r s' assume "registrarSalida k' s = Inr (r, s')"
    with assms show "?P s'" by (cases "k = k'") (auto simp: registrarSalida_Inr)
  qed (simp add: assms(2))
  with Salida show ?thesis by simp
next
  case Otra
  with assms(2) show ?thesis by simp
qed

lemma step_ticket_nuevo:
  assumes "db_wf s" "tbl_get (tickets s) k = None" "tbl_get (tickets (step o1 s)) k = Some t"
  shows "t_estado t = ACTIVO \<and> t_hora_salida t = None \<and> t_hora_entrada t = now s"
proof -
  let ?P = "\<lambda>s'. \<forall>t. tbl_get (tickets s') k = Some t \<longrightarrow>
              t_estado t = ACTIVO \<and> t_hora_salida t = None \<and> t_hora_entrada t = now s"
  have "?P (step o1 s)"
  proof (cases rule: op_tickets_cases [where x = o1 and s = s])
    case (Entrada u v e ta)
    have "?P (commit (registrarEntrada u v e ta s) s)"
    proof (rule commit_induct [where P = ?P])
      fix r s' assume "registrarEntrada u v e ta s = Inr (r, s')"
      with assms(1,2) show "?P s'" by (auto simp: registrarEntrada_Inr db_wf_def ticket_nuevo_def split: if_split_asm)
    qed (simp add: assms(2))
    with Entrada show ?thesis by simp
  next
    case (Salida k')
    have "?P (commit (registrarSalida k' s) s)"
    proof (rule commit_induct [where P = ?P])
      fix r s' assume "registrarSalida k' s = Inr (r, s')"
      with assms(2) show "?P s'" by (auto simp: registrarSalida_Inr split: if_split_asm)
    qed (simp add: assms(2))
    with Salida show ?thesis by simp
  next
    case Otra
    with assms(2) show ?thesis by simp
  qed
  with assms(3) show ?thesis by blast
qed

end
