(* ===== verification/Ocupacion.thy ===== *)
theory Ocupacion
  imports Invariants
begin

text \<open>
  The occupancy of the spaces. The ticket handlers keep the \<open>disponible\<close> flag of a space
  in step with its tickets: an entry sets it to false and the exit of the ticket sets it
  back to true, in the same transaction. The flag is also written by the handlers of
  \<open>espacios.controller.js\<close>, which never look at the tickets. Without those manual
  overrides (\<open>manual\<close> of the operations theory), every reachable store satisfies
  \<open>ocupacion_ok\<close>: the space of an active ticket exists and is marked occupied, a space
  marked occupied has an active ticket, and no two active tickets share a space.
\<close>

definition ocupado_por :: "db \<Rightarrow> nat \<Rightarrow> bool" where
  "ocupado_por s e \<longleftrightarrow> (\<exists>(k, t) \<in> set (rows (tickets s)). t_estado t = ACTIVO \<and> t_espacio_id t = e)"

definition activos_ocupan :: "db \<Rightarrow> bool" where
  "activos_ocupan s \<longleftrightarrow>
     (\<forall>(k, t) \<in> set (rows (tickets s)). t_estado t = ACTIVO \<longrightarrow>
        (\<exists>r. tbl_get (espacios s) (t_espacio_id t) = Some r \<and> \<not> disponible r))"

definition ocupados_con_activo :: "db \<Rightarrow> bool" where
  "ocupados_con_activo s \<longleftrightarrow> (\<forall>(e, r) \<in> set (rows (espacios s)). \<not> disponible r \<longrightarrow> ocupado_por s e)"

definition un_activo_por_espacio :: "db \<Rightarrow> bool" where
  "un_activo_por_espacio s \<longleftrightarrow>
     (\<forall>(k1, t1) \<in> set (rows (tickets s)). \<forall>(k2, t2) \<in> set (rows (tickets s)).
        t_estado t1 = ACTIVO \<and> t_estado t2 = ACTIVO \<and> t_espacio_id t1 = t_espacio_id t2 \<longrightarrow> k1 = k2)"

definition ocupacion_ok :: "db \<Rightarrow> bool" where
  "ocupacion_ok s \<longleftrightarrow> activos_ocupan s \<and> ocupados_con_activo s \<and> un_activo_por_espacio s"

lemmas ocupacion_defs = ocupacion_ok_def activos_ocupan_def ocupados_con_activo_def un_activo_por_espacio_def

section \<open>Which operations write the spaces\<close>

lemma step_espacios:
  "(\<And>u v e ta. o1 \<noteq> OpEntrada u v e ta) \<Longrightarrow> (\<And>k. o1 \<noteq> OpSalida k) \<Longrightarrow>
   (\<And>z c d. o1 \<noteq> OpCrearEspacio z c d) \<Longrightarrow> (\<And>k z c d. o1 \<noteq> OpActualizarEspacio k z c d) \<Longrightarrow>
   (\<And>k d. o1 \<noteq> OpCambiarDisponibilidad k d) \<Longrightarrow> (\<And>k. o1 \<noteq> OpEliminarEspacio k) \<Longrightarrow>
   espacios (step o1 s) = espacios s"
  by (cases o1) (auto simp: commit_def handler_defs Let_def split: sum.splits prod.splits if_splits option.splits list.splits)

lemma op_espacios_cases:
  obtains (Entrada) u v e ta where "x = OpEntrada u v e ta"
  | (Salida) k where "x = OpSalida k"
  | (Crear) z c d where "x = OpCrearEspacio z c d"
  | (Actualizar) k z c d where "x = OpActualizarEspacio k z c d"
  | (Cambiar) k d where "x = OpCambiarDisponibilidad k d"
  | (Eliminar) k where "x = OpEliminarEspacio k"
  | (Otra) "tickets (step x s) = tickets s" "espacios (step x s) = espacios s"
proof -
  have "(\<exists>u v e ta. x = OpEntrada u v e ta) \<or> (\<exists>k. x = OpSalida k) \<or> (\<exists>z c d. x = OpCrearEspacio z c d) \<or>
        (\<exists>k z c d. x = OpActualizarEspacio k z c d) \<or> (\<exists>k d. x = OpCambiarDisponibilidad k d) \<or>
        (\<exists>k. x = OpEliminarEspacio k) \<or> (tickets (step x s) = tickets s \<and> espacios (step x s) = espacios s)"
    by (cases x) (simp_all add: step_tickets step_espacios del: step.simps)
  then show thesis using that by blast
qed

lemma ocupacion_cong:
  "tickets s' = tickets s \<Longrightarrow> espacios s' = espacios s \<Longrightarrow> ocupacion_ok s' = ocupacion_ok s"
  by (simp add: ocupacion_defs ocupado_por_def)


section \<open>Each writer keeps the occupancy\<close>

lemma ocupado_por_mono:
  "ocupado_por s e \<Longrightarrow> set (rows (tickets s)) \<subseteq> set (rows (tickets s')) \<Longrightarrow> ocupado_por s' e"
  unfolding ocupado_por_def by blast

lemma entrada_ocupacion:
  assumes "registrarEntrada u vo eo tao s = Inr (k, s')" "db_wf s" "ocupacion_ok s"
  shows "ocupacion_ok s'"
proof -
  from assms(1) obtain v e ta esp where
    esp: "tbl_get (espacios s) e = Some esp" "disponible esp" and
    s': "tickets s' = snd (tbl_insert (ticket_nuevo v e u ta (now s)) (tickets s))"
        "espacios s' = tbl_modify e (\<lambda>r. r\<lparr>e_disponible := Some False\<rparr>) (espacios s)"
    by (auto simp: registrarEntrada_Inr)
  let ?n = "next_id (tickets s)" and ?new = "ticket_nuevo v e u ta (now s)"
  have rows': "set (rows (tickets s')) = insert (?n, ?new) (set (rows (tickets s)))"
    by (simp add: s')
  have new: "t_espacio_id ?new = e" "t_estado ?new = ACTIVO"
    by (simp_all add: ticket_nuevo_def)
  have fresh: "(?n, t) \<notin> set (rows (tickets s))" for t
    using assms(2) by (simp add: db_wf_def tbl_wf_fresh)
  have libre: "\<not> ocupado_por s e"
  proof
    assume "ocupado_por s e"
    then obtain k' t where "(k', t) \<in> set (rows (tickets s))" "t_estado t = ACTIVO" "t_espacio_id t = e"
      unfolding ocupado_por_def by blast
    with assms(3) esp show False unfolding ocupacion_defs by fastforce
  qed
  have ne: "t_espacio_id t \<noteq> e" if "(k', t) \<in> set (rows (tickets s))" "t_estado t = ACTIVO" for k' t
    using libre that unfolding ocupado_por_def by blast
  have occ: "ocupado_por s' e"
    using new unfolding ocupado_por_def rows' by blast
  have mono: "ocupado_por s x \<Longrightarrow> ocupado_por s' x" for x
    by (rule ocupado_por_mono) (auto simp: rows')
  have "activos_ocupan s'"
    using assms(3) esp new unfolding ocupacion_defs rows' s'(2) by (auto simp: disponible_def)
  moreover have "ocupado_por s' x" if "(x, r') \<in> set (rows (espacios s'))" "\<not> disponible r'" for x r'
  proof -
    from that(1) obtain r where r: "(x, r) \<in> set (rows (espacios s))"
        "r' = (if x = e then r\<lparr>e_disponible := Some False\<rparr> else r)"
      by (auto simp: s'(2) set_rows_modify)
    show ?thesis
    proof (cases "x = e")
      case True
      with occ show ?thesis by simp
    next
      case False
      with r that(2) assms(3) have "ocupado_por s x" by (auto simp: ocupacion_defs)
      then show ?thesis by (rule mono)
    qed
  qed
  then have "ocupados_con_activo s'" unfolding ocupados_con_activo_def by blast
  moreover have "un_activo_por_espacio s'"
    using assms(3) new fresh ne unfolding ocupacion_defs rows' by fastforce
  ultimately show ?thesis by (simp add: ocupacion_ok_def)
qed


lemma fila_modify_otra: "(k', v) \<in> set (rows T) \<Longrightarrow> k' \<noteq> k \<Longrightarrow> (k', v) \<in> set (rows (tbl_modify k f T))"
  by (auto simp: set_rows_modify)

lemma salida_ocupacion:
  assumes "registrarSalida k s = Inr (r, s')" "db_wf s" "ocupacion_ok s"
  shows "ocupacion_ok s'"
proof -
  from assms(1) obtain t where t: "tbl_get (tickets s) k = Some t" "t_estado t = ACTIVO" and
    s': "tickets s' = tbl_modify k (cerrar (now s)) (tickets s)"
        "espacios s' = tbl_modify (t_espacio_id t) (\<lambda>r. r\<lparr>e_disponible := Some True\<rparr>) (espacios s)"
    by (auto simp: registrarSalida_Inr)
  let ?e = "t_espacio_id t"
  have kt: "(k, t) \<in> set (rows (tickets s))"
    using t(1) by (rule tbl_get_in_rows)
  have viejo: "(k', t') \<in> set (rows (tickets s)) \<and> k' \<noteq> k"
    if "(k', t') \<in> set (rows (tickets s'))" "t_estado t' = ACTIVO" for k' t'
    using that unfolding s'(1) by (rule activo_tras_cerrar)
  have otro: "t_espacio_id t' \<noteq> ?e"
    if "(k', t') \<in> set (rows (tickets s))" "t_estado t' = ACTIVO" "k' \<noteq> k" for k' t'
    using assms(3) kt t(2) that unfolding ocupacion_defs by fastforce
  have "activos_ocupan s'"
    unfolding activos_ocupan_def
  proof (clarify)
    fix k' t' assume a: "(k', t') \<in> set (rows (tickets s'))" "t_estado t' = ACTIVO"
    with viejo have o: "(k', t') \<in> set (rows (tickets s))" "k' \<noteq> k" by blast+
    with otro a(2) have "t_espacio_id t' \<noteq> ?e" by blast
    with o(1) a(2) assms(3) show "\<exists>r. tbl_get (espacios s') (t_espacio_id t') = Some r \<and> \<not> disponible r"
      unfolding ocupacion_defs s'(2) by auto
  qed
  moreover have "ocupado_por s' x" if "(x, r') \<in> set (rows (espacios s'))" "\<not> disponible r'" for x r'
  proof -
    from that(1) obtain r where r0: "(x, r) \<in> set (rows (espacios s))"
        "r' = (if x = ?e then r\<lparr>e_disponible := Some True\<rparr> else r)"
      by (auto simp: s'(2) set_rows_modify)
    with that(2) have r: "(x, r) \<in> set (rows (espacios s))" "\<not> disponible r" "x \<noteq> ?e"
      by (auto simp: disponible_def split: if_splits)
    with assms(3) obtain k' t' where o: "(k', t') \<in> set (rows (tickets s))" "t_estado t' = ACTIVO" "t_espacio_id t' = x"
      unfolding ocupacion_defs ocupado_por_def by blast
    have "k' \<noteq> k"
    proof
      assume "k' = k"
      with o(1) assms(2) t(1) have "t' = t" by (simp add: db_wf_def tbl_get_Some_iff [symmetric])
      with o(3) r(3) show False by simp
    qed
    with o(1) have "(k', t') \<in> set (rows (tickets s'))"
      unfolding s'(1) by (rule fila_modify_otra)
    with o(2,3) show ?thesis unfolding ocupado_por_def by blast
  qed
  then have "ocupados_con_activo s'" unfolding ocupados_con_activo_def by blast
  moreover have "un_activo_por_espacio s'"
    using assms(3) viejo unfolding ocupacion_defs by blast
  ultimately show ?thesis by (simp add: ocupacion_ok_def)
qed


lemma crear_ocupacion:
  assumes "crearEspacio z c d s = Inr (k, s')" "d \<noteq> Some False" "db_wf s" "ocupacion_ok s"
  shows "ocupacion_ok s'"
proof -
  let ?row = "\<lparr>e_zona_id = z, e_codigo = Some (upper (the c)),
               e_disponible = Some (case d of None \<Rightarrow> True | Some b \<Rightarrow> b)\<rparr>"
  from assms(1) have "s' = s\<lparr>espacios := snd (tbl_insert ?row (espacios s))\<rparr>"
    by (auto simp: crearEspacio_def split: if_splits prod.splits)
  then have s': "espacios s' = snd (tbl_insert ?row (espacios s))" "tickets s' = tickets s"
    by simp_all
  have row: "e_disponible ?row = Some (case d of None \<Rightarrow> True | Some b \<Rightarrow> b)"
    by simp
  from assms(2) row have libre: "disponible ?row"
    by (auto simp: disponible_def split: option.splits)
  from assms(3) have wf: "tbl_wf (espacios s)" by (simp add: db_wf_def)
  have ocup: "ocupado_por s' x = ocupado_por s x" for x
    by (simp add: ocupado_por_def s'(2))
  have viejo: "tbl_get (espacios s') x = Some r" if "tbl_get (espacios s) x = Some r" for x r
    using that wf unfolding s'(1) by (cases "x = next_id (espacios s)") simp_all
  have "activos_ocupan s'"
    using assms(4) viejo unfolding activos_ocupan_def ocupacion_ok_def s'(2) by blast
  moreover have "ocupados_con_activo s'"
    using assms(4) libre unfolding ocupados_con_activo_def ocupacion_ok_def s'(1) ocup by auto
  moreover have "un_activo_por_espacio s'"
    using assms(4) unfolding un_activo_por_espacio_def ocupacion_ok_def s'(2) by blast
  ultimately show ?thesis by (simp add: ocupacion_ok_def)
qed

lemma eliminar_ocupacion:
  assumes "eliminarEspacio k s = Inr (r, s')" "ocupacion_ok s"
  shows "ocupacion_ok s'"
proof -
  from assms(1) have nadie: "\<not> tbl_exists (\<lambda>t. t_espacio_id t = k) (tickets s)" and
    s': "s' = s\<lparr>espacios := tbl_delete k (espacios s)\<rparr>"
    by (auto simp: eliminarEspacio_Inr)
  from nadie have "t_espacio_id t \<noteq> k" if "(k', t) \<in> set (rows (tickets s))" for k' t
    using that by (auto simp: tbl_exists_iff)
  with assms(2) have "activos_ocupan s'"
    unfolding s' activos_ocupan_def ocupacion_ok_def by fastforce
  moreover from assms(2) have "ocupados_con_activo s'"
    unfolding s' ocupados_con_activo_def ocupacion_ok_def ocupado_por_def by auto
  moreover from assms(2) have "un_activo_por_espacio s'"
    unfolding s' un_activo_por_espacio_def ocupacion_ok_def by simp
  ultimately show ?thesis by (simp add: ocupacion_ok_def)
qed

section \<open>The invariant of every store reached without manual overrides\<close>

lemma step_ocupacion:
  assumes "db_wf s" "ocupacion_ok s" "\<not> manual o1"
  shows "ocupacion_ok (step o1 s)"
proof (cases rule: op_espacios_cases [where x = o1 and s = s])
  case (Entrada u v e ta)
  have "ocupacion_ok (commit (registrarEntrada u v e ta s) s)"
    by (rule commit_induct [where P = ocupacion_ok]) (use assms entrada_ocupacion in blast)+
  with Entrada show ?thesis by simp
next
  case (Salida k)
  have "ocupacion_ok (commit (registrarSalida k s) s)"
    by (rule commit_induct [where P = ocupacion_ok]) (use assms salida_ocupacion in blast)+
  with Salida show ?thesis by simp
next
  case (Crear z c d)
  with assms(3) have "d \<noteq> Some False" by simp
  then have "ocupacion_ok (commit (crearEspacio z c d s) s)"
    by (intro commit_induct [where P = ocupacion_ok]) (use assms crear_ocupacion in blast)+
  with Crear show ?thesis by simp
next
  case (Eliminar k)
  have "ocupacion_ok (commit (eliminarEspacio k s) s)"
    by (rule commit_induct [where P = ocupacion_ok]) (use assms eliminar_ocupacion in blast)+
  with Eliminar show ?thesis by simp
next
  case Otra
  from ocupacion_cong [OF Otra] assms(2) show ?thesis by simp
next
  case (Actualizar k z c d)
  with assms(3) have False by simp
  then show ?thesis ..
next
  case (Cambiar k d)
  with assms(3) have False by simp
  then show ?thesis ..
qed

lemma reach_ocupacion:
  assumes "reach (\<lambda>o1. \<not> manual o1) s"
  shows "ocupacion_ok s"
  using assms
proof (induction rule: reach.induct)
  case (init t)
  show ?case by (simp add: ocupacion_defs)
next
  case (step s o1)
  from reach_inv_sistema [OF step.hyps(1)] have "db_wf s" by (simp add: inv_sistema_def)
  from step_ocupacion [OF this step.IH] step.hyps(2) show ?case by simp
qed

end
