(* ===== verification/Agenda.thy ===== *)
theory Agenda
  imports Invariants
begin

text \<open>
  The reservations over the state machine: which operations write the reservations
  table, that a reservation which is no longer ACTIVA never changes again, that the dates
  stored with a reservation are always a valid period (or \<open>NULL\<close>), and therefore that in
  every reachable store the conflict query of \<open>crearReserva\<close> is the overlap of periods.
\<close>

section \<open>The writers of the reservations\<close>

lemma step_reservas:
  "(\<And>c e fi ff. o1 \<noteq> OpCrearReserva c e fi ff) \<Longrightarrow> (\<And>k fi ff e. o1 \<noteq> OpActualizarReserva k fi ff e) \<Longrightarrow>
   (\<And>k. o1 \<noteq> OpCancelarReserva k) \<Longrightarrow> (\<And>k. o1 \<noteq> OpFinalizarReserva k) \<Longrightarrow>
   reservas (step o1 s) = reservas s"
  by (cases o1) (auto simp: commit_def handler_defs Let_def split: sum.splits prod.splits if_splits option.splits list.splits)

lemma op_reservas_cases:
  obtains (Crear) c e fi ff where "x = OpCrearReserva c e fi ff"
  | (Actualizar) k fi ff e where "x = OpActualizarReserva k fi ff e"
  | (Cancelar) k where "x = OpCancelarReserva k"
  | (Finalizar) k where "x = OpFinalizarReserva k"
  | (Otra) "reservas (step x s) = reservas s"
  using step_reservas by (cases x) blast+

lemma step_reserva_cerrada:
  assumes "db_wf s" "tbl_get (reservas s) k = Some r" "re_estado r \<noteq> Some ACTIVA"
  shows "tbl_get (reservas (step o1 s)) k = Some r"
proof (cases rule: op_reservas_cases [where x = o1 and s = s])
  case (Crear c e fi ff)
  from assms(1,2) have "k \<noteq> next_id (reservas s)" by (auto simp: db_wf_def)
  with assms(1,2) Crear show ?thesis
    by (auto simp: commit_def crearReserva_Inr db_wf_def split: sum.splits)
next
  case (Actualizar k' fi ff e)
  with assms(2,3) show ?thesis
    by (cases "k' = k") (auto simp: commit_def actualizarReserva_Inr split: sum.splits)
next
  case (Cancelar k')
  with assms(2,3) show ?thesis
    by (cases "k' = k") (auto simp: commit_def cancelarReserva_Inr split: sum.splits)
next
  case (Finalizar k')
  with assms(2,3) show ?thesis
    by (cases "k' = k") (auto simp: commit_def finalizarReserva_Inr split: sum.splits)
next
  case Otra
  with assms(2) show ?thesis by simp
qed

section \<open>Stored periods are valid\<close>

lemma fechas_validas_commit:
  assumes "\<forall>(_, r) \<in> set (rows (reservas s)). fechas_validas r"
    and "\<And>x s'. h = Inr (x, s') \<Longrightarrow>
           \<exists>k f. reservas s' = tbl_modify k f (reservas s) \<and> (\<forall>r. fechas_validas r \<longrightarrow> fechas_validas (f r))"
  shows "\<forall>(_, r) \<in> set (rows (reservas (commit h s))). fechas_validas r"
proof (rule commit_induct)
  fix x s' assume "h = Inr (x, s')"
  with assms(2) obtain k f where s': "reservas s' = tbl_modify k f (reservas s)"
    and f: "\<forall>r. fechas_validas r \<longrightarrow> fechas_validas (f r)" by blast
  show "\<forall>(_, r) \<in> set (rows (reservas s')). fechas_validas r"
  proof (clarify)
    fix a v assume "(a, v) \<in> set (rows (reservas s'))"
    then obtain w where w: "(a, w) \<in> set (rows (reservas s))" "v = (if a = k then f w else w)"
      by (auto simp: s' set_rows_modify)
    from assms(1) w(1) have "fechas_validas w" by blast
    with f w(2) show "fechas_validas v" by simp
  qed
qed (rule assms(1))

lemma fechas_validas_estado [simp]: "fechas_validas (r\<lparr>re_estado := e\<rparr>) = fechas_validas r"
  by (simp add: fechas_validas_def periodo_def)

lemma step_fechas_validas:
  assumes "\<forall>(_, r) \<in> set (rows (reservas s)). fechas_validas r"
  shows "\<forall>(_, r) \<in> set (rows (reservas (step o1 s))). fechas_validas r"
proof (cases rule: op_reservas_cases [where x = o1 and s = s])
  case (Crear c e fi ff)
  have "\<forall>(_, r) \<in> set (rows (reservas (commit (crearReserva c e fi ff s) s))). fechas_validas r"
  proof (rule commit_induct)
    fix x s' assume "crearReserva c e fi ff s = Inr (x, s')"
    with assms show "\<forall>(_, r) \<in> set (rows (reservas s')). fechas_validas r"
      by (auto simp: crearReserva_Inr fechas_validas_def)
  qed (rule assms)
  with Crear show ?thesis by simp
next
  case (Actualizar k fi ff e)
  have "\<forall>(_, r) \<in> set (rows (reservas (commit (actualizarReserva k fi ff e s) s))). fechas_validas r"
  proof (rule fechas_validas_commit [OF assms])
    fix x s' assume "actualizarReserva k fi ff e s = Inr (x, s')"
    then have ok: "\<forall>a b. fi = Some a \<longrightarrow> ff = Some b \<longrightarrow> a < b" and
      s': "reservas s' = tbl_modify k (\<lambda>r. r\<lparr>re_fecha_inicio := fi, re_fecha_fin := ff, re_estado := e\<rparr>) (reservas s)"
      by (auto simp: actualizarReserva_Inr)
    have "fechas_validas (r\<lparr>re_fecha_inicio := fi, re_fecha_fin := ff, re_estado := e\<rparr>)" for r
      using ok by (auto simp: fechas_validas_def periodo_def split: option.splits)
    with s' show "\<exists>k f. reservas s' = tbl_modify k f (reservas s) \<and> (\<forall>r. fechas_validas r \<longrightarrow> fechas_validas (f r))"
      by blast
  qed
  with Actualizar show ?thesis by simp
next
  case (Cancelar k)
  have "\<forall>(_, r) \<in> set (rows (reservas (commit (cancelarReserva k s) s))). fechas_validas r"
    by (rule fechas_validas_commit [OF assms])
       (auto simp: cancelarReserva_Inr intro!: exI [of _ k] exI [of _ "\<lambda>r. r\<lparr>re_estado := Some CANCELADA\<rparr>"])
  with Cancelar show ?thesis by simp
next
  case (Finalizar k)
  have "\<forall>(_, r) \<in> set (rows (reservas (commit (finalizarReserva k s) s))). fechas_validas r"
    by (rule fechas_validas_commit [OF assms])
       (auto simp: finalizarReserva_Inr intro!: exI [of _ k] exI [of _ "\<lambda>r. r\<lparr>re_estado := Some FINALIZADA\<rparr>"])
  with Finalizar show ?thesis by simp
next
  case Otra
  with assms show ?thesis by simp
qed

lemma reach_fechas_validas: "reach P s \<Longrightarrow> \<forall>(_, r) \<in> set (rows (reservas s)). fechas_validas r"
  by (induction rule: reach.induct) (simp_all add: db0_def tbl_empty_def step_fechas_validas)

lemma conflicto_iff_solape:
  assumes "\<forall>(_, r) \<in> set (rows (reservas s)). fechas_validas r" "(fi::int) < ff"
  shows "tbl_exists (conflicto e fi ff) (reservas s) \<longleftrightarrow>
        (\<exists>(k, r) \<in> set (rows (reservas s)). re_espacio_id r = e \<and> re_estado r = Some ACTIVA \<and> solapa fi ff r)"
proof -
  have "conflicto e fi ff r \<longleftrightarrow> re_espacio_id r = e \<and> re_estado r = Some ACTIVA \<and> solapa fi ff r"
    if "(k, r) \<in> set (rows (reservas s))" for k r
  proof (rule conflicto_solapa)
    show "fi \<le> ff" using assms(2) by simp
    show "fechas_validas r" using assms(1) that by blast
  qed
  then show ?thesis
    unfolding tbl_exists_iff by blast
qed

lemma crearReserva_409:
  assumes "c \<noteq> 0" "e \<noteq> 0" "fi < ff"
    and "tbl_get (clientes s) c \<noteq> None" "tbl_get (espacios s) e \<noteq> None"
  shows "crearReserva (Some c) (Some e) (Some fi) (Some ff) s = Inl (HttpError 409 EspacioNoDisponible) \<longleftrightarrow>
         tbl_exists (conflicto e fi ff) (reservas s)"
  using assms unfolding crearReserva_def by (simp add: Let_def not_le split: prod.splits)

end
