(* ===== verification/Rutas.thy ===== *)
theory Rutas
  imports Auth
begin

text \<open>
  The HTTP surface: the routers under \<open>src/parqueo-api/src/routes\<close> and their mounting
  in \<open>src/parqueo-api/server.js\<close>. A router is its router-level middleware
  (\<open>router.use(verificarToken)\<close>, or none) and its routes in declaration order, each a
  method, a path pattern of literal and parameter segments, its own middleware and the
  controller function it calls. A request is dispatched as Express does: \<open>GET /\<close> is the
  root route; otherwise the mount under \<open>/api\<close> whose name is the next segment, then its
  router-level middleware, then the first route of the router whose method and pattern
  match (path matching ignores case, as Express's default does), then that route's
  middleware; a request no route takes falls to the 404 handler. The path is given as
  its segments.
\<close>

datatype metodo = GET | POST | PUT | PATCH | DELETE

datatype segmento = Lit string | Par string

text \<open>The middleware in front of a handler: none, \<open>verificarToken\<close>, or \<open>verificarToken\<close>
  followed by \<open>verificarRol\<close> with the roles allowed.\<close>

datatype guardia = Libre | Token | TokenRol "string list"

record router =
  ro_uso :: guardia
  ro_rutas :: "(metodo \<times> segmento list \<times> guardia \<times> string) list"

section \<open>The routers\<close>

definition rutas_auth :: router where
  "rutas_auth = \<lparr>ro_uso = Libre, ro_rutas =
     [(POST, [Lit ''register''], Libre, ''auth.registrar''),
      (POST, [Lit ''login''], Libre, ''auth.login''),
      (GET, [Lit ''perfil''], Token, ''auth.obtenerPerfil''),
      (POST, [Lit ''logout''], Token, ''auth.logout'')]\<rparr>"

definition rutas_clientes :: router where
  "rutas_clientes = \<lparr>ro_uso = Token, ro_rutas =
     [(GET, [], Libre, ''clientes.listarClientes''),
      (GET, [Par ''id''], Libre, ''clientes.obtenerCliente''),
      (POST, [], Libre, ''clientes.crearCliente''),
      (PUT, [Par ''id''], Libre, ''clientes.actualizarCliente''),
      (DELETE, [Par ''id''], Libre, ''clientes.eliminarCliente'')]\<rparr>"

definition rutas_empleados :: router where
  "rutas_empleados = \<lparr>ro_uso = Token, ro_rutas =
     [(GET, [], Libre, ''empleados.listarEmpleados''),
      (GET, [Par ''id''], Libre, ''empleados.obtenerEmpleado''),
      (POST, [], Libre, ''empleados.crearEmpleado''),
      (PUT, [Par ''id''], Libre, ''empleados.actualizarEmpleado''),
      (PATCH, [Par ''id'', Lit ''estado''], Libre, ''empleados.cambiarEstado''),
      (DELETE, [Par ''id''], Libre, ''empleados.eliminarEmpleado'')]\<rparr>"

definition rutas_espacios :: router where
  "rutas_espacios = \<lparr>ro_uso = Token, ro_rutas =
     [(GET, [], Libre, ''espacios.listarEspacios''),
      (GET, [Lit ''disponibles''], Libre, ''espacios.listarDisponibles''),
      (GET, [Par ''id''], Libre, ''espacios.obtenerEspacio''),
      (POST, [], Libre, ''espacios.crearEspacio''),
      (PUT, [Par ''id''], Libre, ''espacios.actualizarEspacio''),
      (PATCH, [Par ''id'', Lit ''disponibilidad''], Libre, ''espacios.cambiarDisponibilidad''),
      (DELETE, [Par ''id''], Libre, ''espacios.eliminarEspacio'')]\<rparr>"

definition rutas_historial :: router where
  "rutas_historial = \<lparr>ro_uso = Token, ro_rutas =
     [(GET, [], Libre, ''historial.listarHistorial''),
      (GET, [Lit ''estadisticas''], Libre, ''historial.obtenerEstadisticas''),
      (GET, [Lit ''usuario'', Par ''usuario_id''], Libre, ''historial.obtenerHistorialPorUsuario''),
      (GET, [Par ''id''], Libre, ''historial.obtenerRegistro''),
      (POST, [], Libre, ''historial.registrarAcceso''),
      (DELETE, [Lit ''limpiar''], Libre, ''historial.limpiarHistorial'')]\<rparr>"

definition rutas_multas :: router where
  "rutas_multas = \<lparr>ro_uso = Token, ro_rutas =
     [(GET, [], Libre, ''multas.listarMultas''),
      (GET, [Lit ''ticket'', Par ''ticket_id''], Libre, ''multas.buscarPorTicket''),
      (GET, [Par ''id''], Libre, ''multas.obtenerMulta''),
      (POST, [], Libre, ''multas.crearMulta''),
      (PUT, [Par ''id''], Libre, ''multas.actualizarMulta''),
      (DELETE, [Par ''id''], Libre, ''multas.eliminarMulta'')]\<rparr>"

definition rutas_pagos :: router where
  "rutas_pagos = \<lparr>ro_uso = Token, ro_rutas =
     [(POST, [], Libre, ''pagos.registrarPago''),
      (GET, [], Libre, ''pagos.listarPagos''),
      (GET, [Lit ''reporte''], Libre, ''pagos.reportePagos''),
      (GET, [Lit ''ticket'', Par ''ticket_id''], Libre, ''pagos.obtenerPagoPorTicket''),
      (GET, [Par ''id''], Libre, ''pagos.obtenerPago'')]\<rparr>"

definition rutas_reservas :: router where
  "rutas_reservas = \<lparr>ro_uso = Token, ro_rutas =
     [(GET, [], Libre, ''reservas.listarReservas''),
      (GET, [Lit ''activas''], Libre, ''reservas.listarReservasActivas''),
      (GET, [Lit ''cliente'', Par ''cliente_id''], Libre, ''reservas.buscarPorCliente''),
      (GET, [Par ''id''], Libre, ''reservas.obtenerReserva''),
      (POST, [], Libre, ''reservas.crearReserva''),
      (PUT, [Par ''id''], Libre, ''reservas.actualizarReserva''),
      (PATCH, [Par ''id'', Lit ''cancelar''], Libre, ''reservas.cancelarReserva''),
      (PATCH, [Par ''id'', Lit ''finalizar''], Libre, ''reservas.finalizarReserva'')]\<rparr>"

definition rutas_roles :: router where
  "rutas_roles = \<lparr>ro_uso = Token, ro_rutas =
     [(GET, [], Libre, ''roles.listarRoles''),
      (GET, [Par ''id''], Libre, ''roles.obtenerRol''),
      (POST, [], Libre, ''roles.crearRol''),
      (PUT, [Par ''id''], Libre, ''roles.actualizarRol''),
      (DELETE, [Par ''id''], Libre, ''roles.eliminarRol'')]\<rparr>"

definition rutas_tarifas :: router where
  "rutas_tarifas = \<lparr>ro_uso = Token, ro_rutas =
     [(GET, [], Libre, ''tarifas.listarTarifas''),
      (GET, [Par ''id''], Libre, ''tarifas.obtenerTarifa''),
      (POST, [], Libre, ''tarifas.crearTarifa''),
      (PUT, [Par ''id''], Libre, ''tarifas.actualizarTarifa''),
      (DELETE, [Par ''id''], Libre, ''tarifas.eliminarTarifa'')]\<rparr>"

definition rutas_tickets :: router where
  "rutas_tickets = \<lparr>ro_uso = Token, ro_rutas =
     [(POST, [Lit ''entrada''], Libre, ''tickets.registrarEntrada''),
      (PUT, [Par ''id'', Lit ''salida''], Libre, ''tickets.registrarSalida''),
      (GET, [], Libre, ''tickets.listarTickets''),
      (GET, [Lit ''activos''], Libre, ''tickets.listarActivos''),
      (GET, [Lit ''vehiculo'', Par ''placa''], Libre, ''tickets.buscarPorVehiculo''),
      (GET, [Par ''id''], Libre, ''tickets.obtenerTicket'')]\<rparr>"

definition rutas_tipospago :: router where
  "rutas_tipospago = \<lparr>ro_uso = Token, ro_rutas =
     [(GET, [], Libre, ''tipospago.listarTiposPago''),
      (GET, [Par ''id''], Libre, ''tipospago.obtenerTipoPago''),
      (POST, [], Libre, ''tipospago.crearTipoPago''),
      (PUT, [Par ''id''], Libre, ''tipospago.actualizarTipoPago''),
      (DELETE, [Par ''id''], Libre, ''tipospago.eliminarTipoPago'')]\<rparr>"

definition rutas_turnos :: router where
  "rutas_turnos = \<lparr>ro_uso = Token, ro_rutas =
     [(GET, [], Libre, ''turnos.listarTurnos''),
      (GET, [Par ''id''], Libre, ''turnos.obtenerTurno''),
      (POST, [], Libre, ''turnos.crearTurno''),
      (PUT, [Par ''id''], Libre, ''turnos.actualizarTurno''),
      (DELETE, [Par ''id''], Libre, ''turnos.eliminarTurno'')]\<rparr>"

definition rutas_vehiculos :: router where
  "rutas_vehiculos = \<lparr>ro_uso = Token, ro_rutas =
     [(GET, [], Libre, ''vehiculos.listarVehiculos''),
      (GET, [Lit ''placa'', Par ''placa''], Libre, ''vehiculos.buscarPorPlaca''),
      (GET, [Par ''id''], Libre, ''vehiculos.obtenerVehiculo''),
      (POST, [], Libre, ''vehiculos.crearVehiculo''),
      (PUT, [Par ''id''], Libre, ''vehiculos.actualizarVehiculo''),
      (DELETE, [Par ''id''], Libre, ''vehiculos.eliminarVehiculo'')]\<rparr>"

definition rutas_zonas :: router where
  "rutas_zonas = \<lparr>ro_uso = Token, ro_rutas =
     [(GET, [], Libre, ''zonas.listarZonas''),
      (GET, [Par ''id''], Libre, ''zonas.obtenerZona''),
      (POST, [], Libre, ''zonas.crearZona''),
      (PUT, [Par ''id''], Libre, ''zonas.actualizarZona''),
      (DELETE, [Par ''id''], Libre, ''zonas.eliminarZona'')]\<rparr>"

text \<open>\<open>app.use('/api/...', router)\<close>, in the order of \<open>server.js\<close>.\<close>

definition montajes :: "(string \<times> router) list" where
  "montajes =
     [(''auth'', rutas_auth), (''empleados'', rutas_empleados), (''clientes'', rutas_clientes),
      (''vehiculos'', rutas_vehiculos), (''espacios'', rutas_espacios), (''zonas'', rutas_zonas),
      (''tickets'', rutas_tickets), (''pagos'', rutas_pagos), (''tarifas'', rutas_tarifas),
      (''turnos'', rutas_turnos), (''multas'', rutas_multas), (''reservas'', rutas_reservas),
      (''roles'', rutas_roles), (''tipospago'', rutas_tipospago), (''historial'', rutas_historial)]"

section \<open>Dispatch\<close>

fun encaja :: "segmento list \<Rightarrow> string list \<Rightarrow> bool" where
  "encaja [] [] \<longleftrightarrow> True"
| "encaja (Lit l # ps) (x # xs) \<longleftrightarrow> ci_eq l x \<and> encaja ps xs"
| "encaja (Par _ # ps) (x # xs) \<longleftrightarrow> x \<noteq> [] \<and> encaja ps xs"
| "encaja _ _ \<longleftrightarrow> False"

definition buscar_ruta ::
  "metodo \<Rightarrow> string list \<Rightarrow> (metodo \<times> segmento list \<times> guardia \<times> string) list \<Rightarrow>
     (metodo \<times> segmento list \<times> guardia \<times> string) option" where
  "buscar_ruta m p rs = find (\<lambda>(m', pat, _, _). m' = m \<and> encaja pat p) rs"

definition proteger :: "guardia \<Rightarrow> (string \<Rightarrow> verificacion) \<Rightarrow> string option \<Rightarrow> http_error + sesion option" where
  "proteger g verificar authorization =
    (case g of
      Libre \<Rightarrow> Inr None
    | Token \<Rightarrow> map_sum id Some (verificarToken verificar authorization)
    | TokenRol permitidos \<Rightarrow>
        (case verificarToken verificar authorization of
          Inl e \<Rightarrow> Inl e
        | Inr ses \<Rightarrow> map_sum id (\<lambda>_. Some ses) (verificarRol permitidos (Some ses))))"

datatype respuesta = Raiz | NoEncontrada | Rechazada http_error | Atendida string "sesion option"

definition atender ::
  "(string \<Rightarrow> verificacion) \<Rightarrow> metodo \<Rightarrow> string list \<Rightarrow> string option \<Rightarrow> respuesta" where
  "atender verificar m p authorization =
    (if m = GET \<and> p = [] then Raiz
     else case p of
       a # b # resto \<Rightarrow>
         if \<not> ci_eq a ''api'' then NoEncontrada
         else (case find (\<lambda>(n, _). ci_eq n b) montajes of
           None \<Rightarrow> NoEncontrada
         | Some (_, r) \<Rightarrow>
             (case proteger (ro_uso r) verificar authorization of
               Inl e \<Rightarrow> Rechazada e
             | Inr ses0 \<Rightarrow>
                 (case buscar_ruta m resto (ro_rutas r) of
                   None \<Rightarrow> NoEncontrada
                 | Some (_, _, g, h) \<Rightarrow>
                     (case proteger g verificar authorization of
                       Inl e \<Rightarrow> Rechazada e
                     | Inr ses \<Rightarrow> Atendida h (if ses = None then ses0 else ses)))))
     | _ \<Rightarrow> NoEncontrada)"

section \<open>Body parsing and the error handler\<close>

text \<open>
  \<open>app.use(express.json())\<close> and \<open>app.use(express.urlencoded(..))\<close> parse the body of
  every request before any route: a request has no body the parsers take, a body they
  parse, or one they fail on (malformed JSON, a body too large). A failure is passed to
  the error handler \<open>app.use((err, req, res, next) => ..)\<close>, which answers 500 whatever
  status the parser's error carries; otherwise the request goes on to the routes.
\<close>

datatype cuerpo = SinCuerpo | CuerpoValido | CuerpoMalformado

definition analizar_cuerpo :: "cuerpo \<Rightarrow> http_error option" where
  "analizar_cuerpo c = (case c of CuerpoMalformado \<Rightarrow> Some (HttpError 500 ErrorInterno) | _ \<Rightarrow> None)"

definition servir ::
  "(string \<Rightarrow> verificacion) \<Rightarrow> metodo \<Rightarrow> string list \<Rightarrow> string option \<Rightarrow> cuerpo \<Rightarrow> respuesta" where
  "servir verificar m p authorization c =
    (case analizar_cuerpo c of
      Some e \<Rightarrow> Rechazada e
    | None \<Rightarrow> atender verificar m p authorization)"

section \<open>Dispatch, what it guarantees\<close>

lemma proteger_Token:
  "proteger Token v a = Inr ses \<Longrightarrow> \<exists>x. ses = Some x \<and> verificarToken v a = Inr x"
  by (cases "verificarToken v a") (auto simp: proteger_def)

lemma verificarToken_Inr:
  "verificarToken v a = Inr x \<Longrightarrow> \<exists>t. a \<noteq> None \<and> token_de (the a) = Some t \<and> v t = Valido x"
  by (auto simp: verificarToken_def truthy_str_def split: if_splits option.splits verificacion.splits)

lemma proteger_Libre: "proteger Libre v a = Inr ses \<longleftrightarrow> ses = None"
  by (auto simp: proteger_def)

lemma find_en_lista: "find P xs = Some x \<Longrightarrow> x \<in> set xs"
  by (induction xs) (auto split: if_splits)

lemma montajes_guardias:
  "(n, r) \<in> set montajes \<Longrightarrow>
     r = rutas_auth \<or> (ro_uso r = Token \<and> (\<forall>(m', pat, g, h) \<in> set (ro_rutas r). g = Libre))"
  by (auto simp: montajes_def rutas_clientes_def rutas_empleados_def rutas_espacios_def rutas_historial_def
      rutas_multas_def rutas_pagos_def rutas_reservas_def rutas_roles_def rutas_tarifas_def rutas_tickets_def
      rutas_tipospago_def rutas_turnos_def rutas_vehiculos_def rutas_zonas_def)

lemma atender_Atendida:
  assumes "atender v m p a = Atendida h ses"
  shows "\<exists>n r ses0 m' pat g ses'. (n, r) \<in> set montajes \<and> proteger (ro_uso r) v a = Inr ses0 \<and>
           (m', pat, g, h) \<in> set (ro_rutas r) \<and> proteger g v a = Inr ses' \<and>
           ses = (if ses' = None then ses0 else ses')"
  using assms unfolding atender_def buscar_ruta_def
  by (auto split: if_splits list.splits option.splits sum.splits prod.splits dest!: find_en_lista; blast)

lemma verificarToken_Inl:
  "verificarToken v a = Inl e \<Longrightarrow>
     e \<in> {HttpError 403 TokenNoProporcionado, HttpError 403 FormatoTokenInvalido,
          HttpError 401 TokenExpirado, HttpError 401 TokenInvalido}"
  by (auto simp: verificarToken_def split: if_splits option.splits verificacion.splits)

lemma proteger_Inl:
  "proteger g v a = Inl e \<Longrightarrow> g = Libre \<or> g = Token \<Longrightarrow>
     e \<in> {HttpError 403 TokenNoProporcionado, HttpError 403 FormatoTokenInvalido,
          HttpError 401 TokenExpirado, HttpError 401 TokenInvalido}"
  by (cases "verificarToken v a") (auto simp: proteger_def dest: verificarToken_Inl)

lemma guardias_montadas:
  assumes "(n, r) \<in> set montajes"
  shows "ro_uso r = Libre \<or> ro_uso r = Token"
    and "(m', pat, g, h) \<in> set (ro_rutas r) \<Longrightarrow> g = Libre \<or> g = Token"
  using montajes_guardias [OF assms] by (auto simp: rutas_auth_def)

lemma atender_Rechazada:
  assumes "atender v m p a = Rechazada e"
  shows "\<exists>g. (g = Libre \<or> g = Token) \<and> proteger g v a = Inl e"
proof -
  from assms have "\<exists>n r. (n, r) \<in> set montajes \<and>
      (proteger (ro_uso r) v a = Inl e \<or> (\<exists>m' pat g h. (m', pat, g, h) \<in> set (ro_rutas r) \<and> proteger g v a = Inl e))"
    unfolding atender_def buscar_ruta_def
    by (auto split: if_splits list.splits option.splits sum.splits prod.splits dest!: find_en_lista)
       (intro exI conjI disjI2; assumption)
  then obtain n r where r: "(n, r) \<in> set montajes"
    and c: "proteger (ro_uso r) v a = Inl e \<or>
            (\<exists>m' pat g h. (m', pat, g, h) \<in> set (ro_rutas r) \<and> proteger g v a = Inl e)"
    by blast
  from c show ?thesis
  proof
    assume "proteger (ro_uso r) v a = Inl e"
    with guardias_montadas(1) [OF r] show ?thesis by blast
  next
    assume "\<exists>m' pat g h. (m', pat, g, h) \<in> set (ro_rutas r) \<and> proteger g v a = Inl e"
    then obtain m' pat g h where "(m', pat, g, h) \<in> set (ro_rutas r)" "proteger g v a = Inl e"
      by blast
    with guardias_montadas(2) [OF r] show ?thesis by blast
  qed
qed

end
