(* ===== verification/Spec2Isabelle.thy ===== *)
theory Spec2Isabelle
  imports Ocupacion Agenda Rutas
begin

text \<open>
  A model of the parking REST API \<open>src/parqueo-api\<close> (Express over MySQL) and the
  properties that make it correct, or show where it is not.

  \<^bold>\<open>The program.\<close> \<open>server.js\<close> mounts one router per resource under \<open>src/routes\<close>;
  every router but the one of \<open>/api/auth\<close> runs \<open>verificarToken\<close>
  (\<open>src/middlewares/auth.middleware.js\<close>) first, and each route calls a handler of a
  controller under \<open>src/controllers\<close>, which validates the request, reads and writes the
  MySQL tables and answers JSON with an HTTP status. The core is the life of a ticket:
  \<open>registrarEntrada\<close> (tickets.controller.js) opens an ACTIVO ticket for a vehicle on a
  free space and marks the space occupied; \<open>registrarSalida\<close> closes it, frees the space
  and computes the charge in SQL (\<open>CEIL(TIMESTAMPDIFF(MINUTE, entrada, salida) / 60.0) *
  precio_hora\<close>); \<open>registrarPago\<close> (pagos.controller.js) records one payment per closed
  ticket, recomputing the expected charge and the change. Around it: the catalogues
  (spaces, tariffs, clients, vehicles, zones, payment types), reservations of spaces with
  a conflict query, fines of tickets, employees and their shifts, roles and their
  permissions, the access log, and the accounts (\<open>auth.controller.js\<close>: register, login,
  profile, logout).

  \<^bold>\<open>The model.\<close>
  \<^item> \<open>Prelude\<close>: a table is a record of its rows (id and row, in insertion order) and
    the next \<open>AUTO_INCREMENT\<close> id, with lookup, insert, update, delete and
    \<open>WHERE\<close>/\<open>COUNT\<close>/\<open>EXISTS\<close>; JavaScript truthiness of request fields (\<open>None\<close> is an
    absent field); the HTTP errors the handlers answer; \<open>UPPER\<close> and the
    case-insensitive comparison of the default MySQL collation.
  \<^item> \<open>Store\<close>: one row record per table of the schema, with the columns the handlers
    read and write (\<open>NULL\<close>-able ones as \<open>option\<close>), the store \<open>db\<close> of the fifteen
    tables and the clock \<open>now\<close> (\<open>NOW()\<close>, in seconds); money is integer cents.
  \<^item> \<open>Billing\<close>: \<open>TIMESTAMPDIFF(MINUTE)\<close> (truncation toward zero), \<open>CEIL(m / 60.0)\<close>
    as integer division, the charged hours, and the \<open>NULL\<close> columns of the
    SELECTs.
  \<^item> One theory per controller, named after it: \<open>Tickets\<close>, \<open>Pagos\<close>, \<open>Espacios\<close>,
    \<open>Tarifas\<close>, \<open>Clientes\<close>, \<open>Vehiculos\<close>, \<open>Zonas\<close>, \<open>TiposPago\<close>, \<open>Reservas\<close>,
    \<open>Multas\<close>, \<open>Turnos\<close>, \<open>Empleados\<close>, \<open>Roles\<close>, \<open>Historial\<close>
    (historialaccesos.controller.js) and \<open>Auth\<close> (auth.controller.js and both
    middlewares): one definition per handler, with the checks in the order of the code
    and every early \<open>return res.status(..)\<close> an \<open>Inl\<close> error. A handler maps its request
    fields and the store to an error or its answer and the new store; an error leaves
    the store as it was (the transactional handlers roll back, the others fail before
    their only write). The read handlers are functions of the store.
  \<^item> \<open>Rutas\<close>: every router as the list of its routes in declaration order, the mounts
    of \<open>server.js\<close>, \<open>atender\<close>, Express's dispatch of a request (root route, mount,
    router middleware, first matching route, route middleware, 404), and \<open>servir\<close>, the
    body parsers in front of it with the global error handler (500) behind them.
  \<^item> \<open>Operations\<close>: the server as a state machine: a datatype of the writing requests,
    \<open>step\<close> (commit on success, unchanged store on error), \<open>run\<close> over a list of
    requests, the clock tick \<open>OpReloj\<close>, and \<open>reach P\<close>, the stores reachable from an
    empty database by requests satisfying \<open>P\<close>; \<open>manual\<close> picks the requests that write a
    space's flag by hand.
  \<^item> \<open>Invariants\<close>, \<open>Ocupacion\<close>, \<open>Agenda\<close>: invariants preserved by every step and
    lifted to every reachable store by rule induction: well-formed tables, one active
    ticket per vehicle, ticket times, payments of closed tickets only and once; the
    occupancy of the spaces; final reservation states and valid stored periods.
  \<^item> This theory: concrete runs and the properties of the API as a whole.

  \<^bold>\<open>The properties\<close> (C1 to C34, each after a text naming it): invariants of every
  reachable store (C1 to C4, C16, C17) and of reservation creation (C22); the ticket
  state machine (C5, C6, C19, the progress of the exit); billing, as an equivalence with
  exact rational arithmetic and at the rounding boundaries (C7, C8); the error paths of
  entry, exit and payment (C9, C10, C12) and of the server layer (C11); the payment's
  charge, its refinement of the exit's announcement and its dependence on the tariff in
  force (C13 to C15, C34); the manual override of a space's flag against the occupancy
  invariant (C18); reservations (C20 to C23: final states, the SQL conflict query equals
  interval overlap, creation keeps periods apart, update does not); fines (C24, C25); the
  shift-hour regular expression as exactly the printed times of a day (C26); the bound
  of the access-log purge (C27); accounts and tokens (C28 to C30); routing (C31, C32);
  roles (C33). A behaviour of the code that contradicts the spec or a comment (C14, C18,
  C23, C25, C29, C30, C32, C33) is stated for every store and request where it applies,
  with a concrete run as its witness.

  \<^bold>\<open>Bounds and fuel.\<close> Requests are serialised: each handler runs to completion before
  the next begins, and the clock moves only between requests. No loop of the code is
  unbounded, so no fuel is needed: every definition is total (structural recursion
  only) and executable, and the concrete runs are evaluated by \<open>simp\<close>. The code has
  no loop but \<open>map\<close>, \<open>filter\<close>, \<open>reduce\<close> and \<open>split\<close> over finite arrays and
  strings, so no termination argument is left to prove: the recursions are structural. JavaScript's
  floating-point money is modelled exactly in cents; \<open>NaN\<close> of a sum over a \<open>NULL\<close> is
  \<open>None\<close>. A day is 86400 seconds.

  \<^bold>\<open>Not modelled.\<close> The libraries the code calls are parameters: \<open>bcrypt.hash\<close>,
  \<open>bcrypt.compare\<close> and \<open>jwt.verify\<close> (the operations carry their outcome). Date
  strings of requests are instants, their parsing is not modelled. The foreign keys and
  column defaults of the schema (not under \<open>src\<close>) are modelled only as the handlers
  rely on them; a failing SQL statement (the \<open>catch\<close> blocks answering 500) is not
  modelled, the store never fails. Concurrency beyond serialised requests, \<open>cors\<close>
  (response headers only), \<open>app.listen\<close> and \<open>database.js\<close> (a connection pool) are
  wiring.

  \<^bold>\<open>Structure.\<close> The tables as records updated by explicit state passing and the
  invariant-per-step proofs follow the CISC kernel model (AFP, \<open>Step.thy\<close> and
  \<open>Step_invariants.thy\<close>); the reachable-state invariant by rule induction follows the
  leader election case study of the Igloo development; a flaw stated beside the
  invariants and witnessed by a reachable trace follows \<open>NS_Public_Bad\<close>; the executable step
  function over a datatype of instructions follows the UPPAAL assembler model (AFP
  Munta); the lookup-as-\<open>map_of\<close> refinement follows \<open>BinaryTree_Map\<close>; errors as values
  follow the WebAssembly checker.
\<close>

section \<open>Concrete runs\<close>

text \<open>
  A morning at the car park: a client, a vehicle, a zone with two spaces and a tariff of
  10.00 an hour are registered; then employee 7 lets the vehicle in on the first space
  at time 0 and the clock moves on by 125 minutes; then the vehicle leaves and pays
  50.00 in cash.
\<close>

definition preparacion :: "op list" where
  "preparacion = [OpCrearCliente (Some ''Ana'') None None None,
                  OpCrearVehiculo (Some 1) (Some ''p123abc'') None None None,
                  OpCrearZona (Some ''A'') None,
                  OpCrearEspacio (Some 1) (Some ''a1'') None,
                  OpCrearEspacio (Some 1) (Some ''a2'') None,
                  OpCrearTarifa (Some ''hora'') (Some 1000),
                  OpCrearTipoPago (Some ''EFECTIVO'')]"

definition alta :: "op list" where
  "alta = preparacion @ [OpEntrada 7 (Some 1) (Some 1) (Some 1), OpReloj 7500]"

definition cierre :: "op list" where
  "cierre = alta @ [OpSalida 1]"

definition cobro :: "op list" where
  "cobro = cierre @ [OpPago (Some 1) (Some 1) (Some 5000)]"

lemmas eval_defs = handler_defs db0_def tbl_empty_def tbl_insert_def tbl_get_def tbl_exists_def
  tbl_modify_def tbl_count_def tbl_where_def Let_def disponible_def ticket_nuevo_def upper_def upper_char_def
  codigo_igual_def placa_igual_def nombre_igual_def pago_de_def activo_de_def cerrar_def
  salida_view_def sql_minutos_def sql_horas_def sql_monto_def horas_cobrar_def ceil_div60_def
  timestampdiff_minute_def precio_de_def monto_esperado_def cambio_def js_num_def ci_eq_def char_of_def bit_0

definition espacio_a :: "string \<Rightarrow> bool \<Rightarrow> espacio_row" where
  "espacio_a c d = \<lparr>e_zona_id = Some 1, e_codigo = Some c, e_disponible = Some d\<rparr>"

definition reservadas :: "op list" where
  "reservadas = preparacion @ [OpCrearReserva (Some 1) (Some 1) (Some 0) (Some 100),
                               OpCrearReserva (Some 1) (Some 1) (Some 200) (Some 300),
                               OpCancelarReserva 1]"

definition multada :: "op list" where
  "multada = alta @ [OpCrearMulta (Some 1) (Some ''doble fila'') (Some 5000),
                    OpCrearMulta (Some 1) (Some ''sin ticket'') (Some 2500),
                    OpActualizarMulta 2 (Some ''sin ticket'') None]"

definition personal :: "op list" where
  "personal = [OpRegistrar (Some ''Ana'') (Some ''ana@parqueo.gt'') (Some ''clave1'') None ''h1'',
               OpRegistrar (Some ''Eva'') (Some ''eva@parqueo.gt'') (Some ''clave2'') (Some 3) ''h2'',
               OpCrearEmpleado (Some 2) None None None (Some ''1234567890101''),
               OpCambiarEstado 1 (Some False)]"

definition sesion_eva :: sesion where
  "sesion_eva = \<lparr>s_id = 2, s_nombre = ''Eva'', s_correo = ''eva@parqueo.gt'', s_rol = Some ''USUARIO''\<rparr>"

definition verificar_eva :: "string \<Rightarrow> verificacion" where
  "verificar_eva x = (if x = ''abc'' then Valido sesion_eva else Invalido)"

definition dos_reservas :: "op list" where
  "dos_reservas = preparacion @ [OpCrearReserva (Some 1) (Some 1) (Some 0) (Some 100),
                                 OpCrearReserva (Some 1) (Some 1) (Some 200) (Some 300)]"

definition con_segundo_vehiculo :: "op list" where
  "con_segundo_vehiculo = alta @ [OpCrearVehiculo (Some 1) (Some ''q456def'') None None None]"

lemma preparacion_db:
  "tbl_get (vehiculos (run (db0 0) preparacion)) 1 \<noteq> None"
  "rows (espacios (run (db0 0) preparacion)) = [(1, espacio_a ''A1'' True), (2, espacio_a ''A2'' True)]"
  "rows (tickets (run (db0 0) preparacion)) = []"
  "now (run (db0 0) preparacion) = 0"
  by (simp_all add: preparacion_def eval_defs espacio_a_def)

lemma alta_db:
  "rows (tickets (run (db0 0) alta)) = [(1, ticket_nuevo 1 1 7 1 0)]"
  "rows (espacios (run (db0 0) alta)) = [(1, espacio_a ''A1'' False), (2, espacio_a ''A2'' True)]"
  "tbl_get (vehiculos (run (db0 0) alta)) 1 \<noteq> None"
  "now (run (db0 0) alta) = 7500"
  by (simp_all add: alta_def preparacion_def eval_defs espacio_a_def)

lemma cobro_db:
  "rows (tickets (run (db0 0) cobro)) = [(1, cerrar 7500 (ticket_nuevo 1 1 7 1 0))]"
  "rows (pagos (run (db0 0) cobro)) =
     [(1, \<lparr>p_ticket_id = 1, p_tipo_pago_id = 1, p_monto = 5000, p_fecha_pago = 7500\<rparr>)]"
  "now (run (db0 0) cobro) = 7500"
  by (simp_all add: cobro_def cierre_def alta_def preparacion_def eval_defs)


lemma run_append: "run s (xs @ ys) = run (run s xs) ys"
  by (induction xs arbitrary: s) simp_all

lemma inv_reachable:
  assumes "reachable s"
  shows "db_wf s" "una_activa_por_vehiculo s" "tiempos_ok s" "pagos_ok s"
  using reach_inv_sistema [OF assms] by (simp_all add: inv_sistema_def)

lemma distinct_map_eq:
  "distinct (map f xs) \<Longrightarrow> x \<in> set xs \<Longrightarrow> y \<in> set xs \<Longrightarrow> f x = f y \<Longrightarrow> x = y"
  by (metis distinct_map inj_onD)

section \<open>Invariants of every reachable store\<close>

text \<open>
  C1. A vehicle has at most one active ticket: in every store the API can reach, two
  active tickets of the same vehicle are the same ticket.
\<close>

theorem un_ticket_activo_por_vehiculo:
  assumes "reachable s"
    and "(k1, t1) \<in> set (rows (tickets s))" "(k2, t2) \<in> set (rows (tickets s))"
    and "t_estado t1 = ACTIVO" "t_estado t2 = ACTIVO" "t_vehiculo_id t1 = t_vehiculo_id t2"
  shows "k1 = k2"
  using inv_reachable(2) [OF assms(1)] assms(2-6)
  unfolding una_activa_por_vehiculo_def activo_de_def by fastforce

theorem un_ticket_activo_por_vehiculo_witness:
  "reachable (run (db0 0) alta) \<and> (1::nat) = 1"
  using un_ticket_activo_por_vehiculo [of "run (db0 0) alta" 1 "ticket_nuevo 1 1 7 1 0" 1 "ticket_nuevo 1 1 7 1 0"]
  by (simp add: reachable_run alta_db ticket_nuevo_def)

text \<open>
  C2. The times of a ticket: it entered no later than the clock; its exit time is unset
  exactly while it is ACTIVO; once set, the exit time lies between the entry and the
  clock.
\<close>

theorem tiempos_ticket:
  assumes "reachable s" "(k, t) \<in> set (rows (tickets s))"
  shows "t_hora_entrada t \<le> now s \<and> (t_hora_salida t = None \<longleftrightarrow> t_estado t = ACTIVO) \<and>
         (\<forall>x. t_hora_salida t = Some x \<longrightarrow> t_hora_entrada t \<le> x \<and> x \<le> now s)"
  using inv_reachable(3) [OF assms(1)] assms(2)
  unfolding tiempos_ok_def by (fastforce split: option.splits)

theorem tiempos_ticket_witness:
  "reachable (run (db0 0) cobro) \<and> t_hora_salida (cerrar 7500 (ticket_nuevo 1 1 7 1 0)) = Some 7500 \<and>
   0 \<le> (7500::int) \<and> (7500::int) \<le> now (run (db0 0) cobro)"
  using tiempos_ticket [of "run (db0 0) cobro" 1 "cerrar 7500 (ticket_nuevo 1 1 7 1 0)"]
  by (simp add: reachable_run cobro_db cerrar_def ticket_nuevo_def)

text \<open>
  C3. A payment is recorded only for a ticket that exists and is CERRADO, in every
  reachable store.
\<close>

theorem pago_de_ticket_cerrado:
  assumes "reachable s" "(k, p) \<in> set (rows (pagos s))"
  shows "\<exists>t. tbl_get (tickets s) (p_ticket_id p) = Some t \<and> t_estado t = CERRADO"
  using inv_reachable(4) [OF assms(1)] assms(2)
  unfolding pagos_ok_def ticket_cerrado_def by (fastforce split: option.splits)

theorem pago_de_ticket_cerrado_witness:
  "reachable (run (db0 0) cobro) \<and>
   tbl_get (tickets (run (db0 0) cobro)) 1 = Some (cerrar 7500 (ticket_nuevo 1 1 7 1 0))"
  using pago_de_ticket_cerrado [of "run (db0 0) cobro" 1]
  by (simp add: reachable_run cobro_db tbl_get_def cerrar_def)

text \<open>
  C4. At most one payment per ticket: in every reachable store two payments of the same
  ticket are the same payment.
\<close>

theorem un_pago_por_ticket:
  assumes "reachable s" "(k1, p1) \<in> set (rows (pagos s))" "(k2, p2) \<in> set (rows (pagos s))"
    and "p_ticket_id p1 = p_ticket_id p2"
  shows "k1 = k2"
proof -
  from inv_reachable(4) [OF assms(1)]
  have "distinct (map (\<lambda>(_, p). p_ticket_id p) (rows (pagos s)))"
    by (simp add: pagos_ok_def)
  from distinct_map_eq [OF this assms(2,3)] assms(4) show ?thesis by simp
qed

theorem un_pago_por_ticket_witness:
  "reachable (run (db0 0) cobro) \<and> (1::nat) = 1"
  using un_pago_por_ticket [of "run (db0 0) cobro" 1
      "\<lparr>p_ticket_id = 1, p_tipo_pago_id = 1, p_monto = 5000, p_fecha_pago = 7500\<rparr>" 1
      "\<lparr>p_ticket_id = 1, p_tipo_pago_id = 1, p_monto = 5000, p_fecha_pago = 7500\<rparr>"]
  by (simp add: reachable_run cobro_db)

section \<open>The ticket state machine\<close>

text \<open>
  C5. A request changes an existing ticket in one way only: the ticket stays as it was,
  or it was ACTIVO and is closed at the current time (ACTIVO to CERRADO, never back, and
  never deleted).
\<close>

theorem transicion_ticket:
  assumes "reachable s" "tbl_get (tickets s) k = Some t"
  shows "tbl_get (tickets (step o1 s)) k = Some t \<or>
         (t_estado t = ACTIVO \<and> tbl_get (tickets (step o1 s)) k = Some (cerrar (now s) t))"
  using step_ticket_existente [OF inv_reachable(1) [OF assms(1)] assms(2)] .

theorem transicion_ticket_witness:
  "reachable (run (db0 0) alta) \<and>
   tbl_get (tickets (step (OpSalida 1) (run (db0 0) alta))) 1 = Some (cerrar 7500 (ticket_nuevo 1 1 7 1 0))"
proof -
  have "tbl_get (tickets (run (db0 0) alta)) 1 = Some (ticket_nuevo 1 1 7 1 0)"
    by (simp add: alta_db tbl_get_def)
  from transicion_ticket [OF reachable_run this, of "OpSalida 1"]
  show ?thesis
    by (simp add: reachable_run registrarSalida_def alta_db tbl_get_def tbl_modify_def ticket_nuevo_def Let_def)
qed

text \<open>
  C6. A ticket is born ACTIVO: a ticket that a request adds is ACTIVO, has no exit time
  and entered at the current time.
\<close>

theorem ticket_nace_activo:
  assumes "reachable s" "tbl_get (tickets s) k = None" "tbl_get (tickets (step o1 s)) k = Some t"
  shows "t_estado t = ACTIVO \<and> t_hora_salida t = None \<and> t_hora_entrada t = now s"
  using step_ticket_nuevo [OF inv_reachable(1) [OF assms(1)] assms(2,3)] .

theorem ticket_nace_activo_witness:
  "reachable (run (db0 0) preparacion) \<and>
   tbl_get (tickets (step (OpEntrada 7 (Some 1) (Some 1) (Some 1)) (run (db0 0) preparacion))) 1 =
     Some (ticket_nuevo 1 1 7 1 0)"
proof -
  have s: "tbl_get (tickets (step (OpEntrada 7 (Some 1) (Some 1) (Some 1)) (run (db0 0) preparacion))) 1 =
     Some (ticket_nuevo 1 1 7 1 0)"
    by (simp add: preparacion_def eval_defs)
  have "tbl_get (tickets (run (db0 0) preparacion)) 1 = None"
    by (simp add: preparacion_db tbl_get_def)
  from ticket_nace_activo [OF reachable_run this s] s show ?thesis
    by (simp add: reachable_run)
qed


section \<open>Billing\<close>

lemma div60_offset: "0 \<le> r \<Longrightarrow> r < 60 \<Longrightarrow> (60 * m + r) div 60 = (m::int)"
  by simp

lemma horas_cobrar_offset:
  "0 \<le> r \<Longrightarrow> r < 60 \<Longrightarrow> 0 \<le> m \<Longrightarrow> horas_cobrar e (e + (60 * m + r)) = ceil_div60 m"
  by (simp add: horas_cobrar_def timestampdiff_minute_nonneg)

text \<open>
  C7. The charged hours are the elapsed whole minutes, rounded up to whole hours: for an
  exit no earlier than the entry, \<open>horas_cobrar\<close> is the ceiling of the floor of the
  elapsed seconds over 60, divided by 60, computed over the rationals.
\<close>

theorem horas_cobrar_exacta:
  assumes "entrada \<le> salida"
  shows "horas_cobrar entrada salida = \<lceil>of_int \<lfloor>of_int (salida - entrada) / (60::rat)\<rfloor> / (60::rat)\<rceil>"
proof -
  have "\<lfloor>of_int (salida - entrada) / (60::rat)\<rfloor> = (salida - entrada) div 60"
    using floor_divide_of_int_eq [of "salida - entrada" 60] by simp
  with assms show ?thesis
    by (simp add: horas_cobrar_def timestampdiff_minute_nonneg ceil_div60_ceiling)
qed

theorem horas_cobrar_exacta_witness:
  "horas_cobrar 0 7500 = 3 \<and> \<lceil>of_int \<lfloor>of_int (7500 - 0) / (60::rat)\<rfloor> / (60::rat)\<rceil> = 3"
  using horas_cobrar_exacta [of 0 7500]
  by (simp add: horas_cobrar_def ceil_div60_def timestampdiff_minute_def)

text \<open>
  C8. Rounding at the hour: a stay of 59 minutes is charged 1 hour, one of 60 minutes 1
  hour, one of 61 minutes 2 hours, whatever the entry time and the seconds past the
  last whole minute.
\<close>

theorem redondeo_59_60_61:
  assumes "0 \<le> r" "r < 60"
  shows "horas_cobrar e (e + (60 * 59 + r)) = 1 \<and> horas_cobrar e (e + (60 * 60 + r)) = 1 \<and>
         horas_cobrar e (e + (60 * 61 + r)) = 2"
  using assms horas_cobrar_offset [of r 59 e] horas_cobrar_offset [of r 60 e] horas_cobrar_offset [of r 61 e]
  by (simp add: ceil_div60_def)

theorem redondeo_59_60_61_witness:
  "0 \<le> (59::int) \<and> horas_cobrar 100 (100 + (60 * 61 + 59)) = 2"
  using redondeo_59_60_61 [of 59 100] by simp

section \<open>Entry and exit\<close>

text \<open>
  C9. Exit is not idempotent: after an exit succeeds the ticket is CERRADO, and a
  second exit of the same ticket answers 400 "ticket already closed" and leaves the
  store as it was.
\<close>

theorem salida_dos_veces:
  assumes "registrarSalida k s = Inr (r, s')"
  shows "map_option t_estado (tbl_get (tickets s') k) = Some CERRADO \<and>
         registrarSalida k s' = Inl (HttpError 400 TicketYaCerrado) \<and> step (OpSalida k) s' = s'"
proof -
  from assms obtain t where "tbl_get (tickets s) k = Some t"
    and s': "tickets s' = tbl_modify k (cerrar (now s)) (tickets s)"
    by (auto simp: registrarSalida_Inr)
  then have "tbl_get (tickets s') k = Some (cerrar (now s) t)" by simp
  then show ?thesis by (simp add: registrarSalida_def cerrar_def)
qed

theorem salida_dos_veces_witness:
  "registrarSalida 1 (run (db0 0) alta) = Inr (salida_view (step (OpSalida 1) (run (db0 0) alta)) 1,
     step (OpSalida 1) (run (db0 0) alta)) \<and>
   registrarSalida 1 (step (OpSalida 1) (run (db0 0) alta)) = Inl (HttpError 400 TicketYaCerrado)"
proof -
  have r: "registrarSalida 1 (run (db0 0) alta) = Inr (salida_view (step (OpSalida 1) (run (db0 0) alta)) 1,
     step (OpSalida 1) (run (db0 0) alta))"
    by (simp add: registrarSalida_def alta_db tbl_get_def ticket_nuevo_def Let_def)
  from salida_dos_veces [OF r] r show ?thesis by simp
qed

text \<open>
  C10. Entry on an occupied space: for an existing vehicle and a space whose flag is not
  set, entry answers 400 "space unavailable" and the request changes nothing (no ticket,
  the space as it was).
\<close>

theorem entrada_espacio_ocupado:
  assumes "v \<noteq> 0" "e \<noteq> 0" "ta \<noteq> 0" "tbl_get (vehiculos s) v \<noteq> None"
    and "tbl_get (espacios s) e = Some esp" "\<not> disponible esp"
  shows "registrarEntrada u (Some v) (Some e) (Some ta) s = Inl (HttpError 400 EspacioNoDisponible) \<and>
         step (OpEntrada u (Some v) (Some e) (Some ta)) s = s"
  using assms by (simp add: registrarEntrada_def)

theorem entrada_espacio_ocupado_witness:
  "tbl_get (espacios (run (db0 0) alta)) 1 = Some (espacio_a ''A1'' False) \<and>
   registrarEntrada 8 (Some 1) (Some 1) (Some 1) (run (db0 0) alta) = Inl (HttpError 400 EspacioNoDisponible)"
proof -
  have e: "tbl_get (espacios (run (db0 0) alta)) 1 = Some (espacio_a ''A1'' False)"
    by (simp add: alta_db tbl_get_def)
  have d: "\<not> disponible (espacio_a ''A1'' False)"
    by (simp add: espacio_a_def disponible_def)
  from entrada_espacio_ocupado [OF one_neq_zero one_neq_zero one_neq_zero alta_db(3) e d, of 8] e
  show ?thesis by simp
qed

section \<open>Payment\<close>

lemma js_num_sql_monto: "js_num (sql_monto t p) = js_num (sql_horas t) * js_num p"
  by (simp add: sql_monto_def js_num_def split: option.splits)

lemma cierre_db:
  "tbl_get (tickets (run (db0 0) cierre)) 1 = Some (cerrar 7500 (ticket_nuevo 1 1 7 1 0))"
  "tbl_get (tipos_pago (run (db0 0) cierre)) 1 = Some \<lparr>tp_nombre = Some ''EFECTIVO''\<rparr>"
  "rows (pagos (run (db0 0) cierre)) = []"
  "precio_de (run (db0 0) cierre) 1 = Some 1000"
  by (simp_all add: cierre_def alta_def preparacion_def eval_defs)

text \<open>
  C12. A second payment of a ticket answers 409 "payment already registered" and adds
  no row.
\<close>

theorem pago_duplicado:
  assumes "registrarPago (Some k) tp m s = Inr (r, s')" "truthy_nat tp'" "truthy_int m'"
  shows "registrarPago (Some k) tp' m' s' = Inl (HttpError 409 PagoYaRegistrado) \<and>
         pagos (step (OpPago (Some k) tp' m') s') = pagos s'"
proof -
  from assms(1) obtain t where k: "k \<noteq> 0" and "tbl_get (tickets s') k = Some t" "t_estado t = CERRADO"
    and p: "(next_id (pagos s), \<lparr>p_ticket_id = k, p_tipo_pago_id = the tp, p_monto = the m,
              p_fecha_pago = now s\<rparr>) \<in> set (rows (pagos s'))"
    by (auto simp: registrarPago_Inr)
  moreover from p have "tbl_exists (pago_de k) (pagos s')"
    unfolding tbl_exists_iff by (rule bexI [rotated]) (simp add: pago_de_def)
  ultimately show ?thesis
    using assms(2,3) by (simp add: registrarPago_def)
qed

theorem pago_duplicado_witness:
  "\<exists>s'. registrarPago (Some 1) (Some 1) (Some 5000) (run (db0 0) cierre) = Inr ((1, 3000, 2000), s') \<and>
        registrarPago (Some 1) (Some 1) (Some 3000) s' = Inl (HttpError 409 PagoYaRegistrado)"
proof -
  have "\<exists>s'. registrarPago (Some 1) (Some 1) (Some 5000) (run (db0 0) cierre) = Inr ((1, 3000, 2000), s')"
    by (simp add: cierre_def alta_def preparacion_def eval_defs)
  then obtain s' where r: "registrarPago (Some 1) (Some 1) (Some 5000) (run (db0 0) cierre) = Inr ((1, 3000, 2000), s')" ..
  from pago_duplicado [OF r, of "Some 1" "Some 3000"] r show ?thesis by auto
qed

text \<open>
  C13. The charge is recomputed, never taken from the client: a payment that succeeds
  answers as expected amount the ticket's charged hours times its tariff's current price
  (a missing value counts 0), which does not depend on the tendered amount; the change
  is the tendered amount minus the expected one when it is larger, and 0 otherwise; the
  stored row keeps the tendered amount.
\<close>

theorem pago_monto_esperado:
  assumes "registrarPago (Some k) (Some tp) (Some m) s = Inr ((p, esperado, c), s')"
  shows "\<exists>t. tbl_get (tickets s) k = Some t \<and>
             esperado = js_num (sql_horas t) * js_num (precio_de s (t_tarifa_id t)) \<and>
             c = (if m > esperado then m - esperado else 0) \<and>
             (p, \<lparr>p_ticket_id = k, p_tipo_pago_id = tp, p_monto = m, p_fecha_pago = now s\<rparr>) \<in> set (rows (pagos s'))"
  using assms by (auto simp: registrarPago_Inr monto_esperado_def cambio_def)


theorem pago_monto_esperado_witness:
  "\<exists>s'. registrarPago (Some 1) (Some 1) (Some 5000) (run (db0 0) cierre) = Inr ((1, 3000, 2000), s') \<and>
        (1, \<lparr>p_ticket_id = 1, p_tipo_pago_id = 1, p_monto = 5000, p_fecha_pago = 7500\<rparr>) \<in> set (rows (pagos s'))"
proof -
  have "\<exists>s'. registrarPago (Some 1) (Some 1) (Some 5000) (run (db0 0) cierre) = Inr ((1, 3000, 2000), s')"
    by (simp add: cierre_def alta_def preparacion_def eval_defs)
  then obtain s' where r: "registrarPago (Some 1) (Some 1) (Some 5000) (run (db0 0) cierre) = Inr ((1, 3000, 2000), s')" ..
  have "now (run (db0 0) cierre) = 7500"
    by (simp add: cierre_def alta_def preparacion_def eval_defs)
  with pago_monto_esperado [OF r] r show ?thesis by auto
qed

text \<open>
  C14. Under-payment is accepted: for a closed, unpaid ticket and an existing payment
  type, a tendered amount below the expected charge is recorded like any other, with
  change 0 and no error.
\<close>

theorem pago_insuficiente_aceptado:
  assumes "k \<noteq> 0" "tp \<noteq> 0" "tbl_get (tickets s) k = Some t" "t_estado t = CERRADO"
    and "\<not> tbl_exists (pago_de k) (pagos s)" "tbl_get (tipos_pago s) tp \<noteq> None"
    and "0 < m" "m < monto_esperado s t"
  shows "\<exists>p s'. registrarPago (Some k) (Some tp) (Some m) s = Inr ((p, monto_esperado s t, 0), s')"
  using assms by (auto simp: registrarPago_def cambio_def Let_def tbl_insert_def)

theorem pago_insuficiente_aceptado_witness:
  "\<exists>p s'. registrarPago (Some 1) (Some 1) (Some 1000) (run (db0 0) cierre) = Inr ((p, 3000, 0), s')"
proof -
  have e: "monto_esperado (run (db0 0) cierre) (cerrar 7500 (ticket_nuevo 1 1 7 1 0)) = 3000"
    by (simp add: monto_esperado_def cierre_db [simplified] sql_horas_def cerrar_def ticket_nuevo_def
        horas_cobrar_def ceil_div60_def timestampdiff_minute_def js_num_def)
  have n: "\<not> tbl_exists (pago_de 1) (pagos (run (db0 0) cierre))"
    by (simp add: tbl_exists_def cierre_db)
  have st: "t_estado (cerrar 7500 (ticket_nuevo 1 1 7 1 0)) = CERRADO"
    by (simp add: cerrar_def)
  have tp: "tbl_get (tipos_pago (run (db0 0) cierre)) 1 \<noteq> None"
    using cierre_db(2) by simp
  have m: "(0::int) < 1000" "1000 < monto_esperado (run (db0 0) cierre) (cerrar 7500 (ticket_nuevo 1 1 7 1 0))"
    using e by simp_all
  from pago_insuficiente_aceptado [OF one_neq_zero one_neq_zero cierre_db(1) st n tp m] e
  show ?thesis by simp
qed

text \<open>
  C15. Paying right after the exit charges what the exit announced: if the exit of a
  ticket answers the amount \<open>monto\<close> and the next request pays the ticket, the payment's
  expected amount is \<open>monto\<close> (0 when \<open>monto\<close> is \<open>NULL\<close>).
\<close>

theorem pago_tras_salida:
  assumes "registrarSalida k s = Inr (Some (minutos, horas, monto), s1)"
    and "registrarPago (Some k) tp m s1 = Inr ((p, esperado, c), s2)"
  shows "esperado = js_num monto"
proof -
  from assms(1) have v: "salida_view s1 k = Some (minutos, horas, monto)"
    by (auto simp: registrarSalida_Inr)
  from assms(2) obtain t where t: "tbl_get (tickets s1) k = Some t" "esperado = monto_esperado s1 t"
    by (auto simp: registrarPago_Inr)
  from v t(1) have "monto = sql_monto t (precio_de s1 (t_tarifa_id t))"
    by (simp add: salida_view_def)
  with t(2) show ?thesis
    by (simp add: monto_esperado_def js_num_sql_monto)
qed

theorem pago_tras_salida_witness:
  "\<exists>s1 s2. registrarSalida 1 (run (db0 0) alta) = Inr (Some (Some 125, Some 3, Some 3000), s1) \<and>
     registrarPago (Some 1) (Some 1) (Some 5000) s1 = Inr ((1, 3000, 2000), s2) \<and>
     (3000::int) = js_num (Some 3000)"
proof -
  have r1: "registrarSalida 1 (run (db0 0) alta) =
      Inr (Some (Some 125, Some 3, Some 3000), run (db0 0) cierre)"
    by (simp add: cierre_def alta_def preparacion_def eval_defs)
  have "\<exists>s2. registrarPago (Some 1) (Some 1) (Some 5000) (run (db0 0) cierre) = Inr ((1, 3000, 2000), s2)"
    by (simp add: cierre_def alta_def preparacion_def eval_defs)
  then obtain s2 where r2: "registrarPago (Some 1) (Some 1) (Some 5000) (run (db0 0) cierre) =
     Inr ((1, 3000, 2000), s2)" ..
  from pago_tras_salida [OF r1 r2] r1 r2 show ?thesis by blast
qed

section \<open>Occupancy of the spaces\<close>

lemma reach_auto_alta: "reach (\<lambda>o1. \<not> manual o1) (run (db0 0) alta)"
  by (rule reach_run) (auto intro: reach.init simp: alta_def preparacion_def)

lemma ocupacion_reach:
  assumes "reach (\<lambda>o1. \<not> manual o1) s"
  shows "db_wf s" "activos_ocupan s" "ocupados_con_activo s" "un_activo_por_espacio s"
  using reach_inv_sistema [OF assms] reach_ocupacion [OF assms]
  by (simp_all add: inv_sistema_def ocupacion_ok_def)

text \<open>
  C16. Without the manual overrides of the flag, a space is marked occupied exactly when
  an active ticket refers to it.
\<close>

theorem disponibilidad_sigue_tickets:
  assumes "reach (\<lambda>o1. \<not> manual o1) s" "tbl_get (espacios s) e = Some r"
  shows "\<not> disponible r \<longleftrightarrow> (\<exists>(k, t) \<in> set (rows (tickets s)). t_estado t = ACTIVO \<and> t_espacio_id t = e)"
proof
  assume "\<not> disponible r"
  with ocupacion_reach(3) [OF assms(1)] tbl_get_in_rows [OF assms(2)] show "\<exists>(k, t) \<in> set (rows (tickets s)). t_estado t = ACTIVO \<and> t_espacio_id t = e"
    unfolding ocupados_con_activo_def ocupado_por_def by blast
next
  assume "\<exists>(k, t) \<in> set (rows (tickets s)). t_estado t = ACTIVO \<and> t_espacio_id t = e"
  with ocupacion_reach(2) [OF assms(1)] assms(2) show "\<not> disponible r"
    unfolding activos_ocupan_def by fastforce
qed

theorem disponibilidad_sigue_tickets_witness:
  "\<not> disponible (espacio_a ''A1'' False) \<and>
   (\<exists>(k, t) \<in> set (rows (tickets (run (db0 0) alta))). t_estado t = ACTIVO \<and> t_espacio_id t = 1)"
proof -
  have e: "tbl_get (espacios (run (db0 0) alta)) 1 = Some (espacio_a ''A1'' False)"
    by (simp add: tbl_get_def alta_db)
  have d: "\<not> disponible (espacio_a ''A1'' False)"
    by (simp add: espacio_a_def disponible_def)
  from disponibilidad_sigue_tickets [OF reach_auto_alta e] d show ?thesis by simp
qed

text \<open>
  C17. Without the manual overrides, two active tickets on the same space are the same
  ticket.
\<close>

theorem un_ticket_activo_por_espacio:
  assumes "reach (\<lambda>o1. \<not> manual o1) s"
    and "(k1, t1) \<in> set (rows (tickets s))" "(k2, t2) \<in> set (rows (tickets s))"
    and "t_estado t1 = ACTIVO" "t_estado t2 = ACTIVO" "t_espacio_id t1 = t_espacio_id t2"
  shows "k1 = k2"
  using ocupacion_reach(4) [OF assms(1)] assms(2-6) unfolding un_activo_por_espacio_def by blast

theorem un_ticket_activo_por_espacio_witness:
  "reach (\<lambda>o1. \<not> manual o1) (run (db0 0) alta) \<and> (1::nat) = 1"
  using un_ticket_activo_por_espacio [OF reach_auto_alta, of 1 "ticket_nuevo 1 1 7 1 0" 1 "ticket_nuevo 1 1 7 1 0"]
  by (simp add: reach_auto_alta alta_db ticket_nuevo_def)

text \<open>
  C18. The manual override breaks the occupancy of any store the API reaches: wherever a
  vehicle is parked, marking its space available again lets any other registered vehicle
  without an active ticket in, and two active tickets then share the space.
\<close>

theorem liberar_manual_doble_ocupacion:
  assumes "reach (\<lambda>o1. \<not> manual o1) s" "(k, t) \<in> set (rows (tickets s))" "t_estado t = ACTIVO"
    and "t_espacio_id t \<noteq> 0" "v \<noteq> 0" "ta \<noteq> 0" "tbl_get (vehiculos s) v \<noteq> None"
    and "\<not> tbl_exists (activo_de v) (tickets s)"
  shows "\<exists>k' t'. k' \<noteq> k \<and> t_estado t' = ACTIVO \<and> t_espacio_id t' = t_espacio_id t \<and>
           (k', t') \<in> set (rows (tickets (run s [OpCambiarDisponibilidad (t_espacio_id t) (Some True),
                                                   OpEntrada u (Some v) (Some (t_espacio_id t)) (Some ta)]))) \<and>
           (k, t) \<in> set (rows (tickets (run s [OpCambiarDisponibilidad (t_espacio_id t) (Some True),
                                                OpEntrada u (Some v) (Some (t_espacio_id t)) (Some ta)])))"
proof -
  let ?e = "t_espacio_id t"
  note inv = ocupacion_reach [OF assms(1)]
  from inv(2) assms(2,3) obtain r where r: "tbl_get (espacios s) ?e = Some r"
    unfolding activos_ocupan_def by blast
  let ?s1 = "s\<lparr>espacios := tbl_modify ?e (\<lambda>x. x\<lparr>e_disponible := Some True\<rparr>) (espacios s)\<rparr>"
  have s1: "commit (cambiarDisponibilidad ?e (Some True) s) s = ?s1"
    using r by (simp add: cambiarDisponibilidad_def)
  have e1: "tbl_get (espacios ?s1) ?e = Some (r\<lparr>e_disponible := Some True\<rparr>)"
    using r by simp
  have e2: "registrarEntrada u (Some v) (Some ?e) (Some ta) ?s1 =
          Inr (next_id (tickets s), ?s1\<lparr>tickets := snd (tbl_insert (ticket_nuevo v ?e u ta (now s)) (tickets s)),
                espacios := tbl_modify ?e (\<lambda>x. x\<lparr>e_disponible := Some False\<rparr>) (espacios ?s1)\<rparr>)"
    using assms(4-8) e1 r by (simp add: registrarEntrada_Inr disponible_def)
  have rows2: "set (rows (tickets (run s [OpCambiarDisponibilidad ?e (Some True), OpEntrada u (Some v) (Some ?e) (Some ta)]))) =
      insert (next_id (tickets s), ticket_nuevo v ?e u ta (now s)) (set (rows (tickets s)))"
    by (simp only: run.simps step.simps s1 e2 commit_simps) simp
  have "next_id (tickets s) \<noteq> k"
    using inv(1) assms(2) by (auto simp: db_wf_def dest: tbl_wf_key_bound)
  with assms(2) show ?thesis
    unfolding rows2
    by (intro exI [of _ "next_id (tickets s)"] exI [of _ "ticket_nuevo v ?e u ta (now s)"])
       (simp add: ticket_nuevo_def)
qed

lemma reach_con_segundo_vehiculo: "reach (\<lambda>o1. \<not> manual o1) (run (db0 0) con_segundo_vehiculo)"
  by (rule reach_run) (auto intro: reach.init simp: con_segundo_vehiculo_def alta_def preparacion_def)

theorem liberar_manual_doble_ocupacion_witness:
  "\<exists>k' t'. k' \<noteq> 1 \<and> t_estado t' = ACTIVO \<and> t_espacio_id t' = 1 \<and>
     (k', t') \<in> set (rows (tickets (run (run (db0 0) con_segundo_vehiculo)
        [OpCambiarDisponibilidad 1 (Some True), OpEntrada 7 (Some 2) (Some 1) (Some 1)])))"
proof -
  have rs: "rows (tickets (run (db0 0) con_segundo_vehiculo)) = [(1, ticket_nuevo 1 1 7 1 0)]"
    and veh: "tbl_get (vehiculos (run (db0 0) con_segundo_vehiculo)) 2 \<noteq> None"
    and nex: "\<not> tbl_exists (activo_de 2) (tickets (run (db0 0) con_segundo_vehiculo))"
    by (simp_all add: con_segundo_vehiculo_def alta_def preparacion_def eval_defs)
  have m: "(1, ticket_nuevo 1 1 7 1 0) \<in> set (rows (tickets (run (db0 0) con_segundo_vehiculo)))"
    by (simp add: rs)
  have a: "t_estado (ticket_nuevo 1 1 7 1 0) = ACTIVO" "t_espacio_id (ticket_nuevo 1 1 7 1 0) = 1"
    by (simp_all add: ticket_nuevo_def)
  have "t_espacio_id (ticket_nuevo 1 1 7 1 0) \<noteq> 0" "(2::nat) \<noteq> 0" "(1::nat) \<noteq> 0"
    by (simp_all add: ticket_nuevo_def)
  note th = liberar_manual_doble_ocupacion [OF reach_con_segundo_vehiculo m a(1) this veh nex, of 7]
  from th [unfolded a(2)] show ?thesis by blast
qed

text \<open>
  C19. Progress of the exit: in every store reached without manual overrides, an active
  ticket can always be closed, and the exit closes it at the current time and leaves its
  space existing and available.
\<close>

theorem salida_siempre_posible:
  assumes "reach (\<lambda>o1. \<not> manual o1) s" "(k, t) \<in> set (rows (tickets s))" "t_estado t = ACTIVO"
  shows "\<exists>s'. registrarSalida k s = Inr (salida_view s' k, s') \<and>
           tbl_get (tickets s') k = Some (cerrar (now s) t) \<and>
           (\<exists>r. tbl_get (espacios s') (t_espacio_id t) = Some r \<and> disponible r)"
proof -
  note inv = ocupacion_reach [OF assms(1)]
  from inv(1) assms(2) have k: "tbl_get (tickets s) k = Some t"
    by (simp add: db_wf_def tbl_get_Some_iff)
  from inv(2) assms(2,3) obtain r where r: "tbl_get (espacios s) (t_espacio_id t) = Some r"
    unfolding activos_ocupan_def by blast
  let ?s' = "s\<lparr>tickets := tbl_modify k (cerrar (now s)) (tickets s),
               espacios := tbl_modify (t_espacio_id t) (\<lambda>r. r\<lparr>e_disponible := Some True\<rparr>) (espacios s)\<rparr>"
  have "registrarSalida k s = Inr (salida_view ?s' k, ?s')"
    using k assms(3) by (simp add: registrarSalida_def Let_def)
  moreover have "tbl_get (tickets ?s') k = Some (cerrar (now s) t)"
    using k by simp
  moreover have "tbl_get (espacios ?s') (t_espacio_id t) = Some (r\<lparr>e_disponible := Some True\<rparr>)"
    using r by simp
  moreover have "disponible (r\<lparr>e_disponible := Some True\<rparr>)"
    by (simp add: disponible_def)
  ultimately show ?thesis by blast
qed

theorem salida_siempre_posible_witness:
  "\<exists>s'. registrarSalida 1 (run (db0 0) alta) = Inr (salida_view s' 1, s') \<and>
     tbl_get (tickets s') 1 = Some (cerrar 7500 (ticket_nuevo 1 1 7 1 0)) \<and>
     (\<exists>r. tbl_get (espacios s') 1 = Some r \<and> disponible r)"
  using salida_siempre_posible [OF reach_auto_alta, of 1 "ticket_nuevo 1 1 7 1 0"]
  by (simp add: alta_db ticket_nuevo_def)

section \<open>Reservations\<close>

text \<open>
  C20. A reservation that is no longer ACTIVA (CANCELADA, FINALIZADA or \<open>NULL\<close>) is
  final: no sequence of requests from a reachable store changes or removes it.
\<close>

theorem reserva_terminada_inmutable:
  assumes "reachable s" "tbl_get (reservas s) k = Some r" "re_estado r \<noteq> Some ACTIVA"
  shows "tbl_get (reservas (run s os)) k = Some r"
  using assms(1,2)
proof (induction os arbitrary: s)
  case Nil
  then show ?case by simp
next
  case (Cons o1 os)
  from inv_reachable(1) [OF Cons.prems(1)] Cons.prems(2) assms(3)
  have "tbl_get (reservas (step o1 s)) k = Some r" by (rule step_reserva_cerrada)
  with reach.step [OF Cons.prems(1)] Cons.IH show ?case by simp
qed

lemma reservadas_db:
  "tbl_get (reservas (run (db0 0) reservadas)) 1 = Some (reserva_nueva 1 1 0 0 100\<lparr>re_estado := Some CANCELADA\<rparr>)"
  by (simp add: reservadas_def preparacion_def eval_defs conflicto_def reserva_nueva_def sql_le_def sql_ge_def)

theorem reserva_terminada_inmutable_witness:
  "tbl_get (reservas (run (run (db0 0) reservadas) [OpActualizarReserva 1 (Some 500) (Some 600) (Some ACTIVA)]))
     1 = Some (reserva_nueva 1 1 0 0 100\<lparr>re_estado := Some CANCELADA\<rparr>)"
  by (rule reserva_terminada_inmutable [OF reachable_run reservadas_db]) (simp add: reserva_nueva_def)

text \<open>
  C21. In every reachable store the conflict query of \<open>crearReserva\<close> is the overlap of
  closed periods: a well-formed request is refused with 409 exactly when an ACTIVA
  reservation of the space has a period that meets the requested one.
\<close>

theorem crearReserva_conflicto_es_solape:
  assumes "reachable s" "c \<noteq> 0" "e \<noteq> 0" "fi < ff"
    and "tbl_get (clientes s) c \<noteq> None" "tbl_get (espacios s) e \<noteq> None"
  shows "crearReserva (Some c) (Some e) (Some fi) (Some ff) s = Inl (HttpError 409 EspacioNoDisponible) \<longleftrightarrow>
         (\<exists>(k, r) \<in> set (rows (reservas s)). re_espacio_id r = e \<and> re_estado r = Some ACTIVA \<and> solapa fi ff r)"
  using crearReserva_409 [OF assms(2-6)] conflicto_iff_solape [OF reach_fechas_validas [OF assms(1)] assms(4)]
  by simp

theorem crearReserva_conflicto_es_solape_witness:
  "crearReserva (Some 1) (Some 1) (Some 250) (Some 400) (run (db0 0) reservadas) =
     Inl (HttpError 409 EspacioNoDisponible)"
proof -
  have "(2, reserva_nueva 1 1 0 200 300) \<in> set (rows (reservas (run (db0 0) reservadas)))"
       "tbl_get (clientes (run (db0 0) reservadas)) 1 \<noteq> None" "tbl_get (espacios (run (db0 0) reservadas)) 1 \<noteq> None"
    by (simp_all add: reservadas_def preparacion_def eval_defs conflicto_def reserva_nueva_def sql_le_def sql_ge_def)
  with crearReserva_conflicto_es_solape [OF reachable_run [of 0 reservadas], of 1 1 250 400] show ?thesis
    by (fastforce simp: reserva_nueva_def solapa_def periodo_def)
qed

theorem crearReserva_sin_solape_witness:
  "sin_solape (rows (reservas (snd (projr (crearReserva (Some 1) (Some 1) (Some 400) (Some 500) (run (db0 0) reservadas))))))"
proof -
  let ?s = "run (db0 0) reservadas"
  have rs: "rows (reservas ?s) = [(1, reserva_nueva 1 1 0 0 100\<lparr>re_estado := Some CANCELADA\<rparr>), (2, reserva_nueva 1 1 0 200 300)]"
    "next_id (reservas ?s) = 3"
    by (simp_all add: reservadas_def preparacion_def eval_defs conflicto_def reserva_nueva_def sql_le_def sql_ge_def)
  have ok: "crearReserva (Some 1) (Some 1) (Some 400) (Some 500) ?s =
      Inr (3, ?s\<lparr>reservas := snd (tbl_insert (reserva_nueva 1 1 (now ?s) 400 500) (reservas ?s))\<rparr>)"
    by (simp add: reservadas_def preparacion_def eval_defs conflicto_def reserva_nueva_def sql_le_def sql_ge_def)
  have "tbl_wf (reservas ?s)" "\<forall>(_, r) \<in> set (rows (reservas ?s)). fechas_validas r" "sin_solape (rows (reservas ?s))"
    by (simp_all add: rs tbl_wf_def fechas_validas_def sin_solape_def reserva_nueva_def periodo_def)
  from crearReserva_sin_solape [OF ok this] ok show ?thesis by simp
qed

text \<open>
  C23. The update of a reservation skips the conflict query: in any store, an ACTIVA
  reservation can be moved onto dates that overlap another ACTIVA reservation of the same
  space, dates that \<open>crearReserva\<close> refuses with 409, and the two then overlap.
\<close>

theorem actualizarReserva_solapa:
  assumes "tbl_get (reservas s) k1 = Some r1" "tbl_get (reservas s) k2 = Some r2" "k1 \<noteq> k2"
    and "re_espacio_id r1 = re_espacio_id r2" "re_estado r1 = Some ACTIVA" "re_estado r2 = Some ACTIVA"
    and "periodo r1 = Some (a1, b1)" "a < b" "a \<le> b1" "a1 \<le> b"
    and "c \<noteq> 0" "tbl_get (clientes s) c \<noteq> None" "re_espacio_id r1 \<noteq> 0" "tbl_get (espacios s) (re_espacio_id r1) \<noteq> None"
  shows "crearReserva (Some c) (Some (re_espacio_id r1)) (Some a) (Some b) s = Inl (HttpError 409 EspacioNoDisponible) \<and>
         (\<exists>s'. actualizarReserva k2 (Some a) (Some b) (Some ACTIVA) s = Inr ((), s') \<and>
               \<not> sin_solape (rows (reservas s')))"
proof
  have "conflicto (re_espacio_id r1) a b r1"
    using assms(5,7-10) by (auto simp: conflicto_def periodo_def sql_le_def sql_ge_def split: option.splits)
  then have "tbl_exists (conflicto (re_espacio_id r1) a b) (reservas s)"
    using tbl_get_in_rows [OF assms(1)] by (auto simp: tbl_exists_iff)
  with crearReserva_409 [OF assms(11,13,8,12,14)] show "crearReserva (Some c) (Some (re_espacio_id r1)) (Some a) (Some b) s =
      Inl (HttpError 409 EspacioNoDisponible)"
    by simp
next
  let ?f = "\<lambda>r. r\<lparr>re_fecha_inicio := Some a, re_fecha_fin := Some b, re_estado := Some ACTIVA\<rparr>"
  let ?s' = "s\<lparr>reservas := tbl_modify k2 ?f (reservas s)\<rparr>"
  have u: "actualizarReserva k2 (Some a) (Some b) (Some ACTIVA) s = Inr ((), ?s')"
    using assms(2,6,8) by (simp add: actualizarReserva_def)
  have m1: "(k1, r1) \<in> set (rows (reservas ?s'))"
    using tbl_get_in_rows [OF assms(1)] assms(3) by (auto simp: set_rows_modify)
  have m2: "(k2, ?f r2) \<in> set (rows (reservas ?s'))"
    using tbl_get_in_rows [OF assms(2)] by (auto simp: set_rows_modify)
  have "solapa a1 b1 (?f r2)"
    using assms(9,10) by (simp add: solapa_def periodo_def)
  with m1 m2 assms(3-5,7) have "\<not> sin_solape (rows (reservas ?s'))"
    unfolding sin_solape_def by fastforce
  with u show "\<exists>s'. actualizarReserva k2 (Some a) (Some b) (Some ACTIVA) s = Inr ((), s') \<and>
               \<not> sin_solape (rows (reservas s'))" by blast
qed

theorem actualizarReserva_solapa_witness:
  "crearReserva (Some 1) (Some 1) (Some 50) (Some 250) (run (db0 0) dos_reservas) = Inl (HttpError 409 EspacioNoDisponible) \<and>
   (\<exists>s'. actualizarReserva 2 (Some 50) (Some 250) (Some ACTIVA) (run (db0 0) dos_reservas) = Inr ((), s') \<and>
         \<not> sin_solape (rows (reservas s')))"
proof -
  have g: "tbl_get (reservas (run (db0 0) dos_reservas)) 1 = Some (reserva_nueva 1 1 0 0 100)"
       "tbl_get (reservas (run (db0 0) dos_reservas)) 2 = Some (reserva_nueva 1 1 0 200 300)"
       "tbl_get (clientes (run (db0 0) dos_reservas)) 1 \<noteq> None"
       "tbl_get (espacios (run (db0 0) dos_reservas)) 1 \<noteq> None"
    by (simp_all add: dos_reservas_def preparacion_def eval_defs conflicto_def reserva_nueva_def sql_le_def sql_ge_def)
  have r: "re_espacio_id (reserva_nueva 1 1 0 0 100) = 1" "re_espacio_id (reserva_nueva 1 1 0 200 300) = 1"
      "re_estado (reserva_nueva 1 1 0 0 100) = Some ACTIVA" "re_estado (reserva_nueva 1 1 0 200 300) = Some ACTIVA"
      "periodo (reserva_nueva 1 1 0 0 100) = Some (0, 100)"
    by (simp_all add: reserva_nueva_def periodo_def)
  have e: "tbl_get (espacios (run (db0 0) dos_reservas)) (re_espacio_id (reserva_nueva 1 1 0 0 100)) \<noteq> None"
      "re_espacio_id (reserva_nueva 1 1 0 0 100) \<noteq> 0"
      "re_espacio_id (reserva_nueva 1 1 0 0 100) = re_espacio_id (reserva_nueva 1 1 0 200 300)"
    using g(4) by (simp_all add: reserva_nueva_def)
  have n: "(1::nat) \<noteq> 2" "(50::int) < 250" "(50::int) \<le> 100" "(0::int) \<le> 250" "(1::nat) \<noteq> 0"
    by simp_all
  note th = actualizarReserva_solapa [OF g(1,2) n(1) e(3) r(3,4,5) n(2,3,4,5) g(3) e(2,1)]
  from th [unfolded r(1)] r show ?thesis by simp
qed

section \<open>Fines\<close>

text \<open>
  C24. The total of the fines listed is the JavaScript sum of \<open>parseFloat\<close> of the
  amounts: \<open>NaN\<close> (here \<open>None\<close>) as soon as one listed amount is \<open>NULL\<close>, the exact sum
  otherwise.
\<close>

theorem total_multas:
  assumes "listarMultas t a b s = ((n, tot), ms)"
  shows "tot = (if \<exists>(_, m) \<in> set ms. m_monto m = None then None
                  else Some (\<Sum>(_, m) \<leftarrow> ms. the (m_monto m)))"
proof -
  from assms have ms: "tot = suma_js (Some 0) (map (\<lambda>(_, m). m_monto m) ms)"
    by (auto simp: listarMultas_def Let_def)
  have a: "None \<in> set (map (\<lambda>(_, m). m_monto m) ms) \<longleftrightarrow> (\<exists>(_, m) \<in> set ms. m_monto m = None)"
    by force
  have b: "sum_list (map the (map (\<lambda>(_, m). m_monto m) ms)) = (\<Sum>(_, m) \<leftarrow> ms. the (m_monto m))"
    by (induction ms) auto
  show ?thesis
    unfolding ms suma_js_Some a b by simp
qed

lemma multada_db:
  "rows (multas (run (db0 0) multada)) =
     [(1, \<lparr>m_ticket_id = 1, m_motivo = Some ''doble fila'', m_monto = Some 5000, m_fecha = 7500\<rparr>),
      (2, \<lparr>m_ticket_id = 1, m_motivo = Some ''sin ticket'', m_monto = None, m_fecha = 7500\<rparr>)]"
  by (simp add: multada_def alta_def preparacion_def eval_defs)

theorem total_multas_witness:
  "snd (fst (listarMultas None None None (run (db0 0) multada))) = None"
proof -
  obtain n tot ms where l: "listarMultas None None None (run (db0 0) multada) = ((n, tot), ms)"
    by (metis prod.exhaust)
  then have "ms = order_desc m_fecha (rows (multas (run (db0 0) multada)))"
    by (auto simp: listarMultas_def tbl_where_def filtro_fecha_def Let_def)
  then have "\<exists>(_, m) \<in> set ms. m_monto m = None"
    by (simp add: multada_db order_desc_def)
  with total_multas [OF l] l show ?thesis by simp
qed

text \<open>
  C25. An update of a fine skips the amount check that creation makes: where
  \<open>crearMulta\<close> refuses an amount of 0 (falsy in JavaScript) with 400, \<open>actualizarMulta\<close> stores it, and it
  stores a missing amount as \<open>NULL\<close>.
\<close>

theorem actualizarMulta_monto_sin_validar:
  assumes "tbl_get (multas s) k = Some x" "tbl_get (tickets s) t \<noteq> None" "t \<noteq> 0" "truthy_str mo"
    and "m = None \<or> m = Some 0"
  shows "crearMulta (Some t) mo m s = Inl (HttpError 400 CamposRequeridos) \<and>
         actualizarMulta k mo m s = Inr ((), s\<lparr>multas := tbl_modify k (\<lambda>f. f\<lparr>m_motivo := mo, m_monto := m\<rparr>) (multas s)\<rparr>) \<and>
         tbl_get (multas (snd (projr (actualizarMulta k mo m s)))) k = Some (x\<lparr>m_motivo := mo, m_monto := m\<rparr>)"
  using assms by (auto simp: crearMulta_def actualizarMulta_def)

theorem actualizarMulta_monto_sin_validar_witness:
  "actualizarMulta 1 (Some ''doble fila'') (Some 0) (run (db0 0) multada) =
     Inr ((), (run (db0 0) multada)\<lparr>multas := tbl_modify 1 (\<lambda>f. f\<lparr>m_motivo := Some ''doble fila'', m_monto := Some 0\<rparr>)
                                        (multas (run (db0 0) multada))\<rparr>)"
proof -
  have "tbl_get (multas (run (db0 0) multada)) 1 =
          Some \<lparr>m_ticket_id = 1, m_motivo = Some ''doble fila'', m_monto = Some 5000, m_fecha = 7500\<rparr>"
       "tbl_get (tickets (run (db0 0) multada)) 1 \<noteq> None"
    by (simp_all add: multada_db tbl_get_def) (simp add: multada_def alta_def preparacion_def eval_defs)
  from actualizarMulta_monto_sin_validar [OF this one_neq_zero, of "Some ''doble fila''" "Some 0"] show ?thesis
    by simp
qed

section \<open>Shift hours\<close>

text \<open>
  C26. The regular expression \<open>^([0-1][0-9]|2[0-3]):([0-5][0-9]):([0-5][0-9])$\<close> accepts
  exactly the printed times of a day: a string passes it if and only if it is
  \<open>formato_hora h m s\<close> for some \<open>h < 24\<close>, \<open>m < 60\<close>, \<open>s < 60\<close>.
\<close>

theorem hora_valida_exacta:
  "hora_valida x \<longleftrightarrow> (\<exists>h m s. h < 24 \<and> m < 60 \<and> s < 60 \<and> x = formato_hora h m s)"
proof
  assume "hora_valida x"
  then obtain h m s where "leer_hora x = Some (h, m, s)"
    by (simp add: leer_hora_def)
  from formato_leer [OF this] show "\<exists>h m s. h < 24 \<and> m < 60 \<and> s < 60 \<and> x = formato_hora h m s"
    by metis
next
  assume "\<exists>h m s. h < 24 \<and> m < 60 \<and> s < 60 \<and> x = formato_hora h m s"
  then show "hora_valida x" using hora_valida_formato by blast
qed

theorem hora_valida_exacta_witness:
  "\<not> hora_valida ''24:00:00'' \<and> \<not> hora_valida ''7:30:00'' \<and>
   (\<exists>h m s. h < 24 \<and> m < 60 \<and> s < 60 \<and> ''23:59:59'' = formato_hora h m s)"
proof -
  have "hora_valida ''23:59:59''" by (simp add: rango_def)
  with hora_valida_exacta [of "''23:59:59''"] show ?thesis by (simp add: rango_def)
qed

section \<open>Access history\<close>

text \<open>
  C27. The purge of the access log is bounded: it runs only for at least 30 days, it
  deletes nothing logged in the last 30 days (nor anything newer than the cut-off), it
  only deletes, and it answers the number of rows it deleted.
\<close>

theorem limpiarHistorial_acotado:
  assumes "limpiarHistorial d s = Inr (n, s')"
  shows "30 \<le> the d \<and>
         (\<forall>(k, h) \<in> set (rows (historial s)). now s - 30 * 86400 \<le> h_fecha h \<longrightarrow> (k, h) \<in> set (rows (historial s'))) \<and>
         set (rows (historial s')) \<subseteq> set (rows (historial s)) \<and>
         n + length (rows (historial s')) = length (rows (historial s))"
proof -
  from assms have d: "30 \<le> the d" and n: "n = tbl_count (\<lambda>h. h_fecha h < corte (now s) (the d)) (historial s)"
    and s': "s' = s\<lparr>historial := tbl_delete_where (\<lambda>h. h_fecha h < corte (now s) (the d)) (historial s)\<rparr>"
    by (auto simp: limpiarHistorial_def Let_def split: if_splits)
  have "corte (now s) (the d) \<le> now s - 30 * 86400"
    using d by (simp add: corte_def)
  then have "(k, h) \<in> set (rows (historial s'))"
    if "(k, h) \<in> set (rows (historial s))" "now s - 30 * 86400 \<le> h_fecha h" for k h
    using that by (simp add: s')
  moreover have "n + length (rows (historial s')) = length (rows (historial s))"
    by (simp add: n s' tbl_count_def tbl_where_def tbl_delete_where_def length_filter_filas)
  ultimately show ?thesis
    using d by (auto simp: s')
qed

theorem limpiarHistorial_acotado_witness:
  "limpiarHistorial (Some 30) (run (db0 0) alta) = Inr (0, (run (db0 0) alta)\<lparr>historial := tbl_delete_where (\<lambda>h. h_fecha h < 7500 - 30 * 86400) (historial (run (db0 0) alta))\<rparr>) \<and> 30 \<le> (30::int)"
proof -
  have l: "limpiarHistorial (Some 30) (run (db0 0) alta) = Inr (0, (run (db0 0) alta)\<lparr>historial := tbl_delete_where (\<lambda>h. h_fecha h < 7500 - 30 * 86400) (historial (run (db0 0) alta))\<rparr>)"
    by (simp add: limpiarHistorial_def corte_def alta_db alta_def preparacion_def eval_defs)
  from limpiarHistorial_acotado [OF l] l show ?thesis by simp
qed

section \<open>Accounts, tokens and employees\<close>

lemma personal_db:
  "rows (usuarios (run (db0 0) personal)) =
     [(1, \<lparr>u_nombre = ''Ana'', u_correo = ''ana@parqueo.gt'', u_password = ''h1'', u_rol_id = 1, u_activo = Some True\<rparr>),
      (2, \<lparr>u_nombre = ''Eva'', u_correo = ''eva@parqueo.gt'', u_password = ''h2'', u_rol_id = 3, u_activo = Some False\<rparr>)]"
  "rows (empleados (run (db0 0) personal)) =
     [(1, \<lparr>em_usuario_id = 2, em_turno_id = None, em_telefono = None, em_direccion = None,
           em_dpi = Some ''1234567890101''\<rparr>)]"
  by (simp_all add: personal_def eval_defs correo_igual_def dpi_igual_def)

text \<open>
  C28. The login of an inactive account answers 403 \<open>UsuarioInactivo\<close> before the
  password is compared: the answer is the same for every password, right or wrong.
\<close>

theorem login_inactivo_sin_clave:
  assumes "tbl_where (correo_igual c) (usuarios s) = (k, u) # resto" "\<not> truthy_bool (u_activo u)"
    and "c \<noteq> []" "p \<noteq> []"
  shows "login coincide (Some c) (Some p) s = Inl (HttpError 403 UsuarioInactivo)"
  using assms by (simp add: login_def)

theorem login_inactivo_sin_clave_witness:
  "login (\<lambda>_ _. False) (Some ''eva@parqueo.gt'') (Some ''adivinada'') (run (db0 0) personal) =
     Inl (HttpError 403 UsuarioInactivo)"
proof -
  have "tbl_where (correo_igual ''eva@parqueo.gt'') (usuarios (run (db0 0) personal)) =
      [(2, \<lparr>u_nombre = ''Eva'', u_correo = ''eva@parqueo.gt'', u_password = ''h2'', u_rol_id = 3, u_activo = Some False\<rparr>)]"
    by (simp add: personal_db tbl_where_def correo_igual_def ci_eq_def upper_def upper_char_def)
  from login_inactivo_sin_clave [OF this] show ?thesis by simp
qed

text \<open>
  C29. The public registration stores the role the request asks for: whoever calls
  \<open>POST /api/auth/register\<close> with a \<open>rol_id\<close> gets an active account with that role.
\<close>

theorem registrar_rol_elegido:
  assumes "registrar cifrar n c p (Some r) s = Inr (k, s')" "db_wf s" "r \<noteq> 0"
  shows "map_option (\<lambda>u. (u_rol_id u, u_activo u)) (tbl_get (usuarios s') k) = Some (r, Some True)"
  using assms by (auto simp: registrar_def db_wf_def split: if_splits prod.splits)

theorem registrar_rol_elegido_witness:
  "map_option (\<lambda>u. (u_rol_id u, u_activo u))
     (tbl_get (usuarios (snd (projr (registrar (\<lambda>_. ''h'') (Some ''Mallory'') (Some ''m@x.gt'') (Some ''x'') (Some 3) (db0 0))))) 1)
   = Some (3, Some True)"
proof -
  have ok: "registrar (\<lambda>_. ''h'') (Some ''Mallory'') (Some ''m@x.gt'') (Some ''x'') (Some 3) (db0 0) =
      Inr (1, snd (projr (registrar (\<lambda>_. ''h'') (Some ''Mallory'') (Some ''m@x.gt'') (Some ''x'') (Some 3) (db0 0))))"
    by (simp add: registrar_def db0_def tbl_empty_def tbl_exists_def tbl_insert_def)
  from registrar_rol_elegido [OF ok db_wf_db0] show ?thesis by simp
qed

text \<open>
  C30. \<open>verificarToken\<close> reads the token after the first space and never looks at the
  scheme: a header \<open>X token\<close> with any scheme \<open>X\<close> is treated as \<open>Bearer token\<close>.
\<close>

theorem verificarToken_cualquier_esquema:
  assumes "CHR '' '' \<notin> set esquema" "CHR '' '' \<notin> set t"
  shows "verificarToken verificar (Some (esquema @ CHR '' '' # t)) =
         verificarToken verificar (Some (''Bearer'' @ CHR '' '' # t))"
proof -
  have a: "token_de (esquema @ CHR '' '' # t) = (if t = [] then None else Some t)"
    using assms by (rule token_de_esquema)
  have b: "token_de (''Bearer'' @ CHR '' '' # t) = (if t = [] then None else Some t)"
    using token_de_esquema [of "''Bearer''" t] assms(2) by simp
  show ?thesis
    by (simp only: verificarToken_def option.sel a b) simp
qed

theorem verificarToken_cualquier_esquema_witness:
  "verificarToken verificar_eva (Some (''Basic'' @ CHR '' '' # ''abc'')) = Inr sesion_eva"
proof -
  have "verificarToken verificar_eva (Some (''Bearer'' @ CHR '' '' # ''abc'')) = Inr sesion_eva"
    by (simp add: verificarToken_def token_de_def verificar_eva_def)
  with verificarToken_cualquier_esquema [of "''Basic''" "''abc''"] show ?thesis by simp
qed

section \<open>Routing\<close>

text \<open>
  C31. Every request the server hands to a controller other than registration and login
  carries a token that \<open>jwt.verify\<close> accepted, and the session handed on is that
  token's payload; only \<open>auth.registrar\<close> and \<open>auth.login\<close> are served without one.
\<close>

theorem atender_autenticado:
  assumes "atender verificar m p a = Atendida h ses"
  shows "case ses of None \<Rightarrow> h = ''auth.registrar'' \<or> h = ''auth.login''
         | Some x \<Rightarrow> \<exists>t. a \<noteq> None \<and> token_de (the a) = Some t \<and> verificar t = Valido x"
proof -
  from atender_Atendida [OF assms] obtain n r ses0 m' pat g ses' where
    r: "(n, r) \<in> set montajes" and u: "proteger (ro_uso r) verificar a = Inr ses0"
    and h: "(m', pat, g, h) \<in> set (ro_rutas r)" and g: "proteger g verificar a = Inr ses'"
    and ses: "ses = (if ses' = None then ses0 else ses')" by blast
  show ?thesis
  proof (cases "r = rutas_auth")
    case True
    with h have "g = Libre \<and> (h = ''auth.registrar'' \<or> h = ''auth.login'') \<or> g = Token"
      by (auto simp: rutas_auth_def)
    with True u g ses show ?thesis
      by (auto simp: rutas_auth_def proteger_Libre dest!: proteger_Token verificarToken_Inr)
  next
    case False
    with montajes_guardias [OF r] h have "ro_uso r = Token" "g = Libre" by auto
    with u g ses show ?thesis
      by (auto simp: proteger_Libre dest!: proteger_Token verificarToken_Inr)
  qed
qed

lemma atender_eva_activos:
  "atender verificar_eva GET [''api'', ''tickets'', ''activos''] (Some (''Bearer'' @ CHR '' '' # ''abc'')) =
     Atendida ''tickets.listarActivos'' (Some sesion_eva)"
  by (simp add: atender_def montajes_def rutas_auth_def rutas_empleados_def rutas_clientes_def rutas_vehiculos_def
      rutas_espacios_def rutas_zonas_def rutas_tickets_def proteger_def verificarToken_def token_de_def
      verificar_eva_def buscar_ruta_def ci_eq_def upper_def upper_char_def)

theorem atender_autenticado_witness:
  "\<exists>t. token_de (''Bearer'' @ CHR '' '' # ''abc'') = Some t \<and> verificar_eva t = Valido sesion_eva"
  using atender_autenticado [OF atender_eva_activos] by simp

text \<open>
  C32. No route checks the caller's role (\<open>verificarRol\<close> guards none of them): a
  session with any role, for instance a plain \<open>USUARIO\<close>, is served
  \<open>DELETE /api/roles/:id\<close>, the deletion of a role.
\<close>

theorem roles_sin_control:
  assumes "verificar t = Valido ses" "t \<noteq> []" "CHR '' '' \<notin> set t" "k \<noteq> []"
  shows "atender verificar DELETE [''api'', ''roles'', k] (Some (''Bearer'' @ CHR '' '' # t)) =
           Atendida ''roles.eliminarRol'' (Some ses)"
proof -
  have "token_de (''Bearer'' @ CHR '' '' # t) = Some t"
    using token_de_esquema [of "''Bearer''" t] assms(2,3) by simp
  with assms show ?thesis
    by (simp add: atender_def montajes_def rutas_auth_def rutas_empleados_def rutas_clientes_def
        rutas_vehiculos_def rutas_espacios_def rutas_zonas_def rutas_tickets_def rutas_pagos_def rutas_tarifas_def
        rutas_turnos_def rutas_multas_def rutas_reservas_def rutas_roles_def proteger_def verificarToken_def
        buscar_ruta_def ci_eq_def upper_def upper_char_def)
qed

theorem roles_sin_control_witness:
  "atender verificar_eva DELETE [''api'', ''roles'', ''1''] (Some (''Bearer'' @ CHR '' '' # ''abc'')) =
     Atendida ''roles.eliminarRol'' (Some sesion_eva) \<and> s_rol sesion_eva = Some ''USUARIO''"
  using roles_sin_control [of verificar_eva "''abc''" sesion_eva "''1''"]
  by (simp add: verificar_eva_def sesion_eva_def)

text \<open>
  C33. The protection of the system roles looks at the current name only: a role whose
  name upper-cases to a system role cannot be deleted, but after a rename to any other
  free name it can, with no other check than that no user holds it.
\<close>

theorem rol_sistema_renombrado:
  assumes "tbl_get (roles s) k = Some r" "upper (r_nombre r) \<in> set roles_sistema"
    and "\<not> tbl_exists (\<lambda>u. u_rol_id u = k) (usuarios s)"
    and "n \<noteq> []" "upper n \<notin> set roles_sistema" "\<not> tbl_exists (rol_llamado n) (roles s)"
  shows "eliminarRol k s = Inl (HttpError 403 NoSePuedeEliminar) \<and>
         (\<exists>s' s''. actualizarRol k (Some n) d s = Inr ((), s') \<and> eliminarRol k s' = Inr ((), s'') \<and>
                  tbl_get (roles s'') k = None)"
proof -
  have "eliminarRol k s = Inl (HttpError 403 NoSePuedeEliminar)"
    using assms(1,2) by (simp add: eliminarRol_def)
  moreover
  let ?s' = "s\<lparr>roles := tbl_modify k (\<lambda>x. x\<lparr>r_nombre := n, r_descripcion := d\<rparr>) (roles s)\<rparr>"
  have "actualizarRol k (Some n) d s = Inr ((), ?s')"
    using assms(1,4,6) by (auto simp: actualizarRol_def tbl_exists_iff)
  moreover have "eliminarRol k ?s' = Inr ((), ?s'\<lparr>roles := tbl_delete k (roles ?s')\<rparr>)"
    using assms(1,3,5) by (simp add: eliminarRol_def tbl_count_zero_iff)
  ultimately show ?thesis by auto
qed

theorem rol_sistema_renombrado_witness:
  "eliminarRol 1 (run (db0 0) [OpCrearRol (Some ''ADMIN'') None]) = Inl (HttpError 403 NoSePuedeEliminar) \<and>
   (\<exists>s' s''. actualizarRol 1 (Some ''Jefe'') None (run (db0 0) [OpCrearRol (Some ''ADMIN'') None]) = Inr ((), s') \<and>
      eliminarRol 1 s' = Inr ((), s'') \<and> tbl_get (roles s'') 1 = None)"
proof -
  have "tbl_get (roles (run (db0 0) [OpCrearRol (Some ''ADMIN'') None])) 1 = Some \<lparr>r_nombre = ''ADMIN'', r_descripcion = None\<rparr>"
       "\<not> tbl_exists (\<lambda>u. u_rol_id u = 1) (usuarios (run (db0 0) [OpCrearRol (Some ''ADMIN'') None]))"
       "\<not> tbl_exists (rol_llamado ''Jefe'') (roles (run (db0 0) [OpCrearRol (Some ''ADMIN'') None]))"
    by (simp_all add: eval_defs rol_llamado_def)
  moreover have "upper ''ADMIN'' \<in> set roles_sistema" "upper ''Jefe'' \<notin> set roles_sistema"
    by (simp_all add: roles_sistema_def upper_def upper_char_def char_of_def bit_0)
  ultimately show ?thesis
    using rol_sistema_renombrado [of "run (db0 0) [OpCrearRol (Some ''ADMIN'') None]" 1
            "\<lparr>r_nombre = ''ADMIN'', r_descripcion = None\<rparr>" "''Jefe''" None] by simp
qed

section \<open>Ordering of exit, tariff update and payment\<close>

text \<open>
  C34. The amount a payment expects is computed with the tariff in force when the payment
  is made, not when the ticket was closed: an update of the ticket's tariff between the
  exit and the payment changes the expected amount to the hours charged times the new
  price.
\<close>

theorem pago_con_tarifa_vigente:
  assumes "tbl_get (tickets s1) k = Some t"
    and "actualizarTarifa (t_tarifa_id t) d (Some p) s1 = Inr ((), s2)"
    and "registrarPago (Some k) tp m s2 = Inr ((x, esperado, c), s3)"
  shows "esperado = js_num (sql_horas t) * p"
proof -
  from assms(2) have s2: "tickets s2 = tickets s1"
    "precio_de s2 (t_tarifa_id t) = Some p"
    by (auto simp: actualizarTarifa_def precio_de_def split: if_splits)
  from assms(3) obtain t' where "tbl_get (tickets s2) k = Some t'" "esperado = monto_esperado s2 t'"
    by (auto simp: registrarPago_Inr)
  with assms(1) s2 show ?thesis
    by (simp add: monto_esperado_def js_num_def)
qed

theorem pago_con_tarifa_vigente_witness:
  "\<exists>s2 s3. actualizarTarifa 1 (Some ''hora'') (Some 2000) (run (db0 0) cierre) = Inr ((), s2) \<and>
     registrarPago (Some 1) (Some 1) (Some 5000) s2 = Inr ((1, 6000, 0), s3) \<and> (6000::int) = 3 * 2000"
proof -
  let ?s2 = "run (run (db0 0) cierre) [OpActualizarTarifa 1 (Some ''hora'') (Some 2000)]"
  have t: "tbl_get (tickets (run (db0 0) cierre)) 1 = Some (cerrar 7500 (ticket_nuevo 1 1 7 1 0))"
    by (simp add: cierre_def alta_def preparacion_def eval_defs)
  have a: "actualizarTarifa 1 (Some ''hora'') (Some 2000) (run (db0 0) cierre) = Inr ((), ?s2)"
    by (simp add: cierre_def alta_def preparacion_def eval_defs actualizarTarifa_def)
  have "\<exists>s3. registrarPago (Some 1) (Some 1) (Some 5000) ?s2 = Inr ((1, 6000, 0), s3)"
    by (simp add: cierre_def alta_def preparacion_def eval_defs actualizarTarifa_def)
  then obtain s3 where r: "registrarPago (Some 1) (Some 1) (Some 5000) ?s2 = Inr ((1, 6000, 0), s3)" ..
  have "t_tarifa_id (cerrar 7500 (ticket_nuevo 1 1 7 1 0)) = 1"
    by (simp add: cerrar_def ticket_nuevo_def)
  with pago_con_tarifa_vigente [OF t _ r] a r show ?thesis by auto
qed

section \<open>Body parsing and the error handler\<close>

text \<open>
  C11. The server layer refuses a request only in two ways: a body the parsers of
  \<open>server.js\<close> cannot read is answered 500 \<open>ErrorInterno\<close> by the global error handler, on
  every route and before any authentication, although it is malformed input; and
  otherwise the refusal is one of the four answers of \<open>verificarToken\<close> (401 or 403).
  No request is refused with 400 before it reaches a controller.
\<close>

theorem servir_rechazos:
  assumes "servir verificar m p a c = Rechazada e"
  shows "if c = CuerpoMalformado then e = HttpError 500 ErrorInterno
         else e \<in> {HttpError 403 TokenNoProporcionado, HttpError 403 FormatoTokenInvalido,
                   HttpError 401 TokenExpirado, HttpError 401 TokenInvalido}"
proof (cases "c = CuerpoMalformado")
  case True
  with assms show ?thesis by (simp add: servir_def analizar_cuerpo_def)
next
  case False
  with assms have "atender verificar m p a = Rechazada e"
    by (cases c) (simp_all add: servir_def analizar_cuerpo_def)
  from atender_Rechazada [OF this] obtain g where g: "g = Libre \<or> g = Token" "proteger g verificar a = Inl e"
    by blast
  from proteger_Inl [OF g(2) g(1)] False show ?thesis by simp
qed

lemma servir_login_malformado:
  "servir verificar_eva POST [''api'', ''auth'', ''login''] None CuerpoMalformado = Rechazada (HttpError 500 ErrorInterno)"
  by (simp add: servir_def analizar_cuerpo_def)

lemma servir_sin_token:
  "servir verificar_eva GET [''api'', ''tickets''] None CuerpoValido = Rechazada (HttpError 403 TokenNoProporcionado)"
  by (simp add: servir_def analizar_cuerpo_def atender_def montajes_def rutas_auth_def rutas_empleados_def
      rutas_clientes_def rutas_vehiculos_def rutas_espacios_def rutas_zonas_def rutas_tickets_def proteger_def
      verificarToken_def ci_eq_def upper_def upper_char_def)

theorem servir_rechazos_witness:
  "HttpError 500 ErrorInterno = HttpError 500 ErrorInterno \<and>
   HttpError 403 TokenNoProporcionado \<in> {HttpError 403 TokenNoProporcionado, HttpError 403 FormatoTokenInvalido,
                   HttpError 401 TokenExpirado, HttpError 401 TokenInvalido}"
  using servir_rechazos [OF servir_login_malformado] servir_rechazos [OF servir_sin_token] by simp

end
